theory Spec2Isabelle
  imports Complex_Main "HOL-Library.Option_ord"
begin

section \<open>Values shared by the server modules\<close>

text \<open>
  The repository is an Express application over PostgreSQL (drizzle-orm). It has two
  server modules: the session-backed one (\<^verbatim>\<open>server/routes.ts\<close> over
  \<^verbatim>\<open>server/storage.ts\<close>, validated by the zod schemas of
  \<^verbatim>\<open>shared/schema.ts\<close> and \<^verbatim>\<open>shared/routes.ts\<close>) and the serverless
  one (\<^verbatim>\<open>api/index.ts\<close>), which carries its own storage class and handlers.
  Both are embedded here: a table is a list of rows, a storage method is a function
  from the database to a result and the new database, a handler is a function from
  the session, the request and the database to a response and the new state.

  A request body is the object \<^verbatim>\<open>express.json()\<close> produced: a finite map from
  keys to JSON values.
\<close>

datatype json = JNull | JBool bool | JNum rat | JStr string | JOther

type_synonym body = "string \<Rightarrow> json option"

text \<open>JavaScript truthiness of a \<^verbatim>\<open>string | null | undefined\<close>: the empty string is falsy.\<close>

definition truthy :: "string option \<Rightarrow> bool" where
  "truthy v = (case v of None \<Rightarrow> False | Some s \<Rightarrow> s \<noteq> [])"

text \<open>
  \<^verbatim>\<open>eq(column, param)\<close> on a nullable column against a parameter that may be
  \<^verbatim>\<open>undefined\<close> at run time (\<^verbatim>\<open>req.session.tenantId!\<close> is only asserted by the
  type checker): SQL equality holds only between two non-null equal values.
\<close>

definition sql_eq :: "'a option \<Rightarrow> 'a option \<Rightarrow> bool" where
  "sql_eq col param = (case (col, param) of (Some a, Some b) \<Rightarrow> a = b | _ \<Rightarrow> False)"

section \<open>Tables\<close>

text \<open>
  The column lists follow \<^verbatim>\<open>pgTable\<close> in \<^verbatim>\<open>shared/schema.ts\<close> (and, for
  \<^verbatim>\<open>users\<close>, the copy in \<^verbatim>\<open>api/index.ts\<close> and the migration). A nullable column
  is an option. Timestamps are JavaScript time values (milliseconds since the epoch);
  \<^verbatim>\<open>date\<close> and \<^verbatim>\<open>numeric\<close> columns hold the strings drizzle returns for them.
\<close>

record user =
  u_id :: string
  u_email :: string
  u_passwordHash :: "string option"
  u_firstName :: "string option"
  u_lastName :: "string option"
  u_profileImageUrl :: "string option"
  u_tenantId :: "string option"
  u_role :: "string option"
  u_createdAt :: "int option"
  u_updatedAt :: "int option"

record tenant =
  t_id :: string
  t_name :: string
  t_domain :: "string option"
  t_subdomain :: "string option"
  t_createdAt :: "int option"

record policy =
  p_id :: int
  p_tenantId :: string
  p_provider :: string
  p_policyName :: string
  p_policyNumber :: "string option"
  p_policyType :: string
  p_country :: string
  p_startDate :: string
  p_maturityDate :: "string option"
  p_nextRenewalDate :: "string option"
  p_lastPremiumDate :: "string option"
  p_premium :: "string option"
  p_premiumCurrency :: "string option"
  p_premiumFrequency :: "string option"
  p_nominee :: "string option"
  p_beneficiaryType :: "string option"
  p_paidTo :: "string option"
  p_renewalStatus :: "string option"
  p_notes :: "string option"
  p_documentUrl :: "string option"
  p_createdAt :: "int option"

record investment =
  i_id :: int
  i_tenantId :: string
  i_type :: string
  i_platform :: string
  i_country :: string
  i_currency :: string
  i_initialAmount :: string
  i_currentValue :: string
  i_shares :: "string option"
  i_purchaseDate :: "string option"
  i_lastUpdated :: "int option"
  i_createdAt :: "int option"

text \<open>
  The database: the four tables and the two \<^verbatim>\<open>serial\<close> sequences. Rows are kept in
  insertion order; an update rewrites a row in place.
\<close>

record db =
  users :: "user list"
  tenants :: "tenant list"
  policies :: "policy list"
  investments :: "investment list"
  policies_id_seq :: int
  investments_id_seq :: int

definition empty_db :: db where
  "empty_db = \<lparr>users = [], tenants = [], policies = [], investments = [],
     policies_id_seq = 0, investments_id_seq = 0\<rparr>"

text \<open>
  A statement the database refuses throws in the storage method that issued it.
  \<open>DataException\<close> stands for the errors of SQLSTATE class 22: a parameter that
  the input function of its type does not accept.
\<close>

datatype db_error =
  UniqueViolation | NotNullViolation | DataException | NoValuesToSet | DriverTypeError

text \<open>
  What PostgreSQL makes of the parameters of a statement. They are read when the
  statement is bound, before any row is looked at and before a default is
  evaluated. An \<^verbatim>\<open>id\<close> (\<^verbatim>\<open>serial\<close>) is an \<^verbatim>\<open>int4\<close>. A \<^verbatim>\<open>text\<close> or
  \<^verbatim>\<open>varchar\<close> value is any string without the NUL character. The spellings that
  the input functions of \<^verbatim>\<open>numeric\<close> and \<^verbatim>\<open>date\<close> accept, and the text such a
  value is read back as, depend on the server and its settings: they are parameters
  of the model, \<open>None\<close> for a text that is refused.
\<close>

record postgres =
  numeric_in :: "string \<Rightarrow> string option"
  date_in :: "string \<Rightarrow> string option"

definition in_int4 :: "int \<Rightarrow> bool" where
  "in_int4 n = (- 2147483648 \<le> n \<and> n \<le> 2147483647)"

definition text_in :: "string \<Rightarrow> bool" where
  "text_in s = (CHR 0x00 \<notin> set s)"

section \<open>Sessions and responses\<close>

text \<open>
  \<^verbatim>\<open>SessionData\<close> of \<^verbatim>\<open>server/routes.ts\<close>: both fields are optional. The
  session store maps a session id (the cookie) to its data.
\<close>

record session =
  userId :: "string option"
  tenantId :: "string option"

definition no_session :: session where
  "no_session = \<lparr>userId = None, tenantId = None\<rparr>"

text \<open>The object the auth routes answer with.\<close>

record auth_user =
  au_id :: string
  au_email :: string
  au_firstName :: "string option"
  au_lastName :: "string option"
  au_role :: "string option"
  au_tenantId :: "string option"

text \<open>
  JavaScript numbers are modelled as exact rationals, with \<open>None\<close> for
  \<^verbatim>\<open>NaN\<close>; the rounding of IEEE doubles is not modelled.
\<close>

type_synonym js_number = "rat option"

record dashboard_stats =
  totalPolicies :: nat
  expiringSoon :: nat
  needsRenewal :: nat
  totalInvestments :: nat
  investmentsByCurrency_SEK :: js_number
  investmentsByCurrency_INR :: js_number

record by_type_row =
  bt_type :: string
  bt_value :: js_number
  bt_count :: nat

record by_platform_row =
  bp_platform :: string
  bp_value :: js_number
  bp_count :: nat

record premium_row =
  pr_provider :: string
  pr_monthlyPremium :: js_number
  pr_yearlyPremium :: js_number
  pr_policyCount :: nat
  pr_currency :: string

record analytics =
  investmentsByType :: "by_type_row list"
  investmentsByPlatform :: "by_platform_row list"
  premiumsByProvider :: "premium_row list"
  upcomingRenewals :: "unit list"

text \<open>
  A response is a status with its JSON payload. \<open>ZodMessage k\<close> stands for
  \<^verbatim>\<open>{ message: err.errors[0].message }\<close>, the first issue being the one of key
  \<open>k\<close>. \<open>Rethrown\<close> is a handler whose promise rejects: an error it rethrows
  (\<^verbatim>\<open>throw err\<close>) or does not catch.
\<close>

datatype payload =
    Message string
  | ZodMessage string
  | NoBody
  | AuthUser auth_user
  | UserRow user
  | UserRows "user list"
  | PolicyRow policy
  | PolicyRows "policy list"
  | InvestmentRow investment
  | InvestmentRows "investment list"
  | Stats dashboard_stats
  | Analytics analytics

datatype response = Response nat payload | Rethrown db_error

section \<open>Storage: tenants and users (\<^verbatim>\<open>server/storage.ts\<close>)\<close>

text \<open>
  \<^verbatim>\<open>const [row] = await db.select()...where(...)\<close> is the first matching row or
  \<^verbatim>\<open>undefined\<close>. The parameters of these statements are ids, e-mail addresses,
  names and hashes: all \<^verbatim>\<open>text\<close>, and taken here to hold no NUL character.
\<close>

definition getTenant :: "string \<Rightarrow> db \<Rightarrow> tenant option" where
  "getTenant ident d = find (\<lambda>t. t_id t = ident) (tenants d)"

definition getTenantByDomain :: "string \<Rightarrow> db \<Rightarrow> tenant option" where
  "getTenantByDomain dname d = find (\<lambda>t. t_domain t = Some dname) (tenants d)"

record insert_tenant =
  it_name :: string
  it_domain :: "string option"
  it_subdomain :: "string option"

text \<open>
  \<^verbatim>\<open>createTenant\<close>: \<open>uuid\<close> is what \<^verbatim>\<open>gen_random_uuid()\<close> returned and
  \<open>now\<close> the database clock. The insert fails on the primary key and on the two
  unique columns.
\<close>

definition createTenant :: "string \<Rightarrow> int \<Rightarrow> insert_tenant \<Rightarrow> db \<Rightarrow> db_error + (tenant \<times> db)" where
  "createTenant uuid now t d =
     (if (\<exists>r \<in> set (tenants d). t_id r = uuid
            \<or> sql_eq (t_domain r) (it_domain t) \<or> sql_eq (t_subdomain r) (it_subdomain t))
      then Inl UniqueViolation
      else (let newTenant = \<lparr>t_id = uuid, t_name = it_name t, t_domain = it_domain t,
                               t_subdomain = it_subdomain t, t_createdAt = Some now\<rparr>
            in Inr (newTenant, d\<lparr>tenants := tenants d @ [newTenant]\<rparr>)))"

definition getUser :: "string \<Rightarrow> db \<Rightarrow> user option" where
  "getUser ident d = find (\<lambda>u. u_id u = ident) (users d)"

definition getUserByEmail :: "string \<Rightarrow> db \<Rightarrow> user option" where
  "getUserByEmail email d = find (\<lambda>u. u_email u = email) (users d)"

record create_user =
  cu_email :: string
  cu_passwordHash :: string
  cu_firstName :: "string option"
  cu_lastName :: "string option"
  cu_tenantId :: "string option"
  cu_role :: "string option"

text \<open>\<^verbatim>\<open>createUser\<close>: \<^verbatim>\<open>role: user.role || 'user'\<close>; the email is unique.\<close>

definition createUser :: "string \<Rightarrow> int \<Rightarrow> create_user \<Rightarrow> db \<Rightarrow> db_error + (user \<times> db)" where
  "createUser uuid now c d =
     (if (\<exists>r \<in> set (users d). u_id r = uuid \<or> u_email r = cu_email c)
      then Inl UniqueViolation
      else (let newUser = \<lparr>u_id = uuid, u_email = cu_email c,
                             u_passwordHash = Some (cu_passwordHash c),
                             u_firstName = cu_firstName c, u_lastName = cu_lastName c,
                             u_profileImageUrl = None, u_tenantId = cu_tenantId c,
                             u_role = Some (if truthy (cu_role c) then the (cu_role c) else ''user''),
                             u_createdAt = Some now, u_updatedAt = Some now\<rparr>
            in Inr (newUser, d\<lparr>users := users d @ [newUser]\<rparr>)))"

definition getUsersByTenant :: "string option \<Rightarrow> db \<Rightarrow> user list" where
  "getUsersByTenant tid d = filter (\<lambda>u. sql_eq (u_tenantId u) tid) (users d)"

text \<open>
  \<^verbatim>\<open>update(users).set(...).where(and(eq(users.id, userId), eq(users.tenantId, tenantId)))\<close>:
  every row the condition selects is rewritten; \<^verbatim>\<open>returning()\<close> gives the
  rewritten rows and the method returns the first.
\<close>

definition user_in_tenant :: "string \<Rightarrow> string option \<Rightarrow> user \<Rightarrow> bool" where
  "user_in_tenant uid tid u = (u_id u = uid \<and> sql_eq (u_tenantId u) tid)"

definition updateUserRole :: "string \<Rightarrow> string option \<Rightarrow> string \<Rightarrow> db \<Rightarrow> user option \<times> db" where
  "updateUserRole uid tid role d =
     (let set_role = (\<lambda>u. u\<lparr>u_role := Some role\<rparr>)
      in (map_option set_role (find (user_in_tenant uid tid) (users d)),
          d\<lparr>users := map (\<lambda>u. if user_in_tenant uid tid u then set_role u else u) (users d)\<rparr>))"

definition updateUserPassword :: "int \<Rightarrow> string \<Rightarrow> string \<Rightarrow> db \<Rightarrow> user option \<times> db" where
  "updateUserPassword now uid passwordHash d =
     (let set_pw = (\<lambda>u. u\<lparr>u_passwordHash := Some passwordHash, u_updatedAt := Some now\<rparr>)
      in (map_option set_pw (find (\<lambda>u. u_id u = uid) (users d)),
          d\<lparr>users := map (\<lambda>u. if u_id u = uid then set_pw u else u) (users d)\<rparr>))"

definition removeUserFromTenant :: "string \<Rightarrow> string option \<Rightarrow> db \<Rightarrow> db" where
  "removeUserFromTenant uid tid d =
     d\<lparr>users := map (\<lambda>u. if user_in_tenant uid tid u
                            then u\<lparr>u_tenantId := None, u_role := Some ''user''\<rparr> else u) (users d)\<rparr>"

section \<open>Authentication gate and admin routes (\<^verbatim>\<open>server/routes.ts\<close>)\<close>

text \<open>
  The \<^verbatim>\<open>/api\<close> middleware answers 401 unless \<^verbatim>\<open>req.session.userId\<close> is
  truthy (the three public auth paths apart); \<open>authenticated\<close> is the user id it
  lets through.
\<close>

definition authenticated :: "session \<Rightarrow> string option" where
  "authenticated s = (if truthy (userId s) then userId s else None)"

definition unauthorized :: response where
  "unauthorized = Response 401 (Message ''Unauthorized'')"

text \<open>\<^verbatim>\<open>isAdmin\<close>: the requester's row is read again on every request.\<close>

definition isAdmin :: "string \<Rightarrow> db \<Rightarrow> bool" where
  "isAdmin uid d = (case getUser uid d of None \<Rightarrow> False | Some u \<Rightarrow> u_role u = Some ''admin'')"

definition forbidden :: response where
  "forbidden = Response 403 (Message ''Admin access required'')"

text \<open>\<^verbatim>\<open>GET /api/admin/users\<close>\<close>

definition get_admin_users :: "session \<Rightarrow> db \<Rightarrow> response" where
  "get_admin_users s d =
     (case authenticated s of None \<Rightarrow> unauthorized
      | Some me \<Rightarrow>
          if \<not> isAdmin me d then forbidden
          else Response 200 (UserRows (getUsersByTenant (tenantId s) d)))"

text \<open>
  \<^verbatim>\<open>PUT /api/admin/users/:userId/role\<close>. \<open>target\<close> is \<^verbatim>\<open>req.params.userId\<close>
  and the role is read from the body unvalidated (\<^verbatim>\<open>req.body.role as string\<close>).
\<close>

definition put_admin_users_role :: "session \<Rightarrow> string \<Rightarrow> body \<Rightarrow> db \<Rightarrow> response \<times> db" where
  "put_admin_users_role s target b d =
     (case authenticated s of None \<Rightarrow> (unauthorized, d)
      | Some me \<Rightarrow>
          if \<not> isAdmin me d then (forbidden, d)
          else (case b ''role'' of
              Some (JStr role) \<Rightarrow>
                if role \<noteq> ''admin'' \<and> role \<noteq> ''user''
                then (Response 400 (Message ''Invalid role''), d)
                else if target = me \<and> role = ''user''
                then (Response 400
                        (Message ''Cannot demote yourself. Ask another admin to change your role.''), d)
                else (case updateUserRole target (tenantId s) role d of
                    (None, d') \<Rightarrow> (Response 404 (Message ''User not found''), d')
                  | (Some updated, d') \<Rightarrow> (Response 200 (UserRow updated), d'))
            | _ \<Rightarrow> (Response 400 (Message ''Invalid role''), d)))"

text \<open>\<^verbatim>\<open>DELETE /api/admin/users/:userId\<close>\<close>

definition delete_admin_users :: "session \<Rightarrow> string \<Rightarrow> db \<Rightarrow> response \<times> db" where
  "delete_admin_users s target d =
     (case authenticated s of None \<Rightarrow> (unauthorized, d)
      | Some me \<Rightarrow>
          if \<not> isAdmin me d then (forbidden, d)
          else if target = me then (Response 400 (Message ''Cannot remove yourself''), d)
          else (Response 204 NoBody, removeUserFromTenant target (tenantId s) d))"

section \<open>Validated payloads (\<^verbatim>\<open>shared/schema.ts\<close>, \<^verbatim>\<open>shared/routes.ts\<close>)\<close>

text \<open>
  A key of a validated object whose column is nullable is absent (\<^verbatim>\<open>undefined\<close>),
  \<^verbatim>\<open>null\<close> or a value; drizzle skips an absent key in \<^verbatim>\<open>.set\<close> and
  \<^verbatim>\<open>.values\<close> and writes SQL \<^verbatim>\<open>NULL\<close> for \<^verbatim>\<open>null\<close>.
\<close>

datatype 'a optional = Undefined | Null | Given 'a

text \<open>
  The timestamp column \<^verbatim>\<open>lastUpdated\<close> is given either the string the client
  sent (the schema declares it \<^verbatim>\<open>z.string().optional()\<close>) or a \<^verbatim>\<open>Date\<close>.
\<close>

datatype ts_value = TsString string | TsDate int

text \<open>
  \<open>policy_values\<close> is the object given to \<^verbatim>\<open>insert(policies).values\<close> and
  \<^verbatim>\<open>update(policies).set\<close>: \<^verbatim>\<open>InsertPolicy\<close> and its \<^verbatim>\<open>Partial\<close>. A key of a
  \<^verbatim>\<open>notNull\<close> column is absent (\<open>None\<close>) or a string.
\<close>

record policy_values =
  pv_tenantId :: "string option"
  pv_provider :: "string option"
  pv_policyName :: "string option"
  pv_policyNumber :: "string optional"
  pv_policyType :: "string option"
  pv_country :: "string option"
  pv_startDate :: "string option"
  pv_maturityDate :: "string option"
  pv_nextRenewalDate :: "string option"
  pv_lastPremiumDate :: "string option"
  pv_premium :: "string optional"
  pv_premiumCurrency :: "string optional"
  pv_premiumFrequency :: "string optional"
  pv_nominee :: "string optional"
  pv_beneficiaryType :: "string optional"
  pv_paidTo :: "string optional"
  pv_notes :: "string optional"
  pv_documentUrl :: "string optional"

record investment_values =
  iv_tenantId :: "string option"
  iv_type :: "string option"
  iv_platform :: "string option"
  iv_country :: "string option"
  iv_currency :: "string option"
  iv_initialAmount :: "string option"
  iv_currentValue :: "string option"
  iv_shares :: "string option"
  iv_purchaseDate :: "string option"
  iv_lastUpdated :: "ts_value option"

text \<open>
  The field validators the schemas are built from. \<open>ZString\<close> is
  \<^verbatim>\<open>z.string()\<close> (a \<^verbatim>\<open>notNull\<close> column without default), \<open>ZStringOpt\<close> is
  \<^verbatim>\<open>z.string().optional()\<close> (a \<^verbatim>\<open>notNull\<close> column with a default),
  \<open>ZStringNullish\<close> a nullable column, \<open>ZStartDate\<close> is
  \<^verbatim>\<open>z.string().min(1, ...).transform(...)\<close>, \<open>ZDateLike\<close> is
  \<^verbatim>\<open>z.union([z.string(), z.null()]).optional().transform(...)\<close> and \<open>ZTrimmedOpt\<close> is
  \<^verbatim>\<open>z.string().optional().transform(...)\<close>. Under \<^verbatim>\<open>.partial()\<close> every key may
  be absent.
\<close>

datatype zkind = ZString | ZStringOpt | ZStringNullish | ZStartDate | ZDateLike | ZTrimmedOpt

definition zvalid :: "bool \<Rightarrow> zkind \<Rightarrow> json option \<Rightarrow> bool" where
  "zvalid partial k v =
     (case v of
        None \<Rightarrow> partial \<or> (k \<noteq> ZString \<and> k \<noteq> ZStartDate)
      | Some (JStr s) \<Rightarrow> k \<noteq> ZStartDate \<or> s \<noteq> []
      | Some JNull \<Rightarrow> k = ZStringNullish \<or> k = ZDateLike
      | Some _ \<Rightarrow> False)"

text \<open>The first issue of a parse is the one of the first invalid key of the shape.\<close>

definition first_issue :: "bool \<Rightarrow> (string \<times> zkind) list \<Rightarrow> body \<Rightarrow> string option" where
  "first_issue partial shape b =
     map_option fst (find (\<lambda>(key, k). \<not> zvalid partial k (b key)) shape)"

definition is_space :: "char \<Rightarrow> bool" where
  "is_space c = (c = CHR '' '' \<or> c = CHR 0x09 \<or> c = CHR 0x0A \<or> c = CHR 0x0B
                 \<or> c = CHR 0x0C \<or> c = CHR 0x0D)"

text \<open>\<^verbatim>\<open>val.trim() !== ""\<close>\<close>

definition non_blank :: "string \<Rightarrow> bool" where
  "non_blank s = (\<not> list_all is_space s)"

definition str_opt :: "json option \<Rightarrow> string option" where
  "str_opt v = (case v of Some (JStr s) \<Rightarrow> Some s | _ \<Rightarrow> None)"

definition str_nullish :: "json option \<Rightarrow> string optional" where
  "str_nullish v = (case v of Some (JStr s) \<Rightarrow> Given s | Some JNull \<Rightarrow> Null | _ \<Rightarrow> Undefined)"

text \<open>\<^verbatim>\<open>(val) => val && val.trim() !== "" ? val : undefined\<close>\<close>

definition str_trimmed :: "json option \<Rightarrow> string option" where
  "str_trimmed v = (case v of Some (JStr s) \<Rightarrow> if non_blank s then Some s else None | _ \<Rightarrow> None)"

text \<open>
  \<^verbatim>\<open>insertPolicySchema.omit({ tenantId: true })\<close>, the input of the policy routes:
  the columns of \<^verbatim>\<open>policies\<close> without \<^verbatim>\<open>id\<close>, \<^verbatim>\<open>createdAt\<close>,
  \<^verbatim>\<open>renewalStatus\<close> and \<^verbatim>\<open>tenantId\<close>. A zod object drops the keys its shape
  does not name, so a \<^verbatim>\<open>tenantId\<close> of the body never reaches the output.
\<close>

definition policy_shape :: "(string \<times> zkind) list" where
  "policy_shape =
     [(''provider'', ZString), (''policyName'', ZString), (''policyNumber'', ZStringNullish),
      (''policyType'', ZString), (''country'', ZString), (''startDate'', ZStartDate),
      (''maturityDate'', ZDateLike), (''nextRenewalDate'', ZDateLike),
      (''lastPremiumDate'', ZDateLike), (''premium'', ZStringNullish),
      (''premiumCurrency'', ZStringNullish), (''premiumFrequency'', ZStringNullish),
      (''nominee'', ZStringNullish), (''beneficiaryType'', ZStringNullish),
      (''paidTo'', ZStringNullish), (''notes'', ZStringNullish),
      (''documentUrl'', ZStringNullish)]"

definition parse_policy :: "bool \<Rightarrow> body \<Rightarrow> string + policy_values" where
  "parse_policy partial b =
     (case first_issue partial policy_shape b of
        Some key \<Rightarrow> Inl key
      | None \<Rightarrow> Inr
         \<lparr>pv_tenantId = None,
          pv_provider = str_opt (b ''provider''),
          pv_policyName = str_opt (b ''policyName''),
          pv_policyNumber = str_nullish (b ''policyNumber''),
          pv_policyType = str_opt (b ''policyType''),
          pv_country = str_opt (b ''country''),
          pv_startDate = str_trimmed (b ''startDate''),
          pv_maturityDate = str_trimmed (b ''maturityDate''),
          pv_nextRenewalDate = str_trimmed (b ''nextRenewalDate''),
          pv_lastPremiumDate = str_trimmed (b ''lastPremiumDate''),
          pv_premium = str_nullish (b ''premium''),
          pv_premiumCurrency = str_nullish (b ''premiumCurrency''),
          pv_premiumFrequency = str_nullish (b ''premiumFrequency''),
          pv_nominee = str_nullish (b ''nominee''),
          pv_beneficiaryType = str_nullish (b ''beneficiaryType''),
          pv_paidTo = str_nullish (b ''paidTo''),
          pv_notes = str_nullish (b ''notes''),
          pv_documentUrl = str_nullish (b ''documentUrl'')\<rparr>)"

text \<open>
  \<^verbatim>\<open>insertInvestmentSchema\<close>, the input of the investment routes: here
  \<^verbatim>\<open>tenantId\<close> is not omitted, so it is a key of the shape (required on create,
  optional under \<^verbatim>\<open>.partial()\<close>) and of the output.
\<close>

definition investment_shape :: "(string \<times> zkind) list" where
  "investment_shape =
     [(''tenantId'', ZString), (''type'', ZString), (''platform'', ZString),
      (''country'', ZStringOpt), (''currency'', ZStringOpt), (''initialAmount'', ZString),
      (''currentValue'', ZString), (''shares'', ZTrimmedOpt), (''purchaseDate'', ZTrimmedOpt),
      (''lastUpdated'', ZTrimmedOpt)]"

definition parse_investment :: "bool \<Rightarrow> body \<Rightarrow> string + investment_values" where
  "parse_investment partial b =
     (case first_issue partial investment_shape b of
        Some key \<Rightarrow> Inl key
      | None \<Rightarrow> Inr
         \<lparr>iv_tenantId = str_opt (b ''tenantId''),
          iv_type = str_opt (b ''type''),
          iv_platform = str_opt (b ''platform''),
          iv_country = str_opt (b ''country''),
          iv_currency = str_opt (b ''currency''),
          iv_initialAmount = str_opt (b ''initialAmount''),
          iv_currentValue = str_opt (b ''currentValue''),
          iv_shares = str_trimmed (b ''shares''),
          iv_purchaseDate = str_trimmed (b ''purchaseDate''),
          iv_lastUpdated = map_option TsString (str_trimmed (b ''lastUpdated''))\<rparr>)"

section \<open>Storage: policies and investments (\<^verbatim>\<open>server/storage.ts\<close>)\<close>

text \<open>\<^verbatim>\<open>orderBy(desc(createdAt))\<close>: newest first, \<^verbatim>\<open>NULL\<close> before every value.\<close>

definition newest_first :: "('a \<Rightarrow> int option) \<Rightarrow> 'a list \<Rightarrow> 'a list" where
  "newest_first created rows = sort_key (\<lambda>r. map_option uminus (created r)) rows"

text \<open>How a key of the values object becomes a column value.\<close>

definition set_col :: "'a option \<Rightarrow> 'a \<Rightarrow> 'a" where
  "set_col v old = (case v of None \<Rightarrow> old | Some x \<Rightarrow> x)"

definition set_nullable :: "'a optional \<Rightarrow> 'a option \<Rightarrow> 'a option" where
  "set_nullable v old = (case v of Undefined \<Rightarrow> old | Null \<Rightarrow> None | Given x \<Rightarrow> Some x)"

definition set_some :: "'a option \<Rightarrow> 'a option \<Rightarrow> 'a option" where
  "set_some v old = (case v of None \<Rightarrow> old | Some x \<Rightarrow> Some x)"

definition owned_by :: "string option \<Rightarrow> string \<Rightarrow> bool" where
  "owned_by tid row_tenant = (tid = Some row_tenant)"

definition getPolicies :: "string option \<Rightarrow> db \<Rightarrow> policy list" where
  "getPolicies tid d = newest_first p_createdAt (filter (\<lambda>p. owned_by tid (p_tenantId p)) (policies d))"

text \<open>
  The values of an insert or update as the database reads them: \<open>None\<close> when one
  of them is refused, otherwise the values with every \<^verbatim>\<open>date\<close> and \<^verbatim>\<open>numeric\<close>
  as it will be read back. The tenant id of a \<^verbatim>\<open>where\<close> clause comes from the
  session, which took it from a row of \<^verbatim>\<open>users\<close>.
\<close>

definition text_opt_in :: "string option \<Rightarrow> bool" where
  "text_opt_in v = (case v of None \<Rightarrow> True | Some s \<Rightarrow> text_in s)"

definition text_nullable_in :: "string optional \<Rightarrow> bool" where
  "text_nullable_in v = (case v of Given s \<Rightarrow> text_in s | _ \<Rightarrow> True)"

definition read_opt :: "(string \<Rightarrow> string option) \<Rightarrow> string option \<Rightarrow> string option option" where
  "read_opt input v = (case v of None \<Rightarrow> Some None | Some s \<Rightarrow> map_option Some (input s))"

definition read_nullable :: "(string \<Rightarrow> string option) \<Rightarrow> string optional
    \<Rightarrow> string optional option" where
  "read_nullable input v =
     (case v of Given s \<Rightarrow> map_option Given (input s) | Null \<Rightarrow> Some Null
      | Undefined \<Rightarrow> Some Undefined)"

definition policy_in :: "postgres \<Rightarrow> policy_values \<Rightarrow> policy_values option" where
  "policy_in pg v =
     (if text_opt_in (pv_tenantId v) \<and> text_opt_in (pv_provider v)
         \<and> text_opt_in (pv_policyName v) \<and> text_nullable_in (pv_policyNumber v)
         \<and> text_opt_in (pv_policyType v) \<and> text_opt_in (pv_country v)
         \<and> text_nullable_in (pv_premiumCurrency v) \<and> text_nullable_in (pv_premiumFrequency v)
         \<and> text_nullable_in (pv_nominee v) \<and> text_nullable_in (pv_beneficiaryType v)
         \<and> text_nullable_in (pv_paidTo v) \<and> text_nullable_in (pv_notes v)
         \<and> text_nullable_in (pv_documentUrl v)
      then Option.bind (read_opt (date_in pg) (pv_startDate v)) (\<lambda>startDate.
           Option.bind (read_opt (date_in pg) (pv_maturityDate v)) (\<lambda>maturityDate.
           Option.bind (read_opt (date_in pg) (pv_nextRenewalDate v)) (\<lambda>nextRenewalDate.
           Option.bind (read_opt (date_in pg) (pv_lastPremiumDate v)) (\<lambda>lastPremiumDate.
           Option.bind (read_nullable (numeric_in pg) (pv_premium v)) (\<lambda>premium.
             Some (v\<lparr>pv_startDate := startDate, pv_maturityDate := maturityDate,
                      pv_nextRenewalDate := nextRenewalDate,
                      pv_lastPremiumDate := lastPremiumDate, pv_premium := premium\<rparr>))))))
      else None)"

definition investment_in :: "postgres \<Rightarrow> investment_values \<Rightarrow> investment_values option" where
  "investment_in pg v =
     (if text_opt_in (iv_tenantId v) \<and> text_opt_in (iv_type v) \<and> text_opt_in (iv_platform v)
         \<and> text_opt_in (iv_country v) \<and> text_opt_in (iv_currency v)
      then Option.bind (read_opt (numeric_in pg) (iv_initialAmount v)) (\<lambda>initialAmount.
           Option.bind (read_opt (numeric_in pg) (iv_currentValue v)) (\<lambda>currentValue.
           Option.bind (read_opt (numeric_in pg) (iv_shares v)) (\<lambda>shares.
           Option.bind (read_opt (date_in pg) (iv_purchaseDate v)) (\<lambda>purchaseDate.
             Some (v\<lparr>iv_initialAmount := initialAmount, iv_currentValue := currentValue,
                      iv_shares := shares, iv_purchaseDate := purchaseDate\<rparr>)))))
      else None)"

definition getPolicy :: "int \<Rightarrow> string option \<Rightarrow> db \<Rightarrow> db_error + policy option" where
  "getPolicy ident tid d =
     (if \<not> in_int4 ident then Inl DataException
      else Inr (find (\<lambda>p. p_id p = ident \<and> owned_by tid (p_tenantId p)) (policies d)))"

text \<open>
  \<^verbatim>\<open>createPolicy\<close>: a value the database cannot read is refused at once; once
  the values are read the sequence advances whether or not the row is accepted; a
  missing \<^verbatim>\<open>notNull\<close> column is refused; \<open>now\<close> is the database clock.
\<close>

definition createPolicy :: "postgres \<Rightarrow> int \<Rightarrow> policy_values \<Rightarrow> db
    \<Rightarrow> (db_error + policy) \<times> db" where
  "createPolicy pg now vals d =
     (case policy_in pg vals of None \<Rightarrow> (Inl DataException, d)
      | Some v \<Rightarrow>
     (let d1 = d\<lparr>policies_id_seq := policies_id_seq d + 1\<rparr> in
      if pv_tenantId v = None \<or> pv_provider v = None \<or> pv_policyName v = None
         \<or> pv_policyType v = None \<or> pv_country v = None \<or> pv_startDate v = None
      then (Inl NotNullViolation, d1)
      else if (\<exists>p \<in> set (policies d). p_id p = policies_id_seq d1)
      then (Inl UniqueViolation, d1)
      else (let newPolicy =
              \<lparr>p_id = policies_id_seq d1,
               p_tenantId = the (pv_tenantId v),
               p_provider = the (pv_provider v),
               p_policyName = the (pv_policyName v),
               p_policyNumber = set_nullable (pv_policyNumber v) None,
               p_policyType = the (pv_policyType v),
               p_country = the (pv_country v),
               p_startDate = the (pv_startDate v),
               p_maturityDate = pv_maturityDate v,
               p_nextRenewalDate = pv_nextRenewalDate v,
               p_lastPremiumDate = pv_lastPremiumDate v,
               p_premium = set_nullable (pv_premium v) None,
               p_premiumCurrency = set_nullable (pv_premiumCurrency v) (Some ''SEK''),
               p_premiumFrequency = set_nullable (pv_premiumFrequency v) None,
               p_nominee = set_nullable (pv_nominee v) None,
               p_beneficiaryType = set_nullable (pv_beneficiaryType v) None,
               p_paidTo = set_nullable (pv_paidTo v) None,
               p_renewalStatus = Some ''active'',
               p_notes = set_nullable (pv_notes v) None,
               p_documentUrl = set_nullable (pv_documentUrl v) None,
               p_createdAt = Some now\<rparr>
            in (Inr newPolicy, d1\<lparr>policies := policies d @ [newPolicy]\<rparr>))))"

text \<open>\<^verbatim>\<open>update(policies).set(updates)\<close> on one row.\<close>

definition set_policy :: "policy_values \<Rightarrow> policy \<Rightarrow> policy" where
  "set_policy v p =
     p\<lparr>p_tenantId := set_col (pv_tenantId v) (p_tenantId p),
       p_provider := set_col (pv_provider v) (p_provider p),
       p_policyName := set_col (pv_policyName v) (p_policyName p),
       p_policyNumber := set_nullable (pv_policyNumber v) (p_policyNumber p),
       p_policyType := set_col (pv_policyType v) (p_policyType p),
       p_country := set_col (pv_country v) (p_country p),
       p_startDate := set_col (pv_startDate v) (p_startDate p),
       p_maturityDate := set_some (pv_maturityDate v) (p_maturityDate p),
       p_nextRenewalDate := set_some (pv_nextRenewalDate v) (p_nextRenewalDate p),
       p_lastPremiumDate := set_some (pv_lastPremiumDate v) (p_lastPremiumDate p),
       p_premium := set_nullable (pv_premium v) (p_premium p),
       p_premiumCurrency := set_nullable (pv_premiumCurrency v) (p_premiumCurrency p),
       p_premiumFrequency := set_nullable (pv_premiumFrequency v) (p_premiumFrequency p),
       p_nominee := set_nullable (pv_nominee v) (p_nominee p),
       p_beneficiaryType := set_nullable (pv_beneficiaryType v) (p_beneficiaryType p),
       p_paidTo := set_nullable (pv_paidTo v) (p_paidTo p),
       p_notes := set_nullable (pv_notes v) (p_notes p),
       p_documentUrl := set_nullable (pv_documentUrl v) (p_documentUrl p)\<rparr>"

text \<open>An object without a single defined key: drizzle throws \<^verbatim>\<open>No values to set\<close>.\<close>

definition no_policy_values :: "policy_values \<Rightarrow> bool" where
  "no_policy_values v =
     (pv_tenantId v = None \<and> pv_provider v = None \<and> pv_policyName v = None
      \<and> pv_policyNumber v = Undefined \<and> pv_policyType v = None \<and> pv_country v = None
      \<and> pv_startDate v = None \<and> pv_maturityDate v = None \<and> pv_nextRenewalDate v = None
      \<and> pv_lastPremiumDate v = None \<and> pv_premium v = Undefined
      \<and> pv_premiumCurrency v = Undefined \<and> pv_premiumFrequency v = Undefined
      \<and> pv_nominee v = Undefined \<and> pv_beneficiaryType v = Undefined
      \<and> pv_paidTo v = Undefined \<and> pv_notes v = Undefined \<and> pv_documentUrl v = Undefined)"

definition updatePolicy :: "postgres \<Rightarrow> int \<Rightarrow> string option \<Rightarrow> policy_values \<Rightarrow> db
    \<Rightarrow> db_error + (policy option \<times> db)" where
  "updatePolicy pg ident tid updates d =
     (let hit = (\<lambda>p. p_id p = ident \<and> owned_by tid (p_tenantId p)) in
      if no_policy_values updates then Inl NoValuesToSet
      else if \<not> in_int4 ident then Inl DataException
      else (case policy_in pg updates of
              None \<Rightarrow> Inl DataException
            | Some v \<Rightarrow>
                Inr (map_option (set_policy v) (find hit (policies d)),
                     d\<lparr>policies := map (\<lambda>p. if hit p then set_policy v p else p) (policies d)\<rparr>)))"

definition deletePolicy :: "int \<Rightarrow> string option \<Rightarrow> db \<Rightarrow> db_error + db" where
  "deletePolicy ident tid d =
     (if \<not> in_int4 ident then Inl DataException
      else Inr (d\<lparr>policies :=
                  filter (\<lambda>p. \<not> (p_id p = ident \<and> owned_by tid (p_tenantId p))) (policies d)\<rparr>))"

definition getInvestments :: "string option \<Rightarrow> db \<Rightarrow> investment list" where
  "getInvestments tid d =
     newest_first i_createdAt (filter (\<lambda>i. owned_by tid (i_tenantId i)) (investments d))"

definition getInvestment :: "int \<Rightarrow> string option \<Rightarrow> db \<Rightarrow> db_error + investment option" where
  "getInvestment ident tid d =
     (if \<not> in_int4 ident then Inl DataException
      else Inr (find (\<lambda>i. i_id i = ident \<and> owned_by tid (i_tenantId i)) (investments d)))"

text \<open>
  A \<^verbatim>\<open>timestamp\<close> column maps its value with \<^verbatim>\<open>value.toISOString()\<close>: a string
  where a \<^verbatim>\<open>Date\<close> is expected throws before the statement is sent.
\<close>

definition ts_throws :: "ts_value option \<Rightarrow> bool" where
  "ts_throws v = (case v of Some (TsString _) \<Rightarrow> True | _ \<Rightarrow> False)"

definition set_ts :: "ts_value option \<Rightarrow> int option \<Rightarrow> int option" where
  "set_ts v old = (case v of Some (TsDate t) \<Rightarrow> Some t | _ \<Rightarrow> old)"

definition createInvestment :: "postgres \<Rightarrow> int \<Rightarrow> investment_values \<Rightarrow> db
    \<Rightarrow> (db_error + investment) \<times> db" where
  "createInvestment pg now vals d =
     (if ts_throws (iv_lastUpdated vals) then (Inl DriverTypeError, d)
      else case investment_in pg vals of None \<Rightarrow> (Inl DataException, d)
      | Some v \<Rightarrow>
     (let d1 = d\<lparr>investments_id_seq := investments_id_seq d + 1\<rparr> in
      if iv_tenantId v = None \<or> iv_type v = None \<or> iv_platform v = None
         \<or> iv_initialAmount v = None \<or> iv_currentValue v = None
      then (Inl NotNullViolation, d1)
      else if (\<exists>i \<in> set (investments d). i_id i = investments_id_seq d1)
      then (Inl UniqueViolation, d1)
      else (let newInvestment =
              \<lparr>i_id = investments_id_seq d1,
               i_tenantId = the (iv_tenantId v),
               i_type = the (iv_type v),
               i_platform = the (iv_platform v),
               i_country = set_col (iv_country v) ''SWEDEN'',
               i_currency = set_col (iv_currency v) ''SEK'',
               i_initialAmount = the (iv_initialAmount v),
               i_currentValue = the (iv_currentValue v),
               i_shares = iv_shares v,
               i_purchaseDate = iv_purchaseDate v,
               i_lastUpdated = set_ts (iv_lastUpdated v) (Some now),
               i_createdAt = Some now\<rparr>
            in (Inr newInvestment, d1\<lparr>investments := investments d @ [newInvestment]\<rparr>))))"

definition set_investment :: "investment_values \<Rightarrow> investment \<Rightarrow> investment" where
  "set_investment v i =
     i\<lparr>i_tenantId := set_col (iv_tenantId v) (i_tenantId i),
       i_type := set_col (iv_type v) (i_type i),
       i_platform := set_col (iv_platform v) (i_platform i),
       i_country := set_col (iv_country v) (i_country i),
       i_currency := set_col (iv_currency v) (i_currency i),
       i_initialAmount := set_col (iv_initialAmount v) (i_initialAmount i),
       i_currentValue := set_col (iv_currentValue v) (i_currentValue i),
       i_shares := set_some (iv_shares v) (i_shares i),
       i_purchaseDate := set_some (iv_purchaseDate v) (i_purchaseDate i),
       i_lastUpdated := set_ts (iv_lastUpdated v) (i_lastUpdated i)\<rparr>"

definition no_investment_values :: "investment_values \<Rightarrow> bool" where
  "no_investment_values v =
     (iv_tenantId v = None \<and> iv_type v = None \<and> iv_platform v = None \<and> iv_country v = None
      \<and> iv_currency v = None \<and> iv_initialAmount v = None \<and> iv_currentValue v = None
      \<and> iv_shares v = None \<and> iv_purchaseDate v = None \<and> iv_lastUpdated v = None)"

text \<open>
  \<^verbatim>\<open>updateInvestment\<close>: \<open>now\<close> is \<^verbatim>\<open>new Date()\<close> of the server;
  \<^verbatim>\<open>{ ...updates, lastUpdated: new Date() }\<close> replaces whatever \<^verbatim>\<open>lastUpdated\<close>
  the updates carried. The statement is refused when the id or one of the other
  values cannot be read, and then no row is written.
\<close>

definition updateInvestment :: "postgres \<Rightarrow> int \<Rightarrow> int \<Rightarrow> string option \<Rightarrow> investment_values
    \<Rightarrow> db \<Rightarrow> db_error + (investment option \<times> db)" where
  "updateInvestment pg now ident tid updates d =
     (let updatesWithTimestamp = updates\<lparr>iv_lastUpdated := Some (TsDate now)\<rparr>;
          hit = (\<lambda>i. i_id i = ident \<and> owned_by tid (i_tenantId i)) in
      if ts_throws (iv_lastUpdated updatesWithTimestamp) then Inl DriverTypeError
      else if no_investment_values updatesWithTimestamp then Inl NoValuesToSet
      else if \<not> in_int4 ident then Inl DataException
      else (case investment_in pg updatesWithTimestamp of
              None \<Rightarrow> Inl DataException
            | Some v \<Rightarrow>
                Inr (map_option (set_investment v) (find hit (investments d)),
                     d\<lparr>investments := map (\<lambda>i. if hit i then set_investment v i else i)
                                         (investments d)\<rparr>)))"

definition deleteInvestment :: "int \<Rightarrow> string option \<Rightarrow> db \<Rightarrow> db_error + db" where
  "deleteInvestment ident tid d =
     (if \<not> in_int4 ident then Inl DataException
      else Inr (d\<lparr>investments :=
                  filter (\<lambda>i. \<not> (i_id i = ident \<and> owned_by tid (i_tenantId i))) (investments d)\<rparr>))"

section \<open>Policy and investment routes (\<^verbatim>\<open>server/routes.ts\<close>)\<close>

text \<open>
  \<open>ident\<close> is \<^verbatim>\<open>Number(req.params.id)\<close>; path parameters that are not integers
  are outside the model (the database refuses them as it refuses an integer that
  is not an \<^verbatim>\<open>int4\<close>). Every route below sits behind the \<^verbatim>\<open>/api\<close>
  middleware. \<open>Rethrown\<close> is the outcome of a handler whose promise rejects:
  the handler itself sends no response.
\<close>

definition get_policies :: "session \<Rightarrow> db \<Rightarrow> response" where
  "get_policies s d =
     (case authenticated s of None \<Rightarrow> unauthorized
      | Some _ \<Rightarrow> Response 200 (PolicyRows (getPolicies (tenantId s) d)))"

definition get_policies_id :: "session \<Rightarrow> int \<Rightarrow> db \<Rightarrow> response" where
  "get_policies_id s ident d =
     (case authenticated s of None \<Rightarrow> unauthorized
      | Some _ \<Rightarrow>
         (case getPolicy ident (tenantId s) d of
            Inl err \<Rightarrow> Rethrown err
          | Inr None \<Rightarrow> Response 404 (Message ''Policy not found'')
          | Inr (Some policy) \<Rightarrow> Response 200 (PolicyRow policy)))"

text \<open>\<^verbatim>\<open>storage.createPolicy({ ...input, tenantId: req.session.tenantId! })\<close>\<close>

definition post_policies :: "postgres \<Rightarrow> int \<Rightarrow> session \<Rightarrow> body \<Rightarrow> db \<Rightarrow> response \<times> db" where
  "post_policies pg now s b d =
     (case authenticated s of None \<Rightarrow> (unauthorized, d)
      | Some _ \<Rightarrow>
         (case parse_policy False b of
            Inl key \<Rightarrow> (Response 400 (ZodMessage key), d)
          | Inr input \<Rightarrow>
             (case createPolicy pg now (input\<lparr>pv_tenantId := tenantId s\<rparr>) d of
                (Inl err, d') \<Rightarrow> (Rethrown err, d')
              | (Inr policy, d') \<Rightarrow> (Response 201 (PolicyRow policy), d'))))"

definition put_policies_id :: "postgres \<Rightarrow> session \<Rightarrow> int \<Rightarrow> body \<Rightarrow> db \<Rightarrow> response \<times> db" where
  "put_policies_id pg s ident b d =
     (case authenticated s of None \<Rightarrow> (unauthorized, d)
      | Some _ \<Rightarrow>
         (case parse_policy True b of
            Inl key \<Rightarrow> (Response 400 (ZodMessage key), d)
          | Inr input \<Rightarrow>
             (case updatePolicy pg ident (tenantId s) input d of
                Inl err \<Rightarrow> (Rethrown err, d)
              | Inr (None, d') \<Rightarrow> (Response 404 (Message ''Policy not found''), d')
              | Inr (Some policy, d') \<Rightarrow> (Response 200 (PolicyRow policy), d'))))"

definition delete_policies_id :: "session \<Rightarrow> int \<Rightarrow> db \<Rightarrow> response \<times> db" where
  "delete_policies_id s ident d =
     (case authenticated s of None \<Rightarrow> (unauthorized, d)
      | Some _ \<Rightarrow>
         (case deletePolicy ident (tenantId s) d of
            Inl err \<Rightarrow> (Rethrown err, d)
          | Inr d' \<Rightarrow> (Response 204 NoBody, d')))"

definition get_investments :: "session \<Rightarrow> db \<Rightarrow> response" where
  "get_investments s d =
     (case authenticated s of None \<Rightarrow> unauthorized
      | Some _ \<Rightarrow> Response 200 (InvestmentRows (getInvestments (tenantId s) d)))"

definition post_investments :: "postgres \<Rightarrow> int \<Rightarrow> session \<Rightarrow> body \<Rightarrow> db \<Rightarrow> response \<times> db" where
  "post_investments pg now s b d =
     (case authenticated s of None \<Rightarrow> (unauthorized, d)
      | Some _ \<Rightarrow>
         (case parse_investment False b of
            Inl key \<Rightarrow> (Response 400 (ZodMessage key), d)
          | Inr input \<Rightarrow>
             (case createInvestment pg now (input\<lparr>iv_tenantId := tenantId s\<rparr>) d of
                (Inl err, d') \<Rightarrow> (Rethrown err, d')
              | (Inr investment, d') \<Rightarrow> (Response 201 (InvestmentRow investment), d'))))"

definition put_investments_id :: "postgres \<Rightarrow> int \<Rightarrow> session \<Rightarrow> int \<Rightarrow> body \<Rightarrow> db
    \<Rightarrow> response \<times> db" where
  "put_investments_id pg now s ident b d =
     (case authenticated s of None \<Rightarrow> (unauthorized, d)
      | Some _ \<Rightarrow>
         (case parse_investment True b of
            Inl key \<Rightarrow> (Response 400 (ZodMessage key), d)
          | Inr input \<Rightarrow>
             (case updateInvestment pg now ident (tenantId s) input d of
                Inl err \<Rightarrow> (Rethrown err, d)
              | Inr (None, d') \<Rightarrow> (Response 404 (Message ''Investment not found''), d')
              | Inr (Some investment, d') \<Rightarrow> (Response 200 (InvestmentRow investment), d'))))"

definition delete_investments_id :: "session \<Rightarrow> int \<Rightarrow> db \<Rightarrow> response \<times> db" where
  "delete_investments_id s ident d =
     (case authenticated s of None \<Rightarrow> (unauthorized, d)
      | Some _ \<Rightarrow>
         (case deleteInvestment ident (tenantId s) d of
            Inl err \<Rightarrow> (Rethrown err, d)
          | Inr d' \<Rightarrow> (Response 204 NoBody, d')))"

section \<open>Numbers and dates of the JavaScript runtime\<close>

text \<open>
  \<^verbatim>\<open>parseFloat\<close> and \<^verbatim>\<open>Number\<close> are applied to the strings of \<^verbatim>\<open>numeric\<close>
  columns only, which are plain decimal numerals (an optional sign, digits, an
  optional fraction). \<open>decimal\<close> reads those; every other string is read as
  \<^verbatim>\<open>NaN\<close> (exponents, \<^verbatim>\<open>Infinity\<close> and numeric prefixes of longer strings are not
  modelled).
\<close>

definition digit_of :: "char \<Rightarrow> nat option" where
  "digit_of c = (let n = (of_char c :: nat) in if 48 \<le> n \<and> n \<le> 57 then Some (n - 48) else None)"

fun digits_value :: "nat \<Rightarrow> string \<Rightarrow> nat option" where
  "digits_value acc [] = Some acc"
| "digits_value acc (c # cs) =
     (case digit_of c of None \<Rightarrow> None | Some n \<Rightarrow> digits_value (10 * acc + n) cs)"

definition unsigned_decimal :: "string \<Rightarrow> rat option" where
  "unsigned_decimal s =
     (let ip = takeWhile (\<lambda>c. c \<noteq> CHR ''.'') s;
          fp = drop 1 (dropWhile (\<lambda>c. c \<noteq> CHR ''.'') s)
      in if ip = [] \<and> fp = [] then None
         else (case (digits_value 0 ip, digits_value 0 fp) of
                 (Some a, Some b) \<Rightarrow> Some (of_nat a + of_nat b / 10 ^ length fp)
               | _ \<Rightarrow> None))"

definition decimal :: "string \<Rightarrow> js_number" where
  "decimal s =
     (case s of
        [] \<Rightarrow> None
      | c # r \<Rightarrow> if c = CHR ''-'' then map_option uminus (unsigned_decimal r)
                 else if c = CHR ''+'' then unsigned_decimal r
                 else unsigned_decimal s)"

definition parseFloat :: "string \<Rightarrow> js_number" where
  "parseFloat s = decimal s"

definition Number_of :: "string \<Rightarrow> js_number" where
  "Number_of s = (if s = [] then Some 0 else decimal s)"

definition js_add :: "js_number \<Rightarrow> js_number \<Rightarrow> js_number" where
  "js_add a b = (case (a, b) of (Some x, Some y) \<Rightarrow> Some (x + y) | _ \<Rightarrow> None)"

definition js_mul :: "js_number \<Rightarrow> rat \<Rightarrow> js_number" where
  "js_mul a k = map_option (\<lambda>x. x * k) a"

text \<open>Division by a non-zero constant (the handlers divide by 12 or 1).\<close>

definition js_div :: "js_number \<Rightarrow> rat \<Rightarrow> js_number" where
  "js_div a k = map_option (\<lambda>x. x / k) a"

text \<open>\<^verbatim>\<open>x || fallback\<close> on a \<^verbatim>\<open>string | null\<close>\<close>

definition or_else :: "string option \<Rightarrow> string \<Rightarrow> string" where
  "or_else v fallback = (if truthy v then the v else fallback)"

text \<open>
  Time values are integers (milliseconds since the epoch). The calendar is the
  proleptic Gregorian one of ECMAScript. \<open>days_from_civil\<close> and
  \<open>civil_from_days\<close> convert between a day number and year, month, day.
\<close>

definition msPerDay :: int where
  "msPerDay = 86400000"

definition Day :: "int \<Rightarrow> int" where
  "Day t = t div msPerDay"

definition TimeWithinDay :: "int \<Rightarrow> int" where
  "TimeWithinDay t = t mod msPerDay"

definition days_from_civil :: "int \<Rightarrow> int \<Rightarrow> int \<Rightarrow> int" where
  "days_from_civil y0 m dd =
     (let y = (if m \<le> 2 then y0 - 1 else y0);
          era = y div 400;
          yoe = y mod 400;
          doy = (153 * (if m > 2 then m - 3 else m + 9) + 2) div 5 + dd - 1;
          doe = yoe * 365 + yoe div 4 - yoe div 100 + doy
      in era * 146097 + doe - 719468)"

definition civil_from_days :: "int \<Rightarrow> int \<times> int \<times> int" where
  "civil_from_days z0 =
     (let z = z0 + 719468;
          era = z div 146097;
          doe = z mod 146097;
          yoe = (doe - doe div 1460 + doe div 36524 - doe div 146096) div 365;
          doy = doe - (365 * yoe + yoe div 4 - yoe div 100);
          mp = (5 * doy + 2) div 153;
          dd = doy - (153 * mp + 2) div 5 + 1;
          m = (if mp < 10 then mp + 3 else mp - 9);
          y = yoe + era * 400
      in (if m \<le> 2 then y + 1 else y, m, dd))"

text \<open>The day number of the first day of the month that day \<open>z\<close> lies in.\<close>

definition month_start :: "int \<Rightarrow> int" where
  "month_start z = (case civil_from_days z of (y, m, _) \<Rightarrow> days_from_civil y m 1)"

text \<open>
  The time zone of the process is its \<^verbatim>\<open>LocalTZA(t, isUTC)\<close> of ECMAScript: the
  offset of local time from UTC in milliseconds, at the UTC time value \<open>t\<close>
  when \<open>isUTC\<close> holds and at the local time value \<open>t\<close> otherwise.
\<close>

type_synonym zone = "int \<Rightarrow> bool \<Rightarrow> int"

definition LocalTime :: "zone \<Rightarrow> int \<Rightarrow> int" where
  "LocalTime tza t = t + tza t True"

definition UTC :: "zone \<Rightarrow> int \<Rightarrow> int" where
  "UTC tza t = t - tza t False"

text \<open>
  \<^verbatim>\<open>Date.prototype.getDate\<close> is \<^verbatim>\<open>DateFromTime(LocalTime(t))\<close>;
  \<^verbatim>\<open>setDate(dt)\<close> takes \<open>t\<close> to local time, forms
  \<^verbatim>\<open>MakeDate(MakeDay(YearFromTime(t), MonthFromTime(t), dt), TimeWithinDay(t))\<close>, where
  \<^verbatim>\<open>MakeDay\<close> counts \<open>dt - 1\<close> days on from the first of the month, and
  takes the result back with \<^verbatim>\<open>UTC\<close>.
\<close>

definition getDate :: "zone \<Rightarrow> int \<Rightarrow> int" where
  "getDate tza t = (let lt = LocalTime tza t in Day lt - month_start (Day lt) + 1)"

definition setDate :: "zone \<Rightarrow> int \<Rightarrow> int \<Rightarrow> int" where
  "setDate tza t dt =
     (let lt = LocalTime tza t
      in UTC tza ((month_start (Day lt) + dt - 1) * msPerDay + TimeWithinDay lt))"

text \<open>
  \<^verbatim>\<open>new Date(s)\<close> for the value of a \<^verbatim>\<open>date\<close> column, \<^verbatim>\<open>YYYY-MM-DD\<close>: midnight
  UTC of that day. Any other string is read as an invalid date (\<open>None\<close>), which
  compares false with everything.
\<close>

definition days_in_month :: "int \<Rightarrow> int \<Rightarrow> int" where
  "days_in_month y m =
     (if m = 2 then (if y mod 4 = 0 \<and> (y mod 100 \<noteq> 0 \<or> y mod 400 = 0) then 29 else 28)
      else if m = 4 \<or> m = 6 \<or> m = 9 \<or> m = 11 then 30 else 31)"

definition new_Date :: "string \<Rightarrow> int option" where
  "new_Date s =
     (case s of
        [y1, y2, y3, y4, s1, m1, m2, s2, d1, d2] \<Rightarrow>
          (case (digits_value 0 [y1, y2, y3, y4], digits_value 0 [m1, m2], digits_value 0 [d1, d2]) of
             (Some y, Some m, Some dd) \<Rightarrow>
               if s1 = CHR ''-'' \<and> s2 = CHR ''-'' \<and> 1 \<le> m \<and> m \<le> 12 \<and> 1 \<le> dd
                  \<and> int dd \<le> days_in_month (int y) (int m)
               then Some (days_from_civil (int y) (int m) (int dd) * msPerDay)
               else None
           | _ \<Rightarrow> None)
      | _ \<Rightarrow> None)"

text \<open>\<^verbatim>\<open>if (p.col) { const x = new Date(p.col); ... }\<close>: the time value, when there is one.\<close>

definition date_of :: "string option \<Rightarrow> int option" where
  "date_of col = (if truthy col then new_Date (the col) else None)"

section \<open>Dashboard (\<^verbatim>\<open>server/storage.ts\<close>, \<^verbatim>\<open>server/routes.ts\<close>)\<close>

text \<open>
  The loop of \<^verbatim>\<open>getDashboardStats\<close> over the tenant's policies, with its two
  counters \<open>(expiringSoon, needsRenewal)\<close>.
\<close>

fun scan_policies :: "int \<Rightarrow> int \<Rightarrow> policy list \<Rightarrow> nat \<times> nat \<Rightarrow> nat \<times> nat" where
  "scan_policies now sixtyDaysFromNow [] counters = counters"
| "scan_policies now sixtyDaysFromNow (p # ps) (soon, renew) =
     (let renew' =
            (case date_of (p_nextRenewalDate p) of
               Some renewal \<Rightarrow> if renewal \<le> sixtyDaysFromNow then renew + 1 else renew
             | None \<Rightarrow> renew);
          soon' =
            (case date_of (p_maturityDate p) of
               Some maturity \<Rightarrow>
                 if maturity \<le> sixtyDaysFromNow \<and> maturity > now then soon + 1 else soon
             | None \<Rightarrow> soon)
      in scan_policies now sixtyDaysFromNow ps (soon', renew'))"

text \<open>\<^verbatim>\<open>list.filter(inv => inv.currency === c).reduce((sum, inv) => sum + Number(inv.currentValue), 0)\<close>\<close>

definition currency_total :: "string \<Rightarrow> investment list \<Rightarrow> js_number" where
  "currency_total c invs =
     foldl (\<lambda>sum inv. js_add sum (Number_of (i_currentValue inv))) (Some 0)
       (filter (\<lambda>inv. i_currency inv = c) invs)"

text \<open>
  \<^verbatim>\<open>getDashboardStats\<close> reads the clock twice: \<open>now\<close> is the first
  \<^verbatim>\<open>new Date()\<close> and \<open>now2\<close> the second, which \<^verbatim>\<open>setDate(now.getDate() + 60)\<close>
  then moves, in the local time of the process.
\<close>

definition getDashboardStats :: "zone \<Rightarrow> int \<Rightarrow> int \<Rightarrow> string option \<Rightarrow> db
    \<Rightarrow> dashboard_stats" where
  "getDashboardStats tza now now2 tid d =
     (let sixtyDaysFromNow = setDate tza now2 (getDate tza now + 60);
          policiesList = getPolicies tid d;
          counters = scan_policies now sixtyDaysFromNow policiesList (0, 0);
          investmentsList = getInvestments tid d
      in \<lparr>totalPolicies = length policiesList,
          expiringSoon = fst counters,
          needsRenewal = snd counters,
          totalInvestments = length investmentsList,
          investmentsByCurrency_SEK = currency_total ''SEK'' investmentsList,
          investmentsByCurrency_INR = currency_total ''INR'' investmentsList\<rparr>)"

definition get_dashboard_stats :: "zone \<Rightarrow> int \<Rightarrow> int \<Rightarrow> session \<Rightarrow> db \<Rightarrow> response" where
  "get_dashboard_stats tza now now2 s d =
     (case authenticated s of None \<Rightarrow> unauthorized
      | Some _ \<Rightarrow> Response 200 (Stats (getDashboardStats tza now now2 (tenantId s) d)))"

text \<open>\<^verbatim>\<open>GET /api/dashboard/analytics\<close>\<close>

definition premium_of :: "policy \<Rightarrow> premium_row" where
  "premium_of pol =
     \<lparr>pr_provider = or_else (Some (p_provider pol)) ''Unknown'',
      pr_monthlyPremium =
        js_div (parseFloat (or_else (p_premium pol) ''0''))
               (if p_premiumFrequency pol = Some ''yearly'' then 12 else 1),
      pr_yearlyPremium =
        js_mul (parseFloat (or_else (p_premium pol) ''0''))
               (if p_premiumFrequency pol = Some ''yearly'' then 1 else 12),
      pr_policyCount = 1,
      pr_currency = or_else (p_premiumCurrency pol) ''SEK''\<rparr>"

definition get_dashboard_analytics :: "session \<Rightarrow> db \<Rightarrow> response" where
  "get_dashboard_analytics s d =
     (case authenticated s of None \<Rightarrow> unauthorized
      | Some _ \<Rightarrow>
         (let policiesList = getPolicies (tenantId s) d;
              investmentsList = getInvestments (tenantId s) d
          in Response 200 (Analytics
               \<lparr>investmentsByType =
                  map (\<lambda>inv. \<lparr>bt_type = or_else (Some (i_type inv)) ''Unknown'',
                              bt_value = parseFloat (or_else (Some (i_currentValue inv)) ''0''),
                              bt_count = 1\<rparr>) investmentsList,
                investmentsByPlatform =
                  map (\<lambda>inv. \<lparr>bp_platform = or_else (Some (i_platform inv)) ''Unknown'',
                              bp_value = parseFloat (or_else (Some (i_currentValue inv)) ''0''),
                              bp_count = 1\<rparr>) investmentsList,
                premiumsByProvider = map premium_of policiesList,
                upcomingRenewals = []\<rparr>)))"

section \<open>Auth routes (\<^verbatim>\<open>server/routes.ts\<close>)\<close>

text \<open>
  What the process takes from its libraries and from its database server: zod's
  e-mail test, \<^verbatim>\<open>bcrypt.compare\<close> and the input functions of PostgreSQL. The
  result of \<^verbatim>\<open>bcrypt.hash\<close> (salted), the values of \<^verbatim>\<open>gen_random_uuid()\<close> and
  the clock readings differ from request to request and are part of the request's
  environment.
\<close>

record runtime =
  isEmail :: "string \<Rightarrow> bool"
  bcrypt_compare :: "string \<Rightarrow> string \<Rightarrow> bool"
  input_functions :: postgres

record register_env =
  re_tenant_uuid :: string
  re_tenant_now :: int
  re_user_uuid :: string
  re_user_now :: int
  re_passwordHash :: string

record register_input =
  ri_email :: string
  ri_password :: string
  ri_firstName :: "string option"
  ri_lastName :: "string option"
  ri_domain :: string

text \<open>
  \<^verbatim>\<open>registerSchema\<close>: email, password of at least 6, optional names, domain of at
  least 2.
\<close>

definition parse_register :: "runtime \<Rightarrow> body \<Rightarrow> string + register_input" where
  "parse_register rt b =
     (case b ''email'' of
        Some (JStr email) \<Rightarrow>
          if \<not> isEmail rt email then Inl ''email''
          else (case b ''password'' of
             Some (JStr password) \<Rightarrow>
               if length password < 6 then Inl ''password''
               else if \<not> zvalid False ZStringOpt (b ''firstName'') then Inl ''firstName''
               else if \<not> zvalid False ZStringOpt (b ''lastName'') then Inl ''lastName''
               else (case b ''domain'' of
                  Some (JStr dname) \<Rightarrow>
                    if length dname < 2 then Inl ''domain''
                    else Inr \<lparr>ri_email = email, ri_password = password,
                              ri_firstName = str_opt (b ''firstName''),
                              ri_lastName = str_opt (b ''lastName''), ri_domain = dname\<rparr>
                | _ \<Rightarrow> Inl ''domain'')
           | _ \<Rightarrow> Inl ''password'')
      | _ \<Rightarrow> Inl ''email'')"

definition auth_user_of :: "user \<Rightarrow> auth_user" where
  "auth_user_of u = \<lparr>au_id = u_id u, au_email = u_email u, au_firstName = u_firstName u,
     au_lastName = u_lastName u, au_role = u_role u, au_tenantId = u_tenantId u\<rparr>"

definition registration_failed :: response where
  "registration_failed = Response 500 (Message ''Registration failed'')"

text \<open>
  \<^verbatim>\<open>POST /api/auth/register\<close>, after a tenant has been found or created: the role
  follows from the number of users the tenant has at this moment.
\<close>

definition register_in_tenant :: "register_env \<Rightarrow> register_input \<Rightarrow> tenant \<Rightarrow> session \<Rightarrow> db
    \<Rightarrow> response \<times> session \<times> db" where
  "register_in_tenant env input t s d =
     (let existingUsers = getUsersByTenant (Some (t_id t)) d;
          isFirstUser = (length existingUsers = 0)
      in case createUser (re_user_uuid env) (re_user_now env)
                \<lparr>cu_email = ri_email input, cu_passwordHash = re_passwordHash env,
                 cu_firstName = ri_firstName input, cu_lastName = ri_lastName input,
                 cu_tenantId = Some (t_id t),
                 cu_role = Some (if isFirstUser then ''admin'' else ''user'')\<rparr> d of
           Inl err \<Rightarrow> (registration_failed, s, d)
         | Inr (u, d') \<Rightarrow>
             (Response 201 (AuthUser (auth_user_of u)),
              s\<lparr>userId := Some (u_id u), tenantId := u_tenantId u\<rparr>, d'))"

definition post_auth_register :: "runtime \<Rightarrow> register_env \<Rightarrow> session \<Rightarrow> body \<Rightarrow> db
    \<Rightarrow> response \<times> session \<times> db" where
  "post_auth_register rt env s b d =
     (case parse_register rt b of
        Inl key \<Rightarrow> (Response 400 (ZodMessage key), s, d)
      | Inr input \<Rightarrow>
          if getUserByEmail (ri_email input) d \<noteq> None
          then (Response 400 (Message ''Email already registered''), s, d)
          else (case getTenantByDomain (ri_domain input) d of
              Some t \<Rightarrow> register_in_tenant env input t s d
            | None \<Rightarrow>
               (case createTenant (re_tenant_uuid env) (re_tenant_now env)
                       \<lparr>it_name = ri_domain input, it_domain = Some (ri_domain input),
                        it_subdomain = Some (ri_domain input)\<rparr> d of
                  Inl err \<Rightarrow> (registration_failed, s, d)
                | Inr (t, d') \<Rightarrow> register_in_tenant env input t s d')))"

text \<open>
  The handler is an \<^verbatim>\<open>async\<close> function: it runs to its next \<^verbatim>\<open>await\<close> and
  gives up control there, so between two of its statements those of another
  request can run. A registration in flight is at one of these points: about to
  issue the named call, with the local variables it has so far (\<^verbatim>\<open>input\<close>,
  \<^verbatim>\<open>tenant\<close>, \<^verbatim>\<open>isFirstUser\<close>), or done. \<open>register_step\<close> performs the
  awaited call and runs the handler on to its next \<^verbatim>\<open>await\<close>.
\<close>

datatype registering =
    AtGetUserByEmail register_input
  | AtGetTenantByDomain register_input
  | AtCreateTenant register_input
  | AtGetUsersByTenant register_input tenant
  | AtBcryptHash register_input tenant bool
  | AtCreateUser register_input tenant bool
  | Responded response

definition register_begin :: "runtime \<Rightarrow> body \<Rightarrow> registering" where
  "register_begin rt b =
     (case parse_register rt b of
        Inl key \<Rightarrow> Responded (Response 400 (ZodMessage key))
      | Inr input \<Rightarrow> AtGetUserByEmail input)"

fun register_step :: "register_env \<Rightarrow> registering \<Rightarrow> session \<Rightarrow> db
    \<Rightarrow> registering \<times> session \<times> db" where
  "register_step env (AtGetUserByEmail input) s d =
     (if getUserByEmail (ri_email input) d \<noteq> None
      then (Responded (Response 400 (Message ''Email already registered'')), s, d)
      else (AtGetTenantByDomain input, s, d))"
| "register_step env (AtGetTenantByDomain input) s d =
     (case getTenantByDomain (ri_domain input) d of
        Some t \<Rightarrow> (AtGetUsersByTenant input t, s, d)
      | None \<Rightarrow> (AtCreateTenant input, s, d))"
| "register_step env (AtCreateTenant input) s d =
     (case createTenant (re_tenant_uuid env) (re_tenant_now env)
             \<lparr>it_name = ri_domain input, it_domain = Some (ri_domain input),
              it_subdomain = Some (ri_domain input)\<rparr> d of
        Inl err \<Rightarrow> (Responded registration_failed, s, d)
      | Inr (t, d') \<Rightarrow> (AtGetUsersByTenant input t, s, d'))"
| "register_step env (AtGetUsersByTenant input t) s d =
     (let existingUsers = getUsersByTenant (Some (t_id t)) d;
          isFirstUser = (length existingUsers = 0)
      in (AtBcryptHash input t isFirstUser, s, d))"
| "register_step env (AtBcryptHash input t isFirstUser) s d =
     (AtCreateUser input t isFirstUser, s, d)"
| "register_step env (AtCreateUser input t isFirstUser) s d =
     (case createUser (re_user_uuid env) (re_user_now env)
             \<lparr>cu_email = ri_email input, cu_passwordHash = re_passwordHash env,
              cu_firstName = ri_firstName input, cu_lastName = ri_lastName input,
              cu_tenantId = Some (t_id t),
              cu_role = Some (if isFirstUser then ''admin'' else ''user'')\<rparr> d of
        Inl err \<Rightarrow> (Responded registration_failed, s, d)
      | Inr (u, d') \<Rightarrow>
          (Responded (Response 201 (AuthUser (auth_user_of u))),
           s\<lparr>userId := Some (u_id u), tenantId := u_tenantId u\<rparr>, d'))"
| "register_step env (Responded r) s d = (Responded r, s, d)"

text \<open>
  Two registrations in flight at once, each with its own session, over one
  database. A schedule says whose awaited call the database serves next.
\<close>

datatype turn = First | Second

fun overlap :: "register_env \<Rightarrow> register_env \<Rightarrow> turn list
    \<Rightarrow> (registering \<times> session) \<times> (registering \<times> session) \<times> db
    \<Rightarrow> (registering \<times> session) \<times> (registering \<times> session) \<times> db" where
  "overlap env1 env2 [] state = state"
| "overlap env1 env2 (First # schedule) ((p1, s1), second, d) =
     (case register_step env1 p1 s1 d of
        (p1', s1', d') \<Rightarrow> overlap env1 env2 schedule ((p1', s1'), second, d'))"
| "overlap env1 env2 (Second # schedule) (first, (p2, s2), d) =
     (case register_step env2 p2 s2 d of
        (p2', s2', d') \<Rightarrow> overlap env1 env2 schedule (first, (p2', s2'), d'))"

definition invalid_login :: response where
  "invalid_login = Response 401 (Message ''Invalid email or password'')"

text \<open>\<^verbatim>\<open>POST /api/auth/login\<close>: \<^verbatim>\<open>req.session.tenantId = user.tenantId || undefined\<close>.\<close>

definition post_auth_login :: "runtime \<Rightarrow> session \<Rightarrow> body \<Rightarrow> db \<Rightarrow> response \<times> session" where
  "post_auth_login rt s b d =
     (case (b ''email'', b ''password'') of
        (Some (JStr email), Some (JStr password)) \<Rightarrow>
          if \<not> isEmail rt email then (Response 400 (ZodMessage ''email''), s)
          else (case getUserByEmail email d of
              None \<Rightarrow> (invalid_login, s)
            | Some u \<Rightarrow>
                if \<not> truthy (u_passwordHash u) then (invalid_login, s)
                else if \<not> bcrypt_compare rt password (the (u_passwordHash u))
                then (invalid_login, s)
                else (Response 200 (AuthUser (auth_user_of u)),
                      s\<lparr>userId := Some (u_id u),
                        tenantId := (if truthy (u_tenantId u) then u_tenantId u else None)\<rparr>))
      | (Some (JStr email), _) \<Rightarrow>
          (Response 400 (ZodMessage (if isEmail rt email then ''password'' else ''email'')), s)
      | _ \<Rightarrow> (Response 400 (ZodMessage ''email''), s))"

text \<open>\<^verbatim>\<open>POST /api/auth/logout\<close> destroys the session.\<close>

definition post_auth_logout :: "session \<Rightarrow> response \<times> session" where
  "post_auth_logout s = (Response 200 (Message ''Logged out''), no_session)"

text \<open>
  \<^verbatim>\<open>POST /api/auth/change-password\<close>; \<open>newHash\<close> is what \<^verbatim>\<open>bcrypt.hash\<close>
  returned for the new password and \<open>now\<close> the server clock.
\<close>

definition post_auth_change_password :: "runtime \<Rightarrow> string \<Rightarrow> int \<Rightarrow> session \<Rightarrow> body \<Rightarrow> db
    \<Rightarrow> response \<times> db" where
  "post_auth_change_password rt newHash now s b d =
     (case authenticated s of None \<Rightarrow> (unauthorized, d)
      | Some me \<Rightarrow>
         (case (b ''currentPassword'', b ''newPassword'') of
            (Some (JStr currentPassword), Some (JStr newPassword)) \<Rightarrow>
              if length newPassword < 6 then (Response 400 (ZodMessage ''newPassword''), d)
              else (case getUser me d of
                  None \<Rightarrow> (Response 404 (Message ''User not found''), d)
                | Some u \<Rightarrow>
                    if \<not> truthy (u_passwordHash u)
                    then (Response 404 (Message ''User not found''), d)
                    else if \<not> bcrypt_compare rt currentPassword (the (u_passwordHash u))
                    then (Response 400 (Message ''Current password is incorrect''), d)
                    else (Response 200 (Message ''Password changed successfully''),
                          snd (updateUserPassword now (u_id u) newHash d)))
          | (Some (JStr currentPassword), _) \<Rightarrow> (Response 400 (ZodMessage ''newPassword''), d)
          | _ \<Rightarrow> (Response 400 (ZodMessage ''currentPassword''), d)))"

text \<open>\<^verbatim>\<open>PUT /api/admin/users/:userId/reset-password\<close>\<close>

definition put_admin_users_reset_password :: "string \<Rightarrow> int \<Rightarrow> session \<Rightarrow> string \<Rightarrow> body \<Rightarrow> db
    \<Rightarrow> response \<times> db" where
  "put_admin_users_reset_password newHash now s target b d =
     (case authenticated s of None \<Rightarrow> (unauthorized, d)
      | Some me \<Rightarrow>
          if \<not> isAdmin me d then (forbidden, d)
          else (case b ''newPassword'' of
              Some (JStr newPassword) \<Rightarrow>
                if length newPassword < 6 then (Response 400 (ZodMessage ''newPassword''), d)
                else (case getUser target d of
                    None \<Rightarrow> (Response 404 (Message ''User not found''), d)
                  | Some targetUser \<Rightarrow>
                      if \<not> sql_eq (u_tenantId targetUser) (tenantId s)
                      then (Response 404 (Message ''User not found''), d)
                      else (Response 200 (Message ''Password reset successfully''),
                            snd (updateUserPassword now target newHash d)))
            | _ \<Rightarrow> (Response 400 (ZodMessage ''newPassword''), d)))"

section \<open>The serverless module (\<^verbatim>\<open>api/index.ts\<close>)\<close>

text \<open>
  Its storage class is not tenant-scoped: \<^verbatim>\<open>getPolicy(id)\<close> and
  \<^verbatim>\<open>deletePolicy(id)\<close> select by id alone, and the handlers compare the row's
  tenant with \<^verbatim>\<open>req.session.user.tenantId\<close>. The session holds the user object.
\<close>

record session_user =
  su_id :: string
  su_email :: string
  su_firstName :: "string option"
  su_lastName :: "string option"
  su_role :: "string option"
  su_tenantId :: "string option"
  su_domain :: "string option"



definition api_getPolicy :: "int \<Rightarrow> db \<Rightarrow> db_error + policy option" where
  "api_getPolicy ident d =
     (if \<not> in_int4 ident then Inl DataException
      else Inr (find (\<lambda>p. p_id p = ident) (policies d)))"

definition api_deletePolicy :: "int \<Rightarrow> db \<Rightarrow> db_error + db" where
  "api_deletePolicy ident d =
     (if \<not> in_int4 ident then Inl DataException
      else Inr (d\<lparr>policies := filter (\<lambda>p. p_id p \<noteq> ident) (policies d)\<rparr>))"

text \<open>
  What lies outside the database: the blobs of the Vercel Blob store (by URL), the
  files under the working directory (by relative path) and the lines written with
  \<^verbatim>\<open>console.error\<close>.
\<close>

record outside =
  blobs :: "string list"
  files :: "string list"
  console_error :: "string list"

definition startsWith :: "string \<Rightarrow> string \<Rightarrow> bool" where
  "startsWith pre s = (take (length pre) s = pre)"

fun includes_str :: "string \<Rightarrow> string \<Rightarrow> bool" where
  "includes_str sub [] = (sub = [])"
| "includes_str sub (c # cs) = (startsWith sub (c # cs) \<or> includes_str sub cs)"

text \<open>
  \<^verbatim>\<open>deleteBlobFile\<close>. \<open>fault\<close> says whether the collaborator call it makes
  throws: \<^verbatim>\<open>del\<close> of \<^verbatim>\<open>@vercel/blob\<close> for a Vercel Blob URL, and
  \<^verbatim>\<open>fs.unlinkSync\<close> for any other path that is not in the old
  \<^verbatim>\<open>documents/\<close> format, which is called only when \<^verbatim>\<open>fs.existsSync\<close> finds the
  file. The \<^verbatim>\<open>catch\<close> writes one error line and returns. A path in the old
  format is skipped: for it no call is made.
\<close>

definition deleteBlobFile :: "bool \<Rightarrow> string option \<Rightarrow> outside \<Rightarrow> outside" where
  "deleteBlobFile fault documentUrl w =
     (if \<not> truthy documentUrl then w
      else (let url = the documentUrl;
                failed = w\<lparr>console_error := console_error w @ [''Failed to delete file: '' @ url]\<rparr>
            in if startsWith ''https://'' url \<and> includes_str ''vercel-storage.com'' url
               then (if fault then failed else w\<lparr>blobs := removeAll url (blobs w)\<rparr>)
               else if startsWith ''documents/'' url then w
               else if url \<in> set (files w)
               then (if fault then failed else w\<lparr>files := removeAll url (files w)\<rparr>)
               else w))"

definition delete_policy_failed :: response where
  "delete_policy_failed = Response 500 (Message ''Failed to delete policy'')"

definition policy_not_found :: response where
  "policy_not_found = Response 404 (Message ''Policy not found'')"

text \<open>
  \<^verbatim>\<open>DELETE /api/policies/:id\<close> of \<^verbatim>\<open>api/index.ts\<close>; \<open>ident\<close> is
  \<^verbatim>\<open>parseInt(req.params.id)\<close>. An error of the storage is caught, logged and
  answered 500.
\<close>

definition api_delete_policies_id :: "bool \<Rightarrow> session_user option \<Rightarrow> int \<Rightarrow> outside \<Rightarrow> db
    \<Rightarrow> response \<times> outside \<times> db" where
  "api_delete_policies_id fault su ident w d =
     (case su of None \<Rightarrow> (unauthorized, w, d)
      | Some u \<Rightarrow>
         (case api_getPolicy ident d of
            Inl err \<Rightarrow>
              (delete_policy_failed,
               w\<lparr>console_error := console_error w @ [''Delete policy error:'']\<rparr>, d)
          | Inr None \<Rightarrow> (policy_not_found, w, d)
          | Inr (Some policy) \<Rightarrow>
              if Some (p_tenantId policy) \<noteq> su_tenantId u then (policy_not_found, w, d)
              else (let w' = (if truthy (p_documentUrl policy)
                              then deleteBlobFile fault (p_documentUrl policy) w else w)
                    in case api_deletePolicy ident d of
                         Inl err \<Rightarrow>
                           (delete_policy_failed,
                            w'\<lparr>console_error := console_error w' @ [''Delete policy error:'']\<rparr>, d)
                       | Inr d' \<Rightarrow> (Response 204 NoBody, w', d'))))"





section \<open>The session-backed server as a state machine\<close>

text \<open>
  The state of \<^verbatim>\<open>server/routes.ts\<close> is the database and the session store (a
  cookie without a stored session reads as the empty session). A request names the
  cookie it carries and what its handler takes from the environment. Here each
  request is handled to its end before the next one begins (\<open>run\<close>): this is the
  server under requests that do not overlap in time. What overlapping
  registrations do is the matter of \<open>overlap\<close> above. \<^verbatim>\<open>GET\<close> routes write
  nothing and are left out.
\<close>

record system =
  database :: db
  sessions :: "string \<Rightarrow> session"

definition initial :: system where
  "initial = \<lparr>database = empty_db, sessions = (\<lambda>_. no_session)\<rparr>"

datatype request =
    Register string body register_env
  | Login string body
  | Logout string
  | ChangePassword string body string int
  | CreatePolicy string body int
  | UpdatePolicy string int body
  | DeletePolicy string int
  | CreateInvestment string body int
  | UpdateInvestment string int body int
  | DeleteInvestment string int
  | SetRole string string body
  | RemoveUser string string
  | ResetPassword string string body string int

fun handle :: "runtime \<Rightarrow> system \<Rightarrow> request \<Rightarrow> response \<times> system" where
  "handle rt sys (Register sid b env) =
     (case post_auth_register rt env (sessions sys sid) b (database sys) of
        (r, s', d') \<Rightarrow> (r, \<lparr>database = d', sessions = (sessions sys)(sid := s')\<rparr>))"
| "handle rt sys (Login sid b) =
     (case post_auth_login rt (sessions sys sid) b (database sys) of
        (r, s') \<Rightarrow> (r, sys\<lparr>sessions := (sessions sys)(sid := s')\<rparr>))"
| "handle rt sys (Logout sid) =
     (case post_auth_logout (sessions sys sid) of
        (r, s') \<Rightarrow> (r, sys\<lparr>sessions := (sessions sys)(sid := s')\<rparr>))"
| "handle rt sys (ChangePassword sid b newHash now) =
     (case post_auth_change_password rt newHash now (sessions sys sid) b (database sys) of
        (r, d') \<Rightarrow> (r, sys\<lparr>database := d'\<rparr>))"
| "handle rt sys (CreatePolicy sid b now) =
     (case post_policies (input_functions rt) now (sessions sys sid) b (database sys) of
        (r, d') \<Rightarrow> (r, sys\<lparr>database := d'\<rparr>))"
| "handle rt sys (UpdatePolicy sid ident b) =
     (case put_policies_id (input_functions rt) (sessions sys sid) ident b (database sys) of
        (r, d') \<Rightarrow> (r, sys\<lparr>database := d'\<rparr>))"
| "handle rt sys (DeletePolicy sid ident) =
     (case delete_policies_id (sessions sys sid) ident (database sys) of
        (r, d') \<Rightarrow> (r, sys\<lparr>database := d'\<rparr>))"
| "handle rt sys (CreateInvestment sid b now) =
     (case post_investments (input_functions rt) now (sessions sys sid) b (database sys) of
        (r, d') \<Rightarrow> (r, sys\<lparr>database := d'\<rparr>))"
| "handle rt sys (UpdateInvestment sid ident b now) =
     (case put_investments_id (input_functions rt) now (sessions sys sid) ident b (database sys) of
        (r, d') \<Rightarrow> (r, sys\<lparr>database := d'\<rparr>))"
| "handle rt sys (DeleteInvestment sid ident) =
     (case delete_investments_id (sessions sys sid) ident (database sys) of
        (r, d') \<Rightarrow> (r, sys\<lparr>database := d'\<rparr>))"
| "handle rt sys (SetRole sid target b) =
     (case put_admin_users_role (sessions sys sid) target b (database sys) of
        (r, d') \<Rightarrow> (r, sys\<lparr>database := d'\<rparr>))"
| "handle rt sys (RemoveUser sid target) =
     (case delete_admin_users (sessions sys sid) target (database sys) of
        (r, d') \<Rightarrow> (r, sys\<lparr>database := d'\<rparr>))"
| "handle rt sys (ResetPassword sid target b newHash now) =
     (case put_admin_users_reset_password newHash now (sessions sys sid) target b (database sys) of
        (r, d') \<Rightarrow> (r, sys\<lparr>database := d'\<rparr>))"

text \<open>
  The one assumption on the environment: \<^verbatim>\<open>gen_random_uuid()\<close> does not return the
  id of an existing user.
\<close>

fun admissible :: "system \<Rightarrow> request \<Rightarrow> bool" where
  "admissible sys (Register sid b env) =
     (re_user_uuid env \<notin> set (map u_id (users (database sys))))"
| "admissible sys _ = True"

fun run :: "runtime \<Rightarrow> system \<Rightarrow> request list \<Rightarrow> system" where
  "run rt sys [] = sys"
| "run rt sys (r # rs) = run rt (snd (handle rt sys r)) rs"

fun admissible_run :: "runtime \<Rightarrow> system \<Rightarrow> request list \<Rightarrow> bool" where
  "admissible_run rt sys [] = True"
| "admissible_run rt sys (r # rs) =
     (admissible sys r \<and> admissible_run rt (snd (handle rt sys r)) rs)"

text \<open>The domains of the registrations of a run that were answered 201.\<close>

definition created :: "response \<Rightarrow> bool" where
  "created r = (case r of Response st _ \<Rightarrow> st = 201 | Rethrown _ \<Rightarrow> False)"

definition domain_of :: "request \<Rightarrow> string list" where
  "domain_of r = (case r of
       Register sid b env \<Rightarrow> (case b ''domain'' of Some (JStr dname) \<Rightarrow> [dname] | _ \<Rightarrow> [])
     | _ \<Rightarrow> [])"

fun registered_domains :: "runtime \<Rightarrow> system \<Rightarrow> request list \<Rightarrow> string list" where
  "registered_domains rt sys [] = []"
| "registered_domains rt sys (r # rs) =
     (if created (fst (handle rt sys r)) then domain_of r else [])
       @ registered_domains rt (snd (handle rt sys r)) rs"

text \<open>The invariants of the reachable states.\<close>

definition inv_ids :: "db \<Rightarrow> bool" where
  "inv_ids d = distinct (map u_id (users d))"

definition inv_admin_tenant :: "db \<Rightarrow> bool" where
  "inv_admin_tenant d = (\<forall>u \<in> set (users d). u_role u = Some ''admin'' \<longrightarrow> u_tenantId u \<noteq> None)"

definition inv_tenant_admin :: "db \<Rightarrow> bool" where
  "inv_tenant_admin d =
     (\<forall>t \<in> set (tenants d). \<exists>u \<in> set (users d).
         u_tenantId u = Some (t_id t) \<and> u_role u = Some ''admin'')"

definition inv_user_tenant :: "db \<Rightarrow> bool" where
  "inv_user_tenant d =
     (\<forall>u \<in> set (users d). \<forall>tid. u_tenantId u = Some tid \<longrightarrow> tid \<in> set (map t_id (tenants d)))"

definition inv_sessions :: "system \<Rightarrow> bool" where
  "inv_sessions sys =
     (\<forall>sid uid. userId (sessions sys sid) = Some uid \<longrightarrow>
        (\<exists>u \<in> set (users (database sys)). u_id u = uid
            \<and> (\<forall>t. tenantId (sessions sys sid) = Some t \<longrightarrow> u_tenantId u = Some t \<or> u_tenantId u = None)))"

definition invariant :: "system \<Rightarrow> bool" where
  "invariant sys =
     (inv_ids (database sys) \<and> inv_admin_tenant (database sys) \<and> inv_tenant_admin (database sys)
      \<and> inv_user_tenant (database sys) \<and> inv_sessions sys)"

section \<open>Example states\<close>

text \<open>
  A tenant \<^verbatim>\<open>acme\<close> with two administrators, used to instantiate the theorems
  below at concrete inputs.
\<close>

definition alice :: user where
  "alice = \<lparr>u_id = ''u1'', u_email = ''alice@x.com'', u_passwordHash = Some ''h1'',
     u_firstName = Some ''Alice'', u_lastName = None, u_profileImageUrl = None,
     u_tenantId = Some ''t1'', u_role = Some ''admin'', u_createdAt = Some 10,
     u_updatedAt = Some 10\<rparr>"

definition bob :: user where
  "bob = \<lparr>u_id = ''u2'', u_email = ''bob@x.com'', u_passwordHash = Some ''h2'',
     u_firstName = None, u_lastName = None, u_profileImageUrl = None,
     u_tenantId = Some ''t1'', u_role = Some ''admin'', u_createdAt = Some 20,
     u_updatedAt = Some 20\<rparr>"

definition acme_db :: db where
  "acme_db = empty_db\<lparr>users := [alice, bob],
     tenants := [\<lparr>t_id = ''t1'', t_name = ''acme'', t_domain = Some ''acme'',
                  t_subdomain = Some ''acme'', t_createdAt = Some 10\<rparr>]\<rparr>"

definition alice_session :: session where
  "alice_session = \<lparr>userId = Some ''u1'', tenantId = Some ''t1''\<rparr>"

text \<open>
  Records of tenant \<^verbatim>\<open>t1\<close>: one policy with a document in the blob store, a yearly
  premium of 1200 and its next renewal on 2024-03-01, and one investment. Carol is a
  signed-in user of another tenant, \<^verbatim>\<open>t2\<close>.
\<close>

definition policy1 :: policy where
  "policy1 = \<lparr>p_id = 1, p_tenantId = ''t1'', p_provider = ''Folksam'', p_policyName = ''Home'',
     p_policyNumber = None, p_policyType = ''Property'', p_country = ''SWEDEN'',
     p_startDate = ''2023-03-01'', p_maturityDate = None,
     p_nextRenewalDate = Some ''2024-03-01'', p_lastPremiumDate = None,
     p_premium = Some ''1200'', p_premiumCurrency = Some ''SEK'',
     p_premiumFrequency = Some ''yearly'', p_nominee = None, p_beneficiaryType = None,
     p_paidTo = None, p_renewalStatus = Some ''active'', p_notes = None,
     p_documentUrl = Some ''https://x.public.blob.vercel-storage.com/documents/t1/1_a/home.pdf'',
     p_createdAt = Some 100\<rparr>"

definition investment1 :: investment where
  "investment1 = \<lparr>i_id = 1, i_tenantId = ''t1'', i_type = ''Stocks'', i_platform = ''Avanza'',
     i_country = ''SWEDEN'', i_currency = ''SEK'', i_initialAmount = ''1000'',
     i_currentValue = ''1500.50'', i_shares = None, i_purchaseDate = None,
     i_lastUpdated = Some 100, i_createdAt = Some 100\<rparr>"

definition records_db :: db where
  "records_db = acme_db\<lparr>policies := [policy1], investments := [investment1],
     policies_id_seq := 1, investments_id_seq := 1\<rparr>"

definition carol_session :: session where
  "carol_session = \<lparr>userId = Some ''u3'', tenantId = Some ''t2''\<rparr>"

text \<open>
  The input functions of the examples: the numerals and the date below are read as
  PostgreSQL reads them and are given back as written; every other text is
  refused, among them \<^verbatim>\<open>abc\<close>, which no \<^verbatim>\<open>numeric\<close> column accepts.
\<close>

definition pg_examples :: postgres where
  "pg_examples =
     \<lparr>numeric_in = [''1000'' \<mapsto> ''1000'', ''1200'' \<mapsto> ''1200'', ''1600'' \<mapsto> ''1600'',
                     ''1500.50'' \<mapsto> ''1500.50''],
      date_in = [''2023-03-01'' \<mapsto> ''2023-03-01'', ''2024-03-01'' \<mapsto> ''2024-03-01'']\<rparr>"


definition Europe_Stockholm :: zone where
  "Europe_Stockholm =
     (\<lambda>t isUTC.
        if isUTC then (if 1711846800000 \<le> t \<and> t < 1729990800000 then 7200000 else 3600000)
        else (if 1711854000000 \<le> t \<and> t < 1729998000000 then 7200000 else 3600000))"

text \<open>Alice's session in the serverless module, and a blob store holding the document.\<close>

definition alice_su :: session_user where
  "alice_su = \<lparr>su_id = ''u1'', su_email = ''alice@x.com'', su_firstName = Some ''Alice'',
     su_lastName = None, su_role = Some ''admin'', su_tenantId = Some ''t1'',
     su_domain = Some ''acme''\<rparr>"

definition blob_world :: outside where
  "blob_world = \<lparr>blobs = [''https://x.public.blob.vercel-storage.com/documents/t1/1_a/home.pdf''],
     files = [], console_error = []\<rparr>"

text \<open>
  The same policy with its document in the upload directory of a development
  server, and with a document path in the old \<^verbatim>\<open>documents/\<close> format; a world in
  which both documents exist on disk.
\<close>

definition local_db :: db where
  "local_db = records_db\<lparr>policies := [policy1\<lparr>p_documentUrl := Some ''uploads/t1/1_a/home.pdf''\<rparr>]\<rparr>"

definition legacy_db :: db where
  "legacy_db = records_db\<lparr>policies := [policy1\<lparr>p_documentUrl := Some ''documents/t1/home.pdf''\<rparr>]\<rparr>"

definition disk_world :: outside where
  "disk_world = \<lparr>blobs = [],
     files = [''uploads/t1/1_a/home.pdf'', ''documents/t1/home.pdf''], console_error = []\<rparr>"

text \<open>
  A run of the state machine: Alice and then Bob register under \<^verbatim>\<open>acme\<close>, Alice
  makes Bob an administrator, Bob removes Alice from the tenant; then Carol
  registers under \<^verbatim>\<open>acme\<close>. \<open>sys1\<close> to \<open>sys4\<close> are the states after each of
  the first four requests.
\<close>

definition rt0 :: runtime where
  "rt0 = \<lparr>isEmail = (\<lambda>s. CHR ''@'' \<in> set s),
            bcrypt_compare = (\<lambda>password hash. hash = ''$'' @ password),
            input_functions = pg_examples\<rparr>"

definition alice_form :: body where
  "alice_form = [''email'' \<mapsto> JStr ''alice@x.com'', ''password'' \<mapsto> JStr ''secret1'',
      ''domain'' \<mapsto> JStr ''acme'']"

definition alice_env :: register_env where
  "alice_env = \<lparr>re_tenant_uuid = ''t1'', re_tenant_now = 10, re_user_uuid = ''u1'',
      re_user_now = 11, re_passwordHash = ''$secret1''\<rparr>"

definition bob_form :: body where
  "bob_form = [''email'' \<mapsto> JStr ''bob@x.com'', ''password'' \<mapsto> JStr ''secret2'',
      ''domain'' \<mapsto> JStr ''acme'']"

definition bob_env :: register_env where
  "bob_env = \<lparr>re_tenant_uuid = ''t2'', re_tenant_now = 20, re_user_uuid = ''u2'',
      re_user_now = 21, re_passwordHash = ''$secret2''\<rparr>"

definition register_alice :: request where
  "register_alice = Register ''c1'' alice_form alice_env"

definition register_bob :: request where
  "register_bob = Register ''c2'' bob_form bob_env"

definition register_carol :: request where
  "register_carol = Register ''c3''
     [''email'' \<mapsto> JStr ''carol@x.com'', ''password'' \<mapsto> JStr ''secret3'',
      ''domain'' \<mapsto> JStr ''acme'']
     \<lparr>re_tenant_uuid = ''t3'', re_tenant_now = 30, re_user_uuid = ''u3'', re_user_now = 31,
      re_passwordHash = ''$secret3''\<rparr>"

definition acme_history :: "request list" where
  "acme_history = [register_alice, register_bob,
     SetRole ''c1'' ''u2'' [''role'' \<mapsto> JStr ''admin''], RemoveUser ''c2'' ''u1'']"

definition acme_tenant :: tenant where
  "acme_tenant = \<lparr>t_id = ''t1'', t_name = ''acme'', t_domain = Some ''acme'',
                  t_subdomain = Some ''acme'', t_createdAt = Some 10\<rparr>"

definition user_row :: "string \<Rightarrow> string \<Rightarrow> string \<Rightarrow> string option \<Rightarrow> string \<Rightarrow> int \<Rightarrow> user" where
  "user_row ident email hash tid role now =
     \<lparr>u_id = ident, u_email = email, u_passwordHash = Some hash, u_firstName = None,
      u_lastName = None, u_profileImageUrl = None, u_tenantId = tid, u_role = Some role,
      u_createdAt = Some now, u_updatedAt = Some now\<rparr>"

definition sys1 :: system where
  "sys1 = \<lparr>database = empty_db\<lparr>users := [user_row ''u1'' ''alice@x.com'' ''$secret1'' (Some ''t1'') ''admin'' 11],
                tenants := [acme_tenant]\<rparr>,
            sessions = (\<lambda>_. no_session)(''c1'' := \<lparr>userId = Some ''u1'', tenantId = Some ''t1''\<rparr>)\<rparr>"

definition sys2 :: system where
  "sys2 = \<lparr>database = empty_db\<lparr>users := [user_row ''u1'' ''alice@x.com'' ''$secret1'' (Some ''t1'') ''admin'' 11,
                           user_row ''u2'' ''bob@x.com'' ''$secret2'' (Some ''t1'') ''user'' 21],
                tenants := [acme_tenant]\<rparr>,
            sessions = (\<lambda>_. no_session)(''c1'' := \<lparr>userId = Some ''u1'', tenantId = Some ''t1''\<rparr>,
                                          ''c2'' := \<lparr>userId = Some ''u2'', tenantId = Some ''t1''\<rparr>)\<rparr>"

definition sys3 :: system where
  "sys3 = sys2\<lparr>database := empty_db\<lparr>users := [user_row ''u1'' ''alice@x.com'' ''$secret1'' (Some ''t1'') ''admin'' 11,
                           user_row ''u2'' ''bob@x.com'' ''$secret2'' (Some ''t1'') ''admin'' 21],
                tenants := [acme_tenant]\<rparr>\<rparr>"

definition sys4 :: system where
  "sys4 = sys2\<lparr>database := empty_db\<lparr>users := [user_row ''u1'' ''alice@x.com'' ''$secret1'' None ''user'' 11,
                           user_row ''u2'' ''bob@x.com'' ''$secret2'' (Some ''t1'') ''admin'' 21],
                tenants := [acme_tenant]\<rparr>\<rparr>"

section \<open>Properties\<close>

subsection \<open>C10: removing a member also resets the role\<close>

text \<open>
  Claim C10. \<^verbatim>\<open>removeUserFromTenant\<close> rewrites exactly the rows of the given user in
  the given tenant: it clears the tenant affiliation and, in the same write, sets the
  role to \<^verbatim>\<open>user\<close>, so an administrator who is removed stops being one. Every
  other column of such a row, every other row of \<^verbatim>\<open>users\<close> and every other table
  is left as it was.
\<close>

theorem removeUserFromTenant_resets_role:
  "length (users (removeUserFromTenant uid tid d)) = length (users d)
   \<and> tenants (removeUserFromTenant uid tid d) = tenants d
   \<and> policies (removeUserFromTenant uid tid d) = policies d
   \<and> investments (removeUserFromTenant uid tid d) = investments d
   \<and> (\<forall>i < length (users d).
        let u = users d ! i; u' = users (removeUserFromTenant uid tid d) ! i
        in if u_id u = uid \<and> sql_eq (u_tenantId u) tid
           then u_tenantId u' = None \<and> u_role u' = Some ''user''
              \<and> u_id u' = u_id u \<and> u_email u' = u_email u
              \<and> u_passwordHash u' = u_passwordHash u
              \<and> u_firstName u' = u_firstName u \<and> u_lastName u' = u_lastName u
              \<and> u_profileImageUrl u' = u_profileImageUrl u
              \<and> u_createdAt u' = u_createdAt u \<and> u_updatedAt u' = u_updatedAt u
           else u' = u)"
  by (simp add: removeUserFromTenant_def user_in_tenant_def Let_def)

text \<open>
  At \<open>acme_db\<close>: Alice removes the administrator Bob through
  \<^verbatim>\<open>DELETE /api/admin/users/u2\<close>; Bob's row loses tenant and role, Alice's is untouched.
\<close>

theorem removeUserFromTenant_resets_role_witness:
  "delete_admin_users alice_session ''u2'' acme_db
     = (Response 204 NoBody, removeUserFromTenant ''u2'' (Some ''t1'') acme_db)
   \<and> users (removeUserFromTenant ''u2'' (Some ''t1'') acme_db) ! 1
       = bob\<lparr>u_tenantId := None, u_role := Some ''user''\<rparr>
   \<and> users (removeUserFromTenant ''u2'' (Some ''t1'') acme_db) ! 0 = alice
   \<and> length (users (removeUserFromTenant ''u2'' (Some ''t1'') acme_db)) = 2"
  using removeUserFromTenant_resets_role [of "''u2''" "Some ''t1''" acme_db]
  by (simp add: delete_admin_users_def authenticated_def truthy_def isAdmin_def getUser_def
      removeUserFromTenant_def user_in_tenant_def sql_eq_def
      acme_db_def alice_session_def alice_def bob_def empty_db_def forbidden_def)

subsection \<open>C7: self-demotion and unknown roles are rejected without a write\<close>

text \<open>
  Claim C7. When an administrator sends \<^verbatim>\<open>PUT /api/admin/users/:userId/role\<close> for
  their own id with role \<^verbatim>\<open>user\<close>, the answer is 400 and the database is returned
  unchanged; a role other than \<^verbatim>\<open>admin\<close> and \<^verbatim>\<open>user\<close> (absent or not a string
  included) is answered 400 \<^verbatim>\<open>Invalid role\<close>, again without a write. Whoever sends
  such a request, administrator or not, the database is unchanged and the answer is
  one of the refusals 401, 403 or 400.
\<close>

theorem role_change_rejections:
  "(authenticated s = Some me \<and> isAdmin me d \<and> b ''role'' = Some (JStr ''user'')
      \<longrightarrow> put_admin_users_role s me b d
          = (Response 400 (Message ''Cannot demote yourself. Ask another admin to change your role.''), d))
   \<and> (authenticated s = Some me \<and> isAdmin me d
        \<and> b ''role'' \<noteq> Some (JStr ''admin'') \<and> b ''role'' \<noteq> Some (JStr ''user'')
      \<longrightarrow> put_admin_users_role s target b d = (Response 400 (Message ''Invalid role''), d))
   \<and> ((userId s = Some target \<and> b ''role'' = Some (JStr ''user''))
        \<or> (b ''role'' \<noteq> Some (JStr ''admin'') \<and> b ''role'' \<noteq> Some (JStr ''user''))
      \<longrightarrow> snd (put_admin_users_role s target b d) = d
        \<and> fst (put_admin_users_role s target b d) \<in>
            {unauthorized, forbidden, Response 400 (Message ''Invalid role''),
             Response 400 (Message ''Cannot demote yourself. Ask another admin to change your role.'')})"
  by (auto simp: put_admin_users_role_def authenticated_def split: option.splits json.splits if_splits)

text \<open>At \<open>acme_db\<close>, for the administrator Alice.\<close>

theorem role_change_rejections_witness:
  "put_admin_users_role alice_session ''u1'' [''role'' \<mapsto> JStr ''user''] acme_db
     = (Response 400 (Message ''Cannot demote yourself. Ask another admin to change your role.''), acme_db)
   \<and> put_admin_users_role alice_session ''u2'' [''role'' \<mapsto> JStr ''owner''] acme_db
     = (Response 400 (Message ''Invalid role''), acme_db)
   \<and> getUser ''u1'' acme_db = Some alice \<and> u_role alice = Some ''admin''"
proof -
  have adm: "authenticated alice_session = Some ''u1'' \<and> isAdmin ''u1'' acme_db"
    by (simp add: authenticated_def truthy_def isAdmin_def getUser_def acme_db_def
        alice_session_def alice_def bob_def empty_db_def)
  have g: "getUser ''u1'' acme_db = Some alice \<and> u_role alice = Some ''admin''"
    by (simp add: getUser_def acme_db_def alice_def bob_def empty_db_def)
  show ?thesis
    using role_change_rejections [of alice_session "''u1''" acme_db "[''role'' \<mapsto> JStr ''user'']" "''u2''"]
      role_change_rejections [of alice_session "''u1''" acme_db "[''role'' \<mapsto> JStr ''owner'']" "''u2''"]
      adm g
    by simp
qed

subsection \<open>Facts about lists\<close>


lemma find_None_iff_all: "(find P xs = None) = (\<forall>x \<in> set xs. \<not> P x)"
  by (induction xs) auto

lemma find_filter_None: "find P (filter (\<lambda>x. \<not> P x) xs) = None"
  by (induction xs) auto

lemma length_newest_first: "length (newest_first c xs) = length xs"
  by (simp add: newest_first_def)

subsection \<open>C9: the delete routes of \<^verbatim>\<open>server/routes.ts\<close> answer 204 whatever the id\<close>



subsection \<open>C1: cross-tenant calls and "not found"\<close>

text \<open>
  What the tenant-scoped storage methods of \<^verbatim>\<open>server/storage.ts\<close> guarantee for
  every tenant: a read returns rows of that tenant only, and an update or a delete
  leaves every row of another tenant in place.
\<close>

lemma set_newest_first: "set (newest_first c xs) = set xs"
  by (simp add: newest_first_def)

lemma tenant_scoped_reads:
  "(\<forall>p \<in> set (getPolicies tid d). Some (p_tenantId p) = tid \<and> p \<in> set (policies d))
   \<and> (\<forall>p. getPolicy ident tid d = Inr (Some p) \<longrightarrow> Some (p_tenantId p) = tid \<and> p \<in> set (policies d))
   \<and> (\<forall>i \<in> set (getInvestments tid d). Some (i_tenantId i) = tid \<and> i \<in> set (investments d))
   \<and> (\<forall>i. getInvestment ident tid d = Inr (Some i) \<longrightarrow> Some (i_tenantId i) = tid \<and> i \<in> set (investments d))"
  by (auto simp: getPolicies_def getPolicy_def getInvestments_def getInvestment_def
      set_newest_first owned_by_def find_Some_iff split: if_splits)

lemma tenant_scoped_updates:
  "(\<forall>r d'. updatePolicy pg ident tid v d = Inr (r, d') \<longrightarrow>
       length (policies d') = length (policies d)
     \<and> (\<forall>k < length (policies d).
          Some (p_tenantId (policies d ! k)) \<noteq> tid \<longrightarrow> policies d' ! k = policies d ! k))
   \<and> (\<forall>r d'. updateInvestment pg now ident tid w d = Inr (r, d') \<longrightarrow>
       length (investments d') = length (investments d)
     \<and> (\<forall>k < length (investments d).
          Some (i_tenantId (investments d ! k)) \<noteq> tid \<longrightarrow> investments d' ! k = investments d ! k))"
  by (auto simp: updatePolicy_def updateInvestment_def owned_by_def Let_def
      split: if_splits option.splits)

lemma tenant_scoped_deletes:
  "(\<forall>d'. deletePolicy ident tid d = Inr d' \<longrightarrow>
       filter (\<lambda>p. Some (p_tenantId p) \<noteq> tid) (policies d')
         = filter (\<lambda>p. Some (p_tenantId p) \<noteq> tid) (policies d))
   \<and> (\<forall>d'. deleteInvestment ident tid d = Inr d' \<longrightarrow>
       filter (\<lambda>i. Some (i_tenantId i) \<noteq> tid) (investments d')
         = filter (\<lambda>i. Some (i_tenantId i) \<noteq> tid) (investments d))"
  by (auto simp: deletePolicy_def deleteInvestment_def owned_by_def split: if_splits
      intro: filter_cong)

text \<open>
  Claim C1 asks that a call scoped to another tenant is answered "not found". The
  read and the update of \<^verbatim>\<open>server/routes.ts\<close> do answer 404 and the storage layer
  never returns or changes the row, but the two delete routes answer 204: here
  Carol, of tenant \<^verbatim>\<open>t2\<close>, calls get, update and delete on policy 1 and delete on
  investment 1, both rows of tenant \<^verbatim>\<open>t1\<close>.
\<close>

theorem cross_tenant_delete_answers_204:
  "getPolicy 1 (Some ''t1'') records_db = Inr (Some policy1)
   \<and> get_policies_id carol_session 1 records_db = Response 404 (Message ''Policy not found'')
   \<and> put_policies_id pg_examples carol_session 1 [''notes'' \<mapsto> JStr ''mine''] records_db
       = (Response 404 (Message ''Policy not found''), records_db)
   \<and> delete_policies_id carol_session 1 records_db = (Response 204 NoBody, records_db)
   \<and> delete_investments_id carol_session 1 records_db = (Response 204 NoBody, records_db)"
proof -
  have p: "parse_policy True [''notes'' \<mapsto> JStr ''mine'']
      = Inr \<lparr>pv_tenantId = None, pv_provider = None, pv_policyName = None,
          pv_policyNumber = Undefined, pv_policyType = None, pv_country = None,
          pv_startDate = None, pv_maturityDate = None, pv_nextRenewalDate = None,
          pv_lastPremiumDate = None, pv_premium = Undefined, pv_premiumCurrency = Undefined,
          pv_premiumFrequency = Undefined, pv_nominee = Undefined,
          pv_beneficiaryType = Undefined, pv_paidTo = Undefined, pv_notes = Given ''mine'',
          pv_documentUrl = Undefined\<rparr>"
    by (simp add: parse_policy_def first_issue_def policy_shape_def zvalid_def str_opt_def
        str_nullish_def str_trimmed_def)
  show ?thesis
    by (simp add: get_policies_id_def put_policies_id_def delete_policies_id_def
        delete_investments_id_def getPolicy_def updatePolicy_def deletePolicy_def
        deleteInvestment_def no_policy_values_def p in_int4_def policy_in_def
        text_opt_in_def text_nullable_in_def text_in_def read_opt_def read_nullable_def
        authenticated_def truthy_def carol_session_def owned_by_def records_db_def
        policy1_def investment1_def Let_def)
qed

subsection \<open>C2: the tenant of an investment can be rewritten by an update\<close>

text \<open>
  Claim C2 asks that no partial payload changes the owning tenant. The policy routes
  take \<^verbatim>\<open>insertPolicySchema.omit({ tenantId: true })\<close>, but the investment routes take
  \<^verbatim>\<open>insertInvestmentSchema\<close> with \<^verbatim>\<open>tenantId\<close> still in its shape, and
  \<^verbatim>\<open>updateInvestment\<close> writes every key of the validated object. Alice, of tenant
  \<^verbatim>\<open>t1\<close>, sends \<^verbatim>\<open>PUT /api/investments/1\<close> with \<^verbatim>\<open>{"tenantId": "t2"}\<close>: the
  row now belongs to \<^verbatim>\<open>t2\<close>.
\<close>

theorem investment_update_changes_tenant:
  "put_investments_id pg_examples 500 alice_session 1 [''tenantId'' \<mapsto> JStr ''t2''] records_db
     = (Response 200 (InvestmentRow (investment1\<lparr>i_tenantId := ''t2'', i_lastUpdated := Some 500\<rparr>)),
        records_db\<lparr>investments := [investment1\<lparr>i_tenantId := ''t2'', i_lastUpdated := Some 500\<rparr>]\<rparr>)
   \<and> getInvestments (Some ''t1'') records_db = [investment1]
   \<and> getInvestments (Some ''t1'')
        (snd (put_investments_id pg_examples 500 alice_session 1 [''tenantId'' \<mapsto> JStr ''t2''] records_db)) = []
   \<and> getInvestments (Some ''t2'')
        (snd (put_investments_id pg_examples 500 alice_session 1 [''tenantId'' \<mapsto> JStr ''t2''] records_db))
       = [investment1\<lparr>i_tenantId := ''t2'', i_lastUpdated := Some 500\<rparr>]"
proof -
  have p: "parse_investment True [''tenantId'' \<mapsto> JStr ''t2'']
      = Inr \<lparr>iv_tenantId = Some ''t2'', iv_type = None, iv_platform = None,
        iv_country = None, iv_currency = None, iv_initialAmount = None, iv_currentValue = None,
        iv_shares = None, iv_purchaseDate = None, iv_lastUpdated = None\<rparr>"
    by (simp add: parse_investment_def first_issue_def investment_shape_def zvalid_def
        str_opt_def str_trimmed_def)
  have h: "put_investments_id pg_examples 500 alice_session 1 [''tenantId'' \<mapsto> JStr ''t2''] records_db
     = (Response 200 (InvestmentRow (investment1\<lparr>i_tenantId := ''t2'', i_lastUpdated := Some 500\<rparr>)),
        records_db\<lparr>investments := [investment1\<lparr>i_tenantId := ''t2'', i_lastUpdated := Some 500\<rparr>]\<rparr>)"
    by (simp add: put_investments_id_def authenticated_def truthy_def alice_session_def p
        updateInvestment_def ts_throws_def no_investment_values_def set_investment_def
        in_int4_def investment_in_def text_opt_in_def text_in_def read_opt_def
        set_col_def set_some_def set_ts_def owned_by_def records_db_def investment1_def Let_def)
  show ?thesis
    unfolding h
    by (simp add: getInvestments_def newest_first_def owned_by_def records_db_def investment1_def)
qed

subsection \<open>C5: one analytics row per policy\<close>

text \<open>
  Claim C5. For a signed-in requester \<^verbatim>\<open>GET /api/dashboard/analytics\<close> answers 200
  with one \<^verbatim>\<open>premiumsByProvider\<close> row for each policy of the tenant, in the order
  of \<^verbatim>\<open>getPolicies\<close>, with no grouping: the k-th row is computed from the k-th
  policy alone and has \<^verbatim>\<open>policyCount = 1\<close>. With \<open>premium\<close> the number
  \<^verbatim>\<open>parseFloat(pol.premium || '0')\<close>, a policy whose frequency is \<^verbatim>\<open>yearly\<close>
  yields \<open>premium / 12\<close> a month and \<open>premium\<close> a year; every other frequency
  (no frequency included) yields \<open>premium\<close> a month and \<open>premium * 12\<close> a year.
  Numbers are exact rationals here; IEEE rounding is not modelled.
\<close>

theorem premiumsByProvider_one_row_per_policy:
  "authenticated s \<noteq> None \<Longrightarrow>
   (\<exists>a. get_dashboard_analytics s d = Response 200 (Analytics a)
      \<and> length (premiumsByProvider a) = length (getPolicies (tenantId s) d)
      \<and> length (getPolicies (tenantId s) d)
          = length (filter (\<lambda>p. Some (p_tenantId p) = tenantId s) (policies d))
      \<and> (\<forall>k < length (getPolicies (tenantId s) d).
            let pol = getPolicies (tenantId s) d ! k;
                row = premiumsByProvider a ! k;
                premium = parseFloat (or_else (p_premium pol) ''0'')
            in pr_policyCount row = 1
             \<and> (if p_premiumFrequency pol = Some ''yearly''
                 then pr_monthlyPremium row = js_div premium 12 \<and> pr_yearlyPremium row = premium
                 else pr_monthlyPremium row = premium \<and> pr_yearlyPremium row = js_mul premium 12)))"
  by (auto simp: get_dashboard_analytics_def Let_def premium_of_def getPolicies_def
      length_newest_first js_div_def js_mul_def owned_by_def eq_commute option.map_ident
      split: option.splits intro!: arg_cong[where f=length] filter_cong)

text \<open>
  Premium 1200, yearly: 100 a month and 1200 a year. A second policy of the same
  provider, paid monthly, gets a row of its own: 1200 a month and 14400 a year.
\<close>

theorem premiumsByProvider_one_row_per_policy_witness:
  "authenticated alice_session \<noteq> None
   \<and> (\<exists>a. get_dashboard_analytics alice_session records_db = Response 200 (Analytics a)
          \<and> length (premiumsByProvider a) = 1)
   \<and> get_dashboard_analytics alice_session records_db = Response 200 (Analytics
        \<lparr>investmentsByType = [\<lparr>bt_type = ''Stocks'', bt_value = Some (3001 / 2), bt_count = 1\<rparr>],
         investmentsByPlatform = [\<lparr>bp_platform = ''Avanza'', bp_value = Some (3001 / 2), bp_count = 1\<rparr>],
         premiumsByProvider = [\<lparr>pr_provider = ''Folksam'', pr_monthlyPremium = Some 100,
            pr_yearlyPremium = Some 1200, pr_policyCount = 1, pr_currency = ''SEK''\<rparr>],
         upcomingRenewals = []\<rparr>)
   \<and> get_dashboard_analytics alice_session
         (records_db\<lparr>policies := [policy1, policy1\<lparr>p_id := 2, p_premiumFrequency := Some ''monthly''\<rparr>]\<rparr>)
      = Response 200 (Analytics
        \<lparr>investmentsByType = [\<lparr>bt_type = ''Stocks'', bt_value = Some (3001 / 2), bt_count = 1\<rparr>],
         investmentsByPlatform = [\<lparr>bp_platform = ''Avanza'', bp_value = Some (3001 / 2), bp_count = 1\<rparr>],
         premiumsByProvider =
           [\<lparr>pr_provider = ''Folksam'', pr_monthlyPremium = Some 100,
              pr_yearlyPremium = Some 1200, pr_policyCount = 1, pr_currency = ''SEK''\<rparr>,
            \<lparr>pr_provider = ''Folksam'', pr_monthlyPremium = Some 1200,
              pr_yearlyPremium = Some 14400, pr_policyCount = 1, pr_currency = ''SEK''\<rparr>],
         upcomingRenewals = []\<rparr>)"
proof -
  have a: "authenticated alice_session \<noteq> None"
    by (simp add: authenticated_def truthy_def alice_session_def)
  have n: "length (getPolicies (tenantId alice_session) records_db) = 1"
    by (simp add: getPolicies_def newest_first_def owned_by_def records_db_def alice_session_def
        policy1_def)
  have e1: "get_dashboard_analytics alice_session records_db = Response 200 (Analytics
        \<lparr>investmentsByType = [\<lparr>bt_type = ''Stocks'', bt_value = Some (3001 / 2), bt_count = 1\<rparr>],
         investmentsByPlatform = [\<lparr>bp_platform = ''Avanza'', bp_value = Some (3001 / 2), bp_count = 1\<rparr>],
         premiumsByProvider = [\<lparr>pr_provider = ''Folksam'', pr_monthlyPremium = Some 100,
            pr_yearlyPremium = Some 1200, pr_policyCount = 1, pr_currency = ''SEK''\<rparr>],
         upcomingRenewals = []\<rparr>)"
    by (simp add: get_dashboard_analytics_def getPolicies_def getInvestments_def
        newest_first_def owned_by_def records_db_def acme_db_def empty_db_def policy1_def
        investment1_def alice_session_def premium_of_def or_else_def truthy_def authenticated_def
        parseFloat_def decimal_def unsigned_decimal_def digit_of_def Let_def js_div_def js_mul_def)
  have e2: "get_dashboard_analytics alice_session
         (records_db\<lparr>policies := [policy1, policy1\<lparr>p_id := 2, p_premiumFrequency := Some ''monthly''\<rparr>]\<rparr>)
      = Response 200 (Analytics
        \<lparr>investmentsByType = [\<lparr>bt_type = ''Stocks'', bt_value = Some (3001 / 2), bt_count = 1\<rparr>],
         investmentsByPlatform = [\<lparr>bp_platform = ''Avanza'', bp_value = Some (3001 / 2), bp_count = 1\<rparr>],
         premiumsByProvider =
           [\<lparr>pr_provider = ''Folksam'', pr_monthlyPremium = Some 100,
              pr_yearlyPremium = Some 1200, pr_policyCount = 1, pr_currency = ''SEK''\<rparr>,
            \<lparr>pr_provider = ''Folksam'', pr_monthlyPremium = Some 1200,
              pr_yearlyPremium = Some 14400, pr_policyCount = 1, pr_currency = ''SEK''\<rparr>],
         upcomingRenewals = []\<rparr>)"
    by (simp add: get_dashboard_analytics_def getPolicies_def getInvestments_def
        newest_first_def owned_by_def records_db_def acme_db_def empty_db_def policy1_def
        investment1_def alice_session_def premium_of_def or_else_def truthy_def authenticated_def
        parseFloat_def decimal_def unsigned_decimal_def digit_of_def Let_def js_div_def js_mul_def)
  from premiumsByProvider_one_row_per_policy [OF a, of records_db] n
  have "\<exists>a. get_dashboard_analytics alice_session records_db = Response 200 (Analytics a)
          \<and> length (premiumsByProvider a) = 1"
    by auto
  with a e1 e2 show ?thesis by blast
qed

subsection \<open>C6: every investment update that is carried out stamps \<^verbatim>\<open>lastUpdated\<close>\<close>

lemma investment_in_lastUpdated:
  "investment_in pg (v\<lparr>iv_lastUpdated := x\<rparr>)
     = map_option (\<lambda>v'. v'\<lparr>iv_lastUpdated := x\<rparr>) (investment_in pg v)"
  by (simp add: investment_in_def split: Option.bind_split)

lemma investment_in_Some:
  "investment_in pg v = Some v' \<Longrightarrow> iv_lastUpdated v' = iv_lastUpdated v"
  by (auto simp: investment_in_def split: if_splits Option.bind_splits)

lemma updateInvestment_cases:
  "updateInvestment pg now ident tid updates d =
     (if \<not> in_int4 ident then Inl DataException
      else case investment_in pg updates of
             None \<Rightarrow> Inl DataException
           | Some v \<Rightarrow>
               Inr (map_option (set_investment (v\<lparr>iv_lastUpdated := Some (TsDate now)\<rparr>))
                      (find (\<lambda>i. i_id i = ident \<and> owned_by tid (i_tenantId i)) (investments d)),
                    d\<lparr>investments := map (\<lambda>i. if i_id i = ident \<and> owned_by tid (i_tenantId i)
                          then set_investment (v\<lparr>iv_lastUpdated := Some (TsDate now)\<rparr>) i else i)
                        (investments d)\<rparr>))"
  by (simp add: updateInvestment_def Let_def ts_throws_def no_investment_values_def
      investment_in_lastUpdated split: option.split)

lemma set_investment_lastUpdated:
  "i_lastUpdated (set_investment (v\<lparr>iv_lastUpdated := Some (TsDate now)\<rparr>) i) = Some now"
  by (simp add: set_investment_def set_ts_def)

text \<open>
  Claim C6, amended. \<^verbatim>\<open>updateInvestment\<close> of \<^verbatim>\<open>server/storage.ts\<close> takes nothing
  from a \<^verbatim>\<open>lastUpdated\<close> of the client. It is carried out exactly when the database
  can read the id and the other values of the payload; otherwise it throws and
  writes nothing. When it is carried out, whatever else the payload holds (none of
  the value fields included), \<^verbatim>\<open>lastUpdated\<close> of every row it rewrites, and of the
  row it returns, is the clock reading \<open>now\<close> of this call, and the other rows are
  left as they were. The new stamp is not below the stored one exactly when the
  stored one is not after that clock reading.
\<close>

theorem updateInvestment_stamps_lastUpdated:
  "(\<forall>x. updateInvestment pg now ident tid (updates\<lparr>iv_lastUpdated := x\<rparr>) d
          = updateInvestment pg now ident tid updates d)
   \<and> ((\<exists>r d'. updateInvestment pg now ident tid updates d = Inr (r, d'))
        = (in_int4 ident \<and> investment_in pg updates \<noteq> None))
   \<and> (\<forall>e. updateInvestment pg now ident tid updates d = Inl e \<longrightarrow> e = DataException)
   \<and> (\<forall>r d'. updateInvestment pg now ident tid updates d = Inr (r, d') \<longrightarrow>
        length (investments d') = length (investments d)
      \<and> (\<forall>k < length (investments d).
            if i_id (investments d ! k) = ident \<and> Some (i_tenantId (investments d ! k)) = tid
            then i_lastUpdated (investments d' ! k) = Some now
               \<and> (i_lastUpdated (investments d ! k) \<le> i_lastUpdated (investments d' ! k))
                   = (case i_lastUpdated (investments d ! k) of
                        None \<Rightarrow> True | Some previous \<Rightarrow> previous \<le> now)
            else investments d' ! k = investments d ! k)
      \<and> (\<forall>i'. r = Some i' \<longrightarrow> i_lastUpdated i' = Some now)
      \<and> (r = None) = (getInvestment ident tid d = Inr None))"
proof -
  have client: "\<forall>x. updateInvestment pg now ident tid (updates\<lparr>iv_lastUpdated := x\<rparr>) d
          = updateInvestment pg now ident tid updates d"
    by (simp add: updateInvestment_def Let_def)
  have carried: "(\<exists>r d'. updateInvestment pg now ident tid updates d = Inr (r, d'))
        = (in_int4 ident \<and> investment_in pg updates \<noteq> None)"
    by (auto simp: updateInvestment_cases split: option.splits)
  have refused: "\<forall>e. updateInvestment pg now ident tid updates d = Inl e \<longrightarrow> e = DataException"
    by (auto simp: updateInvestment_cases split: option.splits if_splits)
  have stamped: "\<forall>r d'. updateInvestment pg now ident tid updates d = Inr (r, d') \<longrightarrow>
        length (investments d') = length (investments d)
      \<and> (\<forall>k < length (investments d).
            if i_id (investments d ! k) = ident \<and> Some (i_tenantId (investments d ! k)) = tid
            then i_lastUpdated (investments d' ! k) = Some now
               \<and> (i_lastUpdated (investments d ! k) \<le> i_lastUpdated (investments d' ! k))
                   = (case i_lastUpdated (investments d ! k) of
                        None \<Rightarrow> True | Some previous \<Rightarrow> previous \<le> now)
            else investments d' ! k = investments d ! k)
      \<and> (\<forall>i'. r = Some i' \<longrightarrow> i_lastUpdated i' = Some now)
      \<and> (r = None) = (getInvestment ident tid d = Inr None)"
  proof (intro allI impI)
    fix r d'
    assume u: "updateInvestment pg now ident tid updates d = Inr (r, d')"
    from u have int4: "in_int4 ident"
      by (auto simp: updateInvestment_cases split: if_splits)
    from u int4 obtain v where v: "investment_in pg updates = Some v"
      by (auto simp: updateInvestment_cases split: option.splits)
    let ?hit = "\<lambda>i. i_id i = ident \<and> owned_by tid (i_tenantId i)"
    let ?set = "set_investment (v\<lparr>iv_lastUpdated := Some (TsDate now)\<rparr>)"
    from u int4 v have r: "r = map_option ?set (find ?hit (investments d))"
      and d': "d' = d\<lparr>investments := map (\<lambda>i. if ?hit i then ?set i else i) (investments d)\<rparr>"
      by (simp_all add: updateInvestment_cases)
    have len: "length (investments d') = length (investments d)"
      by (simp add: d')
    have rows: "\<forall>k < length (investments d).
            if i_id (investments d ! k) = ident \<and> Some (i_tenantId (investments d ! k)) = tid
            then i_lastUpdated (investments d' ! k) = Some now
               \<and> (i_lastUpdated (investments d ! k) \<le> i_lastUpdated (investments d' ! k))
                   = (case i_lastUpdated (investments d ! k) of
                        None \<Rightarrow> True | Some previous \<Rightarrow> previous \<le> now)
            else investments d' ! k = investments d ! k"
      by (auto simp: d' owned_by_def set_investment_lastUpdated split: option.splits)
    have ret: "\<forall>i'. r = Some i' \<longrightarrow> i_lastUpdated i' = Some now"
      by (auto simp: r set_investment_lastUpdated)
    have none: "(r = None) = (getInvestment ident tid d = Inr None)"
      by (simp add: r getInvestment_def int4)
    from len rows ret none
    show "length (investments d') = length (investments d)
      \<and> (\<forall>k < length (investments d).
            if i_id (investments d ! k) = ident \<and> Some (i_tenantId (investments d ! k)) = tid
            then i_lastUpdated (investments d' ! k) = Some now
               \<and> (i_lastUpdated (investments d ! k) \<le> i_lastUpdated (investments d' ! k))
                   = (case i_lastUpdated (investments d ! k) of
                        None \<Rightarrow> True | Some previous \<Rightarrow> previous \<le> now)
            else investments d' ! k = investments d ! k)
      \<and> (\<forall>i'. r = Some i' \<longrightarrow> i_lastUpdated i' = Some now)
      \<and> (r = None) = (getInvestment ident tid d = Inr None)"
      by blast
  qed
  show ?thesis
    using client carried refused stamped by blast
qed


text \<open>
  \<^verbatim>\<open>PUT /api/investments/1\<close> with only \<^verbatim>\<open>{"lastUpdated": "1999-01-01"}\<close> at clock
  reading 500 is carried out and stores 500, above the stored 100.
\<close>

theorem updateInvestment_stamps_lastUpdated_witness:
  "in_int4 1
   \<and> investment_in pg_examples \<lparr>iv_tenantId = None, iv_type = None, iv_platform = None,
        iv_country = None, iv_currency = None, iv_initialAmount = None, iv_currentValue = None,
        iv_shares = None, iv_purchaseDate = None,
        iv_lastUpdated = Some (TsString ''1999-01-01'')\<rparr> \<noteq> None
   \<and> put_investments_id pg_examples 500 alice_session 1
        [''lastUpdated'' \<mapsto> JStr ''1999-01-01''] records_db
     = (Response 200 (InvestmentRow (investment1\<lparr>i_lastUpdated := Some 500\<rparr>)),
        records_db\<lparr>investments := [investment1\<lparr>i_lastUpdated := Some 500\<rparr>]\<rparr>)
   \<and> updateInvestment pg_examples 500 1 (Some ''t1'') \<lparr>iv_tenantId = None, iv_type = None,
        iv_platform = None, iv_country = None, iv_currency = None, iv_initialAmount = None,
        iv_currentValue = None, iv_shares = None, iv_purchaseDate = None,
        iv_lastUpdated = Some (TsString ''1999-01-01'')\<rparr> records_db
     = Inr (Some (investment1\<lparr>i_lastUpdated := Some 500\<rparr>),
            records_db\<lparr>investments := [investment1\<lparr>i_lastUpdated := Some 500\<rparr>]\<rparr>)
   \<and> i_lastUpdated (investments records_db ! 0) = Some 100
   \<and> i_lastUpdated (investments records_db ! 0)
        \<le> i_lastUpdated (investments
             (records_db\<lparr>investments := [investment1\<lparr>i_lastUpdated := Some 500\<rparr>]\<rparr>) ! 0)"
proof -
  let ?u1 = "\<lparr>iv_tenantId = None, iv_type = None, iv_platform = None,
        iv_country = None, iv_currency = None, iv_initialAmount = None, iv_currentValue = None,
        iv_shares = None, iv_purchaseDate = None, iv_lastUpdated = Some (TsString ''1999-01-01'')\<rparr>"
  let ?r1 = "investment1\<lparr>i_lastUpdated := Some 500\<rparr>"
  let ?d1 = "records_db\<lparr>investments := [?r1]\<rparr>"
  have int4: "in_int4 1"
    by (simp add: in_int4_def)
  have read: "investment_in pg_examples ?u1 \<noteq> None"
    by (simp add: investment_in_def text_opt_in_def read_opt_def)
  have e1: "updateInvestment pg_examples 500 1 (Some ''t1'') ?u1 records_db = Inr (Some ?r1, ?d1)"
    by (simp add: updateInvestment_cases in_int4_def investment_in_def text_opt_in_def
        read_opt_def set_investment_def set_col_def set_some_def set_ts_def
        owned_by_def records_db_def investment1_def)
  have p: "parse_investment True [''lastUpdated'' \<mapsto> JStr ''1999-01-01''] = Inr ?u1"
    by (simp add: parse_investment_def first_issue_def investment_shape_def zvalid_def
        str_opt_def str_trimmed_def non_blank_def is_space_def)
  have h: "put_investments_id pg_examples 500 alice_session 1
        [''lastUpdated'' \<mapsto> JStr ''1999-01-01''] records_db
     = (Response 200 (InvestmentRow ?r1), ?d1)"
    by (simp add: put_investments_id_def authenticated_def truthy_def alice_session_def p
        e1 [unfolded alice_session_def])
  have row: "investments records_db ! 0 = investment1 \<and> length (investments records_db) = 1
      \<and> i_id investment1 = 1 \<and> Some (i_tenantId investment1) = Some ''t1''
      \<and> i_lastUpdated investment1 = Some 100"
    by (simp add: records_db_def investment1_def)
  from updateInvestment_stamps_lastUpdated [of pg_examples 500 1 "Some ''t1''" ?u1 records_db]
    int4 read
  have "\<exists>r d'. updateInvestment pg_examples 500 1 (Some ''t1'') ?u1 records_db = Inr (r, d')"
    by blast
  from updateInvestment_stamps_lastUpdated [of pg_examples 500 1 "Some ''t1''" ?u1 records_db] e1
  have "\<forall>k < length (investments records_db).
            if i_id (investments records_db ! k) = 1
               \<and> Some (i_tenantId (investments records_db ! k)) = Some ''t1''
            then i_lastUpdated (investments ?d1 ! k) = Some 500
               \<and> (i_lastUpdated (investments records_db ! k) \<le> i_lastUpdated (investments ?d1 ! k))
                   = (case i_lastUpdated (investments records_db ! k) of
                        None \<Rightarrow> True | Some previous \<Rightarrow> previous \<le> 500)
            else investments ?d1 ! k = investments records_db ! k"
    by blast
  with row have "i_lastUpdated (investments records_db ! 0) \<le> i_lastUpdated (investments ?d1 ! 0)"
    by simp
  with int4 read h e1 row show ?thesis
    by simp
qed

text \<open>
  Claim C6 as stated fails in two ways. An update with a value the database cannot
  read is not carried out, so nothing is stamped: \<^verbatim>\<open>{"currentValue": "abc"}\<close> at
  clock reading 700 leaves \<^verbatim>\<open>lastUpdated\<close> at 100. And the stamp is the reading of
  the server's clock, which nothing compares with the stored value: an update
  handled at clock reading 500 after one handled at 600 takes \<^verbatim>\<open>lastUpdated\<close> from
  600 down to 500.
\<close>

theorem updateInvestment_no_stamp_or_earlier_stamp_counterexample:
  "i_lastUpdated investment1 = Some 100
   \<and> put_investments_id pg_examples 700 alice_session 1
        [''currentValue'' \<mapsto> JStr ''abc''] records_db
     = (Rethrown DataException, records_db)
   \<and> put_investments_id pg_examples 600 alice_session 1
        [''currentValue'' \<mapsto> JStr ''1600''] records_db
     = (Response 200 (InvestmentRow
          (investment1\<lparr>i_currentValue := ''1600'', i_lastUpdated := Some 600\<rparr>)),
        records_db\<lparr>investments :=
          [investment1\<lparr>i_currentValue := ''1600'', i_lastUpdated := Some 600\<rparr>]\<rparr>)
   \<and> put_investments_id pg_examples 500 alice_session 1
        [''platform'' \<mapsto> JStr ''Nordnet'']
        (records_db\<lparr>investments :=
          [investment1\<lparr>i_currentValue := ''1600'', i_lastUpdated := Some 600\<rparr>]\<rparr>)
     = (Response 200 (InvestmentRow
          (investment1\<lparr>i_platform := ''Nordnet'', i_currentValue := ''1600'',
             i_lastUpdated := Some 500\<rparr>)),
        records_db\<lparr>investments :=
          [investment1\<lparr>i_platform := ''Nordnet'', i_currentValue := ''1600'',
             i_lastUpdated := Some 500\<rparr>]\<rparr>)
   \<and> \<not> (Some (600::int) \<le> Some 500)"
proof -
  have p1: "parse_investment True [''currentValue'' \<mapsto> JStr ''abc'']
      = Inr \<lparr>iv_tenantId = None, iv_type = None, iv_platform = None,
        iv_country = None, iv_currency = None, iv_initialAmount = None,
        iv_currentValue = Some ''abc'', iv_shares = None, iv_purchaseDate = None,
        iv_lastUpdated = None\<rparr>"
    by (simp add: parse_investment_def first_issue_def investment_shape_def zvalid_def
        str_opt_def str_trimmed_def)
  have p2: "parse_investment True [''currentValue'' \<mapsto> JStr ''1600'']
      = Inr \<lparr>iv_tenantId = None, iv_type = None, iv_platform = None,
        iv_country = None, iv_currency = None, iv_initialAmount = None,
        iv_currentValue = Some ''1600'', iv_shares = None, iv_purchaseDate = None,
        iv_lastUpdated = None\<rparr>"
    by (simp add: parse_investment_def first_issue_def investment_shape_def zvalid_def
        str_opt_def str_trimmed_def)
  have p3: "parse_investment True [''platform'' \<mapsto> JStr ''Nordnet'']
      = Inr \<lparr>iv_tenantId = None, iv_type = None, iv_platform = Some ''Nordnet'',
        iv_country = None, iv_currency = None, iv_initialAmount = None,
        iv_currentValue = None, iv_shares = None, iv_purchaseDate = None,
        iv_lastUpdated = None\<rparr>"
    by (simp add: parse_investment_def first_issue_def investment_shape_def zvalid_def
        str_opt_def str_trimmed_def)
  have a: "authenticated alice_session = Some ''u1'' \<and> tenantId alice_session = Some ''t1''"
    by (simp add: authenticated_def truthy_def alice_session_def)
  have s0: "i_lastUpdated investment1 = Some 100"
    by (simp add: investment1_def)
  have s1: "put_investments_id pg_examples 700 alice_session 1
        [''currentValue'' \<mapsto> JStr ''abc''] records_db
     = (Rethrown DataException, records_db)"
    by (simp add: put_investments_id_def a p1 updateInvestment_cases in_int4_def
        investment_in_def text_opt_in_def read_opt_def pg_examples_def)
  have s2: "put_investments_id pg_examples 600 alice_session 1
        [''currentValue'' \<mapsto> JStr ''1600''] records_db
     = (Response 200 (InvestmentRow
          (investment1\<lparr>i_currentValue := ''1600'', i_lastUpdated := Some 600\<rparr>)),
        records_db\<lparr>investments :=
          [investment1\<lparr>i_currentValue := ''1600'', i_lastUpdated := Some 600\<rparr>]\<rparr>)"
    by (simp add: put_investments_id_def a p2 updateInvestment_cases in_int4_def
        investment_in_def text_opt_in_def read_opt_def pg_examples_def
        set_investment_def set_col_def set_some_def set_ts_def
        owned_by_def records_db_def investment1_def)
  have s3: "put_investments_id pg_examples 500 alice_session 1
        [''platform'' \<mapsto> JStr ''Nordnet'']
        (records_db\<lparr>investments :=
          [investment1\<lparr>i_currentValue := ''1600'', i_lastUpdated := Some 600\<rparr>]\<rparr>)
     = (Response 200 (InvestmentRow
          (investment1\<lparr>i_platform := ''Nordnet'', i_currentValue := ''1600'',
             i_lastUpdated := Some 500\<rparr>)),
        records_db\<lparr>investments :=
          [investment1\<lparr>i_platform := ''Nordnet'', i_currentValue := ''1600'',
             i_lastUpdated := Some 500\<rparr>]\<rparr>)"
    by (simp add: put_investments_id_def a p3 updateInvestment_cases in_int4_def
        investment_in_def text_opt_in_def text_in_def read_opt_def pg_examples_def
        set_investment_def set_col_def set_some_def set_ts_def
        owned_by_def records_db_def investment1_def)
  show ?thesis
    using s0 s1 s2 s3 by simp
qed

subsection \<open>C8: what deleting a policy does to its document\<close>

lemma api_getPolicy_gone:
  "api_deletePolicy ident d = Inr d' \<Longrightarrow> api_getPolicy ident d' = Inr None"
  using find_filter_None [of "\<lambda>p. p_id p = ident" "policies d"]
  by (auto simp: api_getPolicy_def api_deletePolicy_def split: if_splits)

text \<open>
  Claim C8, amended. In \<^verbatim>\<open>DELETE /api/policies/:id\<close> of \<^verbatim>\<open>api/index.ts\<close>, for a
  policy of the requester's tenant: whether or not the collaborator call of
  \<^verbatim>\<open>deleteBlobFile\<close> throws, the answer is 204 and the row is deleted (no policy
  with that id is left). What happens to the document depends on its path. For a
  Vercel Blob URL the blob is removed; for a path in the old \<^verbatim>\<open>documents/\<close>
  format nothing is deleted and nothing is logged; for any other path the local
  file of that name is removed if there is one. When the removal throws, one line
  is written with \<^verbatim>\<open>console.error\<close> and nothing else changes outside the
  database.
\<close>

theorem policy_delete_survives_blob_failure:
  "api_getPolicy ident d = Inr (Some policy) \<and> Some (p_tenantId policy) = su_tenantId u \<longrightarrow>
     (\<exists>d'. api_deletePolicy ident d = Inr d' \<and> api_getPolicy ident d' = Inr None
          \<and> (\<forall>fault. fst (api_delete_policies_id fault (Some u) ident w d) = Response 204 NoBody
                 \<and> snd (snd (api_delete_policies_id fault (Some u) ident w d)) = d'))
     \<and> (\<forall>fault. fst (snd (api_delete_policies_id fault (Some u) ident w d)) =
          (case p_documentUrl policy of
             None \<Rightarrow> w
           | Some url \<Rightarrow>
               if url = [] then w
               else if startsWith ''https://'' url \<and> includes_str ''vercel-storage.com'' url
               then (if fault
                     then w\<lparr>console_error := console_error w @ [''Failed to delete file: '' @ url]\<rparr>
                     else w\<lparr>blobs := removeAll url (blobs w)\<rparr>)
               else if startsWith ''documents/'' url then w
               else if url \<in> set (files w)
               then (if fault
                     then w\<lparr>console_error := console_error w @ [''Failed to delete file: '' @ url]\<rparr>
                     else w\<lparr>files := removeAll url (files w)\<rparr>)
               else w))"
proof (intro impI)
  assume h: "api_getPolicy ident d = Inr (Some policy) \<and> Some (p_tenantId policy) = su_tenantId u"
  then have int4: "in_int4 ident"
    by (auto simp: api_getPolicy_def split: if_splits)
  then obtain d' where d': "api_deletePolicy ident d = Inr d'"
    by (simp add: api_deletePolicy_def)
  have gone: "api_getPolicy ident d' = Inr None"
    using d' by (rule api_getPolicy_gone)
  have answer: "\<forall>fault. fst (api_delete_policies_id fault (Some u) ident w d) = Response 204 NoBody
                 \<and> snd (snd (api_delete_policies_id fault (Some u) ident w d)) = d'"
    using h d' by (simp add: api_delete_policies_id_def Let_def)
  have world: "\<forall>fault. fst (snd (api_delete_policies_id fault (Some u) ident w d)) =
          (case p_documentUrl policy of
             None \<Rightarrow> w
           | Some url \<Rightarrow>
               if url = [] then w
               else if startsWith ''https://'' url \<and> includes_str ''vercel-storage.com'' url
               then (if fault
                     then w\<lparr>console_error := console_error w @ [''Failed to delete file: '' @ url]\<rparr>
                     else w\<lparr>blobs := removeAll url (blobs w)\<rparr>)
               else if startsWith ''documents/'' url then w
               else if url \<in> set (files w)
               then (if fault
                     then w\<lparr>console_error := console_error w @ [''Failed to delete file: '' @ url]\<rparr>
                     else w\<lparr>files := removeAll url (files w)\<rparr>)
               else w)"
    using h d'
    by (simp add: api_delete_policies_id_def deleteBlobFile_def truthy_def Let_def
        split: option.split)
  from d' gone answer world
  show "(\<exists>d'. api_deletePolicy ident d = Inr d' \<and> api_getPolicy ident d' = Inr None
          \<and> (\<forall>fault. fst (api_delete_policies_id fault (Some u) ident w d) = Response 204 NoBody
                 \<and> snd (snd (api_delete_policies_id fault (Some u) ident w d)) = d'))
     \<and> (\<forall>fault. fst (snd (api_delete_policies_id fault (Some u) ident w d)) =
          (case p_documentUrl policy of
             None \<Rightarrow> w
           | Some url \<Rightarrow>
               if url = [] then w
               else if startsWith ''https://'' url \<and> includes_str ''vercel-storage.com'' url
               then (if fault
                     then w\<lparr>console_error := console_error w @ [''Failed to delete file: '' @ url]\<rparr>
                     else w\<lparr>blobs := removeAll url (blobs w)\<rparr>)
               else if startsWith ''documents/'' url then w
               else if url \<in> set (files w)
               then (if fault
                     then w\<lparr>console_error := console_error w @ [''Failed to delete file: '' @ url]\<rparr>
                     else w\<lparr>files := removeAll url (files w)\<rparr>)
               else w))"
    by blast
qed

text \<open>
  Alice deletes policy 1 with and without a fault: once with its document in the
  blob store, once with its document in the upload directory.
\<close>

theorem policy_delete_survives_blob_failure_witness:
  "api_getPolicy 1 records_db = Inr (Some policy1)
   \<and> Some (p_tenantId policy1) = su_tenantId alice_su
   \<and> api_delete_policies_id True (Some alice_su) 1 blob_world records_db
      = (Response 204 NoBody,
         blob_world\<lparr>console_error := [''Failed to delete file: https://x.public.blob.vercel-storage.com/documents/t1/1_a/home.pdf'']\<rparr>,
         records_db\<lparr>policies := []\<rparr>)
   \<and> api_delete_policies_id False (Some alice_su) 1 blob_world records_db
      = (Response 204 NoBody, blob_world\<lparr>blobs := []\<rparr>, records_db\<lparr>policies := []\<rparr>)
   \<and> api_delete_policies_id True (Some alice_su) 1 disk_world local_db
      = (Response 204 NoBody,
         disk_world\<lparr>console_error := [''Failed to delete file: uploads/t1/1_a/home.pdf'']\<rparr>,
         records_db\<lparr>policies := []\<rparr>)
   \<and> api_delete_policies_id False (Some alice_su) 1 disk_world local_db
      = (Response 204 NoBody, disk_world\<lparr>files := [''documents/t1/home.pdf'']\<rparr>,
         records_db\<lparr>policies := []\<rparr>)"
proof -
  let ?local = "policy1\<lparr>p_documentUrl := Some ''uploads/t1/1_a/home.pdf''\<rparr>"
  have g: "api_getPolicy 1 records_db = Inr (Some policy1)"
    by (simp add: api_getPolicy_def in_int4_def records_db_def policy1_def)
  have g2: "api_getPolicy 1 local_db = Inr (Some ?local)"
    by (simp add: api_getPolicy_def in_int4_def local_db_def records_db_def policy1_def)
  have t: "Some (p_tenantId policy1) = su_tenantId alice_su
      \<and> Some (p_tenantId ?local) = su_tenantId alice_su"
    by (simp add: policy1_def alice_su_def)
  have del: "api_deletePolicy 1 records_db = Inr (records_db\<lparr>policies := []\<rparr>)
      \<and> api_deletePolicy 1 local_db = Inr (records_db\<lparr>policies := []\<rparr>)"
    by (simp add: api_deletePolicy_def in_int4_def local_db_def records_db_def policy1_def)
  have url: "p_documentUrl policy1
        = Some ''https://x.public.blob.vercel-storage.com/documents/t1/1_a/home.pdf''
      \<and> startsWith ''https://'' ''https://x.public.blob.vercel-storage.com/documents/t1/1_a/home.pdf''
      \<and> includes_str ''vercel-storage.com''
            ''https://x.public.blob.vercel-storage.com/documents/t1/1_a/home.pdf''"
    by (simp add: policy1_def startsWith_def)
  have url2: "p_documentUrl ?local = Some ''uploads/t1/1_a/home.pdf''
      \<and> \<not> startsWith ''https://'' ''uploads/t1/1_a/home.pdf''
      \<and> \<not> startsWith ''documents/'' ''uploads/t1/1_a/home.pdf''
      \<and> ''uploads/t1/1_a/home.pdf'' \<in> set (files disk_world)
      \<and> removeAll ''uploads/t1/1_a/home.pdf'' (files disk_world) = [''documents/t1/home.pdf'']
      \<and> console_error disk_world = []"
    by (simp add: startsWith_def disk_world_def)
  have b: "blobs blob_world = [''https://x.public.blob.vercel-storage.com/documents/t1/1_a/home.pdf'']
      \<and> console_error blob_world = []"
    by (simp add: blob_world_def)
  have nonempty: "''https://x.public.blob.vercel-storage.com/documents/t1/1_a/home.pdf'' \<noteq> []
      \<and> ''uploads/t1/1_a/home.pdf'' \<noteq> []"
    by simp
  from policy_delete_survives_blob_failure [of 1 records_db policy1 alice_su blob_world] g t
  have blob: "(\<exists>d'. api_deletePolicy 1 records_db = Inr d'
          \<and> (\<forall>fault. fst (api_delete_policies_id fault (Some alice_su) 1 blob_world records_db)
                        = Response 204 NoBody
                 \<and> snd (snd (api_delete_policies_id fault (Some alice_su) 1 blob_world records_db)) = d'))
     \<and> (\<forall>fault. fst (snd (api_delete_policies_id fault (Some alice_su) 1 blob_world records_db)) =
          (case p_documentUrl policy1 of
             None \<Rightarrow> blob_world
           | Some url \<Rightarrow>
               if url = [] then blob_world
               else if startsWith ''https://'' url \<and> includes_str ''vercel-storage.com'' url
               then (if fault
                     then blob_world\<lparr>console_error := console_error blob_world @ [''Failed to delete file: '' @ url]\<rparr>
                     else blob_world\<lparr>blobs := removeAll url (blobs blob_world)\<rparr>)
               else if startsWith ''documents/'' url then blob_world
               else if url \<in> set (files blob_world)
               then (if fault
                     then blob_world\<lparr>console_error := console_error blob_world @ [''Failed to delete file: '' @ url]\<rparr>
                     else blob_world\<lparr>files := removeAll url (files blob_world)\<rparr>)
               else blob_world))"
    by blast
  from policy_delete_survives_blob_failure [of 1 local_db ?local alice_su disk_world] g2 t
  have disk: "(\<exists>d'. api_deletePolicy 1 local_db = Inr d'
          \<and> (\<forall>fault. fst (api_delete_policies_id fault (Some alice_su) 1 disk_world local_db)
                        = Response 204 NoBody
                 \<and> snd (snd (api_delete_policies_id fault (Some alice_su) 1 disk_world local_db)) = d'))
     \<and> (\<forall>fault. fst (snd (api_delete_policies_id fault (Some alice_su) 1 disk_world local_db)) =
          (case p_documentUrl ?local of
             None \<Rightarrow> disk_world
           | Some url \<Rightarrow>
               if url = [] then disk_world
               else if startsWith ''https://'' url \<and> includes_str ''vercel-storage.com'' url
               then (if fault
                     then disk_world\<lparr>console_error := console_error disk_world @ [''Failed to delete file: '' @ url]\<rparr>
                     else disk_world\<lparr>blobs := removeAll url (blobs disk_world)\<rparr>)
               else if startsWith ''documents/'' url then disk_world
               else if url \<in> set (files disk_world)
               then (if fault
                     then disk_world\<lparr>console_error := console_error disk_world @ [''Failed to delete file: '' @ url]\<rparr>
                     else disk_world\<lparr>files := removeAll url (files disk_world)\<rparr>)
               else disk_world))"
    by blast
  from blob del have b1: "\<forall>fault.
        fst (api_delete_policies_id fault (Some alice_su) 1 blob_world records_db) = Response 204 NoBody
      \<and> snd (snd (api_delete_policies_id fault (Some alice_su) 1 blob_world records_db))
          = records_db\<lparr>policies := []\<rparr>"
    by auto
  from blob have b2: "\<forall>fault.
        fst (snd (api_delete_policies_id fault (Some alice_su) 1 blob_world records_db))
          = (if fault
             then blob_world\<lparr>console_error := [''Failed to delete file: https://x.public.blob.vercel-storage.com/documents/t1/1_a/home.pdf'']\<rparr>
             else blob_world\<lparr>blobs := []\<rparr>)"
    by (simp only: url b nonempty option.case if_True if_False simp_thms removeAll.simps
        append.simps)
  from disk del have d1: "\<forall>fault.
        fst (api_delete_policies_id fault (Some alice_su) 1 disk_world local_db) = Response 204 NoBody
      \<and> snd (snd (api_delete_policies_id fault (Some alice_su) 1 disk_world local_db))
          = records_db\<lparr>policies := []\<rparr>"
    by auto
  from disk have d2: "\<forall>fault.
        fst (snd (api_delete_policies_id fault (Some alice_su) 1 disk_world local_db))
          = (if fault
             then disk_world\<lparr>console_error := [''Failed to delete file: uploads/t1/1_a/home.pdf'']\<rparr>
             else disk_world\<lparr>files := [''documents/t1/home.pdf'']\<rparr>)"
    by (simp only: url2 nonempty option.case if_True if_False simp_thms append.simps)
  show ?thesis
    using g t b1 b2 d1 d2 by (simp only: prod_eq_iff fst_conv snd_conv simp_thms if_True if_False)
qed

text \<open>
  Claim C8 as stated fails for a document path in the old format: the policy is
  deleted and the answer is 204, but no deletion of the document is attempted;
  the file is still there and nothing has been logged.
\<close>

theorem legacy_document_is_not_deleted_counterexample:
  "api_getPolicy 1 legacy_db
      = Inr (Some (policy1\<lparr>p_documentUrl := Some ''documents/t1/home.pdf''\<rparr>))
   \<and> ''documents/t1/home.pdf'' \<in> set (files disk_world)
   \<and> api_delete_policies_id False (Some alice_su) 1 disk_world legacy_db
      = (Response 204 NoBody, disk_world, records_db\<lparr>policies := []\<rparr>)
   \<and> api_delete_policies_id True (Some alice_su) 1 disk_world legacy_db
      = (Response 204 NoBody, disk_world, records_db\<lparr>policies := []\<rparr>)"
  by (simp add: api_delete_policies_id_def api_getPolicy_def api_deletePolicy_def in_int4_def
      deleteBlobFile_def truthy_def startsWith_def Let_def legacy_db_def records_db_def
      policy1_def alice_su_def disk_world_def)

subsection \<open>C4: the windows of the dashboard counters\<close>

text \<open>
  Sixty days on from the second clock reading: \<^verbatim>\<open>setDate\<close> keeps the local time
  of day and moves the local date, so it adds sixty times 24 hours when both
  readings fall on one local day and the offset from UTC is the same at the second
  reading and at that local time sixty days later.
\<close>

lemma sixtyDaysFromNow_local:
  "Day (LocalTime tza now2) = Day (LocalTime tza now) \<Longrightarrow>
   setDate tza now2 (getDate tza now + 60) = UTC tza (LocalTime tza now2 + 60 * msPerDay)"
proof -
  assume same: "Day (LocalTime tza now2) = Day (LocalTime tza now)"
  let ?lt = "LocalTime tza now2"
  have "(month_start (Day ?lt) + (getDate tza now + 60) - 1) * msPerDay + TimeWithinDay ?lt
      = (Day ?lt + 60) * msPerDay + ?lt mod msPerDay"
    by (simp add: getDate_def TimeWithinDay_def same Let_def)
  also have "\<dots> = ?lt div msPerDay * msPerDay + ?lt mod msPerDay + 60 * msPerDay"
    by (simp add: Day_def algebra_simps)
  also have "\<dots> = ?lt + 60 * msPerDay"
    by (simp only: div_mult_mod_eq)
  finally show ?thesis
    by (simp add: setDate_def Let_def)
qed










text \<open>
  Across a change of the offset the bound moves with it. A process in
  Europe/Stockholm at 2024-02-01 00:00 UTC puts \<^verbatim>\<open>sixtyDaysFromNow\<close> at
  2024-03-31 23:00 UTC, an hour short of sixty days, and a policy renewing on
  2024-04-01, sixty days on, is not counted.
\<close>

lemma sixtyDaysFromNow_across_summer_time:
  "setDate Europe_Stockholm 1706745600000 (getDate Europe_Stockholm 1706745600000 + 60)
     = 1706745600000 + 60 * msPerDay - 3600000
   \<and> date_of (Some ''2024-04-01'') = Some (1706745600000 + 60 * msPerDay)
   \<and> needsRenewal (getDashboardStats Europe_Stockholm 1706745600000 1706745600000 (Some ''t1'')
        (records_db\<lparr>policies := [policy1\<lparr>p_nextRenewalDate := Some ''2024-04-01''\<rparr>]\<rparr>)) = 0"
proof -
  have sixty: "setDate Europe_Stockholm 1706745600000 (getDate Europe_Stockholm 1706745600000 + 60)
     = 1706745600000 + 60 * msPerDay - 3600000"
    using sixtyDaysFromNow_local [of Europe_Stockholm 1706745600000 1706745600000]
    by (simp add: UTC_def LocalTime_def Europe_Stockholm_def msPerDay_def)
  have renewal: "date_of (Some ''2024-04-01'') = Some (1706745600000 + 60 * msPerDay)"
    by (simp add: date_of_def truthy_def new_Date_def digit_of_def
        days_in_month_def days_from_civil_def msPerDay_def Let_def)
  have g: "getPolicies (Some ''t1'')
       (records_db\<lparr>policies := [policy1\<lparr>p_nextRenewalDate := Some ''2024-04-01''\<rparr>]\<rparr>)
      = [policy1\<lparr>p_nextRenewalDate := Some ''2024-04-01''\<rparr>]"
    by (simp add: getPolicies_def newest_first_def owned_by_def records_db_def policy1_def)
  have m: "date_of (p_maturityDate policy1) = None"
    by (simp add: policy1_def date_of_def truthy_def)
  have "needsRenewal (getDashboardStats Europe_Stockholm 1706745600000 1706745600000 (Some ''t1'')
        (records_db\<lparr>policies := [policy1\<lparr>p_nextRenewalDate := Some ''2024-04-01''\<rparr>]\<rparr>)) = 0"
    by (simp add: getDashboardStats_def Let_def sixty g renewal m msPerDay_def)
  with sixty renewal show ?thesis by simp
qed



subsection \<open>C3: two registrations that overlap both become admin\<close>

lemma alice_begins: "register_begin rt0 alice_form
    = AtGetUserByEmail \<lparr>ri_email = ''alice@x.com'', ri_password = ''secret1'',
         ri_firstName = None, ri_lastName = None, ri_domain = ''acme''\<rparr>"
  by (simp add: register_begin_def parse_register_def rt0_def alice_form_def zvalid_def
      str_opt_def)

lemma bob_begins: "register_begin rt0 bob_form
    = AtGetUserByEmail \<lparr>ri_email = ''bob@x.com'', ri_password = ''secret2'',
         ri_firstName = None, ri_lastName = None, ri_domain = ''acme''\<rparr>"
  by (simp add: register_begin_def parse_register_def rt0_def bob_form_def zvalid_def
      str_opt_def)

text \<open>
  Claim C3 asks that every account registered under a domain after the first is a
  user. The handler of \<^verbatim>\<open>POST /api/auth/register\<close> reads the members of the
  tenant, awaits \<^verbatim>\<open>bcrypt.hash\<close> and only then inserts the user, in no
  transaction. Here Alice and Bob register under the new domain \<^verbatim>\<open>acme\<close> at the
  same time. Alice's request creates the tenant, finds it without members and
  awaits the hash; meanwhile Bob's request finds the tenant, still without
  members; then both insert. Both are answered 201 with the role \<^verbatim>\<open>admin\<close> and
  both rows are stored with it. The same two requests handled one after the other
  make Alice the admin and Bob a user.
\<close>

theorem overlapping_registrations_both_admin:
  "overlap alice_env bob_env
      [First, First, First, First, Second, Second, Second, First, First, Second, Second]
      ((register_begin rt0 alice_form, no_session), (register_begin rt0 bob_form, no_session),
       empty_db)
    = ((Responded (Response 201 (AuthUser
           \<lparr>au_id = ''u1'', au_email = ''alice@x.com'', au_firstName = None, au_lastName = None,
            au_role = Some ''admin'', au_tenantId = Some ''t1''\<rparr>)),
        \<lparr>userId = Some ''u1'', tenantId = Some ''t1''\<rparr>),
       (Responded (Response 201 (AuthUser
           \<lparr>au_id = ''u2'', au_email = ''bob@x.com'', au_firstName = None, au_lastName = None,
            au_role = Some ''admin'', au_tenantId = Some ''t1''\<rparr>)),
        \<lparr>userId = Some ''u2'', tenantId = Some ''t1''\<rparr>),
       empty_db\<lparr>users := [user_row ''u1'' ''alice@x.com'' ''$secret1'' (Some ''t1'') ''admin'' 11,
                           user_row ''u2'' ''bob@x.com'' ''$secret2'' (Some ''t1'') ''admin'' 21],
                tenants := [acme_tenant]\<rparr>)
   \<and> overlap alice_env bob_env
      [First, First, First, First, First, First, Second, Second, Second, Second, Second]
      ((register_begin rt0 alice_form, no_session), (register_begin rt0 bob_form, no_session),
       empty_db)
    = ((Responded (Response 201 (AuthUser
           \<lparr>au_id = ''u1'', au_email = ''alice@x.com'', au_firstName = None, au_lastName = None,
            au_role = Some ''admin'', au_tenantId = Some ''t1''\<rparr>)),
        \<lparr>userId = Some ''u1'', tenantId = Some ''t1''\<rparr>),
       (Responded (Response 201 (AuthUser
           \<lparr>au_id = ''u2'', au_email = ''bob@x.com'', au_firstName = None, au_lastName = None,
            au_role = Some ''user'', au_tenantId = Some ''t1''\<rparr>)),
        \<lparr>userId = Some ''u2'', tenantId = Some ''t1''\<rparr>),
       empty_db\<lparr>users := [user_row ''u1'' ''alice@x.com'' ''$secret1'' (Some ''t1'') ''admin'' 11,
                           user_row ''u2'' ''bob@x.com'' ''$secret2'' (Some ''t1'') ''user'' 21],
                tenants := [acme_tenant]\<rparr>)"
  by (simp add: alice_begins bob_begins alice_env_def bob_env_def
      getUserByEmail_def getTenantByDomain_def createTenant_def getUsersByTenant_def
      user_in_tenant_def createUser_def auth_user_of_def truthy_def sql_eq_def
      no_session_def empty_db_def user_row_def acme_tenant_def Let_def)

subsection \<open>Registrations handled one at a time\<close>

text \<open>
  Run without interruption, the steps of a registration are the handler of
  \<^verbatim>\<open>POST /api/auth/register\<close> as a whole.
\<close>

lemma register_steps_without_overlap:
  "overlap env env2 [First, First, First, First, First, First]
       ((register_begin rt b, s), other, d)
     = (case post_auth_register rt env s b d of
          (r, s', d') \<Rightarrow> ((Responded r, s'), other, d'))"
  by (simp add: register_begin_def post_auth_register_def register_in_tenant_def Let_def
      split: sum.split option.split prod.split)

text \<open>
  The storage methods and handlers, by what they do to \<^verbatim>\<open>users\<close>, \<^verbatim>\<open>tenants\<close>
  and the session store.
\<close>

lemma createTenant_Inr:
  "createTenant uuid now it d = Inr (t, d') \<Longrightarrow>
     t_id t = uuid \<and> t_domain t = it_domain it \<and> users d' = users d
     \<and> tenants d' = tenants d @ [t] \<and> uuid \<notin> set (map t_id (tenants d))"
  by (auto simp: createTenant_def Let_def split: if_splits)

lemma createUser_Inr:
  "createUser uuid now c d = Inr (u, d') \<Longrightarrow>
     u_id u = uuid \<and> u_tenantId u = cu_tenantId c
     \<and> u_role u = Some (if truthy (cu_role c) then the (cu_role c) else ''user'')
     \<and> users d' = users d @ [u] \<and> tenants d' = tenants d"
  by (auto simp: createUser_def Let_def split: if_splits)

lemma createUser_succeeds:
  "uuid \<notin> set (map u_id (users d)) \<Longrightarrow> getUserByEmail (cu_email c) d = None \<Longrightarrow>
     \<exists>u d'. createUser uuid now c d = Inr (u, d')"
  by (auto simp: createUser_def Let_def getUserByEmail_def find_None_iff_all)

lemma policy_routes_keep_users:
  "users (snd (post_policies pg now s b d)) = users d
     \<and> tenants (snd (post_policies pg now s b d)) = tenants d"
  "users (snd (put_policies_id pg s ident b d)) = users d
     \<and> tenants (snd (put_policies_id pg s ident b d)) = tenants d"
  "users (snd (delete_policies_id s ident d)) = users d
     \<and> tenants (snd (delete_policies_id s ident d)) = tenants d"
  by (auto simp: post_policies_def put_policies_id_def delete_policies_id_def createPolicy_def
      updatePolicy_def deletePolicy_def Let_def split: option.splits sum.splits if_splits prod.splits)

lemma investment_routes_keep_users:
  "users (snd (post_investments pg now s b d)) = users d
     \<and> tenants (snd (post_investments pg now s b d)) = tenants d"
  "users (snd (put_investments_id pg now s ident b d)) = users d
     \<and> tenants (snd (put_investments_id pg now s ident b d)) = tenants d"
  "users (snd (delete_investments_id s ident d)) = users d
     \<and> tenants (snd (delete_investments_id s ident d)) = tenants d"
  by (auto simp: post_investments_def put_investments_id_def delete_investments_id_def
      createInvestment_def updateInvestment_def deleteInvestment_def Let_def
      split: option.splits sum.splits if_splits prod.splits)

lemma invariant_cong:
  "invariant sys \<Longrightarrow> users (database sys') = users (database sys) \<Longrightarrow>
   tenants (database sys') = tenants (database sys) \<Longrightarrow> sessions sys' = sessions sys \<Longrightarrow>
   invariant sys'"
  by (simp add: invariant_def inv_ids_def inv_admin_tenant_def inv_tenant_admin_def
      inv_user_tenant_def inv_sessions_def)

lemma invariant_map_users:
  assumes inv: "invariant sys"
    and us: "users d' = map f (users (database sys))"
    and ts: "tenants d' = tenants (database sys)"
    and ids: "\<And>u. u_id (f u) = u_id u"
    and ten: "\<And>u. u_tenantId (f u) = u_tenantId u \<or> u_tenantId (f u) = None"
    and adm: "\<And>u. u \<in> set (users (database sys)) \<Longrightarrow> u_role (f u) = Some ''admin''
                \<Longrightarrow> u_tenantId (f u) \<noteq> None"
    and keep: "\<And>t. t \<in> set (tenants (database sys)) \<Longrightarrow>
                \<exists>u \<in> set (users (database sys)).
                   u_tenantId (f u) = Some (t_id t) \<and> u_role (f u) = Some ''admin''"
  shows "invariant (sys\<lparr>database := d'\<rparr>)"
proof -
  have i1: "inv_ids d'"
    using inv by (simp add: invariant_def inv_ids_def us ids o_def)
  have i2: "inv_admin_tenant d'"
    using adm by (auto simp: inv_admin_tenant_def us)
  have i3: "inv_tenant_admin d'"
    using keep by (fastforce simp: inv_tenant_admin_def us ts)
  have i4: "inv_user_tenant d'"
  proof -
    have old: "inv_user_tenant (database sys)"
      using inv by (simp add: invariant_def)
    show ?thesis
      unfolding inv_user_tenant_def us ts
    proof (intro ballI allI impI)
      fix u tid
      assume u: "u \<in> set (map f (users (database sys)))" and t: "u_tenantId u = Some tid"
      then obtain u0 where u0: "u0 \<in> set (users (database sys))" "u = f u0" by auto
      with ten [of u0] t have "u_tenantId u0 = Some tid" by auto
      with old u0 show "tid \<in> set (map t_id (tenants (database sys)))"
        by (auto simp: inv_user_tenant_def)
    qed
  qed
  have i5: "inv_sessions (sys\<lparr>database := d'\<rparr>)"
  proof -
    have old: "inv_sessions sys"
      using inv by (simp add: invariant_def)
    show ?thesis
      unfolding inv_sessions_def
    proof (intro allI impI)
      fix sid uid
      assume "userId (sessions (sys\<lparr>database := d'\<rparr>) sid) = Some uid"
      then have "userId (sessions sys sid) = Some uid" by simp
      with old obtain u0 where u0: "u0 \<in> set (users (database sys))" "u_id u0 = uid"
        "\<forall>t. tenantId (sessions sys sid) = Some t \<longrightarrow> u_tenantId u0 = Some t \<or> u_tenantId u0 = None"
        unfolding inv_sessions_def by blast
      have "f u0 \<in> set (users (database (sys\<lparr>database := d'\<rparr>)))"
        using u0 by (simp add: us)
      moreover have "u_id (f u0) = uid"
        using u0 ids by simp
      moreover have "\<forall>t. tenantId (sessions (sys\<lparr>database := d'\<rparr>) sid) = Some t \<longrightarrow>
           u_tenantId (f u0) = Some t \<or> u_tenantId (f u0) = None"
        using u0(3) ten [of u0] by auto
      ultimately show "\<exists>u \<in> set (users (database (sys\<lparr>database := d'\<rparr>))). u_id u = uid
            \<and> (\<forall>t. tenantId (sessions (sys\<lparr>database := d'\<rparr>) sid) = Some t \<longrightarrow>
                  u_tenantId u = Some t \<or> u_tenantId u = None)"
        by blast
    qed
  qed
  show ?thesis
    using i1 i2 i3 i4 i5 by (simp add: invariant_def)
qed

lemma find_SomeD: "find P xs = Some x \<Longrightarrow> x \<in> set xs \<and> P x"
  by (induction xs) (auto split: if_splits)

lemma distinct_map_eq:
  "distinct (map f xs) \<Longrightarrow> x \<in> set xs \<Longrightarrow> y \<in> set xs \<Longrightarrow> f x = f y \<Longrightarrow> x = y"
  by (meson distinct_map inj_on_eq_iff)

lemma authenticated_userId: "authenticated s = Some me \<Longrightarrow> userId s = Some me"
  by (auto simp: authenticated_def split: if_splits)

lemma admin_is_member:
  assumes inv: "invariant sys"
    and me: "authenticated (sessions sys sid) = Some me"
    and adm: "isAdmin me (database sys)"
    and t0: "tenantId (sessions sys sid) = Some t0"
  shows "\<exists>a \<in> set (users (database sys)).
           u_id a = me \<and> u_role a = Some ''admin'' \<and> u_tenantId a = Some t0"
proof -
  from adm obtain a where a: "getUser me (database sys) = Some a" "u_role a = Some ''admin''"
    by (auto simp: isAdmin_def split: option.splits)
  then have a_in: "a \<in> set (users (database sys))" "u_id a = me"
    using find_SomeD [of "\<lambda>u. u_id u = me" "users (database sys)" a]
    by (auto simp: getUser_def)
  from inv have "inv_sessions sys" by (simp add: invariant_def)
  with authenticated_userId [OF me] t0 obtain u where
    u: "u \<in> set (users (database sys))" "u_id u = me" "u_tenantId u = Some t0 \<or> u_tenantId u = None"
    unfolding inv_sessions_def by blast
  from inv have "distinct (map u_id (users (database sys)))"
    by (simp add: invariant_def inv_ids_def)
  with a_in u have "u = a"
    using distinct_map_eq [of u_id "users (database sys)" u a] by simp
  moreover from inv a a_in have "u_tenantId a \<noteq> None"
    by (auto simp: invariant_def inv_admin_tenant_def)
  ultimately show ?thesis
    using a a_in u by auto
qed

lemma invariant_updateUserPassword:
  "invariant sys \<Longrightarrow> invariant (sys\<lparr>database := snd (updateUserPassword now uid h (database sys))\<rparr>)"
proof (rule invariant_map_users [where f = "\<lambda>u. if u_id u = uid
            then u\<lparr>u_passwordHash := Some h, u_updatedAt := Some now\<rparr> else u"])
  assume inv: "invariant sys"
  show "invariant sys" by (rule inv)
  show "users (snd (updateUserPassword now uid h (database sys)))
      = map (\<lambda>u. if u_id u = uid then u\<lparr>u_passwordHash := Some h, u_updatedAt := Some now\<rparr> else u)
          (users (database sys))"
    by (simp add: updateUserPassword_def Let_def)
  show "tenants (snd (updateUserPassword now uid h (database sys))) = tenants (database sys)"
    by (simp add: updateUserPassword_def Let_def)
  show "\<And>u. u \<in> set (users (database sys)) \<Longrightarrow>
      u_role (if u_id u = uid then u\<lparr>u_passwordHash := Some h, u_updatedAt := Some now\<rparr> else u)
        = Some ''admin'' \<Longrightarrow>
      u_tenantId (if u_id u = uid then u\<lparr>u_passwordHash := Some h, u_updatedAt := Some now\<rparr> else u)
        \<noteq> None"
    using inv by (auto simp: invariant_def inv_admin_tenant_def split: if_splits)
  show "\<And>t. t \<in> set (tenants (database sys)) \<Longrightarrow>
      \<exists>u \<in> set (users (database sys)).
        u_tenantId (if u_id u = uid then u\<lparr>u_passwordHash := Some h, u_updatedAt := Some now\<rparr> else u)
          = Some (t_id t)
        \<and> u_role (if u_id u = uid then u\<lparr>u_passwordHash := Some h, u_updatedAt := Some now\<rparr> else u)
          = Some ''admin''"
    using inv by (fastforce simp: invariant_def inv_tenant_admin_def)
qed auto

lemma invariant_change_password:
  "invariant sys \<Longrightarrow>
   invariant (sys\<lparr>database := snd (post_auth_change_password rt h now s b (database sys))\<rparr>)"
  using invariant_updateUserPassword [of sys]
  by (auto simp: post_auth_change_password_def split: option.splits json.splits)

lemma invariant_reset_password:
  "invariant sys \<Longrightarrow>
   invariant (sys\<lparr>database := snd (put_admin_users_reset_password h now s target b (database sys))\<rparr>)"
  using invariant_updateUserPassword [of sys]
  by (auto simp: put_admin_users_reset_password_def split: option.splits json.splits)

lemma user_in_tenant_Some:
  "user_in_tenant target tid u \<Longrightarrow> u_id u = target \<and> u_tenantId u = tid \<and> tid \<noteq> None"
  by (auto simp: user_in_tenant_def sql_eq_def split: option.splits)

lemma put_admin_users_role_snd:
  "snd (put_admin_users_role s target b d) =
     (case authenticated s of None \<Rightarrow> d
      | Some me \<Rightarrow>
          if \<not> isAdmin me d then d
          else (case b ''role'' of
              Some (JStr role) \<Rightarrow>
                if role \<noteq> ''admin'' \<and> role \<noteq> ''user'' then d
                else if target = me \<and> role = ''user'' then d
                else snd (updateUserRole target (tenantId s) role d)
            | _ \<Rightarrow> d))"
  by (simp add: put_admin_users_role_def split_beta split: option.split json.split)

lemma put_admin_users_role_cases:
  "snd (put_admin_users_role s target b d) = d
   \<or> (\<exists>me role. authenticated s = Some me \<and> isAdmin me d
         \<and> (role = ''admin'' \<or> role = ''user'') \<and> \<not> (target = me \<and> role = ''user'')
         \<and> snd (put_admin_users_role s target b d) = snd (updateUserRole target (tenantId s) role d))"
proof (cases "authenticated s")
  case None
  then show ?thesis by (simp add: put_admin_users_role_snd)
next
  case (Some me)
  show ?thesis
  proof (cases "isAdmin me d")
    case False
    with Some show ?thesis by (simp add: put_admin_users_role_snd)
  next
    case True
    show ?thesis
    proof (cases "\<exists>role. b ''role'' = Some (JStr role) \<and> (role = ''admin'' \<or> role = ''user'')
                     \<and> \<not> (target = me \<and> role = ''user'')")
      case False
      with Some True have "snd (put_admin_users_role s target b d) = d"
        by (auto simp: put_admin_users_role_snd split: option.split json.split)
      then show ?thesis by simp
    next
      case yes: True
      then obtain role where r: "b ''role'' = Some (JStr role)" "role = ''admin'' \<or> role = ''user''"
          "\<not> (target = me \<and> role = ''user'')" by blast
      with Some True have "snd (put_admin_users_role s target b d)
          = snd (updateUserRole target (tenantId s) role d)"
        by (auto simp: put_admin_users_role_snd)
      with Some True r show ?thesis by blast
    qed
  qed
qed

lemma delete_admin_users_cases:
  "snd (delete_admin_users s target d) = d
   \<or> (\<exists>me. authenticated s = Some me \<and> isAdmin me d \<and> target \<noteq> me
         \<and> snd (delete_admin_users s target d) = removeUserFromTenant target (tenantId s) d)"
  by (cases "authenticated s") (simp_all add: delete_admin_users_def)

text \<open>A rewrite of the rows of \<open>target\<close> in the requester's tenant that spares the requester.\<close>

lemma invariant_admin_rewrite:
  assumes inv: "invariant sys"
    and me: "authenticated (sessions sys sid) = Some me"
    and adm: "isAdmin me (database sys)"
    and us: "users d' = map (\<lambda>u. if user_in_tenant target (tenantId (sessions sys sid)) u
                                 then g u else u) (users (database sys))"
    and ts: "tenants d' = tenants (database sys)"
    and ids: "\<And>u. u_id (g u) = u_id u"
    and ten: "\<And>u. u_tenantId (g u) = u_tenantId u \<or> u_tenantId (g u) = None"
    and gadm: "\<And>u. u_role (g u) = Some ''admin'' \<Longrightarrow> u_tenantId (g u) = u_tenantId u"
    and spare: "target \<noteq> me \<or> (\<forall>u. u_role u = Some ''admin'' \<longrightarrow>
                   u_role (g u) = Some ''admin'' \<and> u_tenantId (g u) = u_tenantId u)"
  shows "invariant (sys\<lparr>database := d'\<rparr>)"
proof (rule invariant_map_users [OF inv us ts])
  let ?tid = "tenantId (sessions sys sid)"
  let ?f = "\<lambda>u. if user_in_tenant target ?tid u then g u else u"
  show "\<And>u. u_id (?f u) = u_id u"
    by (simp add: ids)
  show "\<And>u. u_tenantId (?f u) = u_tenantId u \<or> u_tenantId (?f u) = None"
    using ten by simp
  show "\<And>u. u \<in> set (users (database sys)) \<Longrightarrow> u_role (?f u) = Some ''admin''
          \<Longrightarrow> u_tenantId (?f u) \<noteq> None"
  proof -
    fix u
    assume u: "u \<in> set (users (database sys))" and r: "u_role (?f u) = Some ''admin''"
    show "u_tenantId (?f u) \<noteq> None"
    proof (cases "user_in_tenant target ?tid u")
      case True
      then have "u_tenantId u \<noteq> None"
        using user_in_tenant_Some by fastforce
      with True r gadm [of u] show ?thesis by simp
    next
      case False
      with u r inv show ?thesis
        by (auto simp: invariant_def inv_admin_tenant_def)
    qed
  qed
  show "\<And>t. t \<in> set (tenants (database sys)) \<Longrightarrow>
          \<exists>u \<in> set (users (database sys)).
             u_tenantId (?f u) = Some (t_id t) \<and> u_role (?f u) = Some ''admin''"
  proof -
    fix t
    assume t: "t \<in> set (tenants (database sys))"
    with inv obtain u where u: "u \<in> set (users (database sys))"
        "u_tenantId u = Some (t_id t)" "u_role u = Some ''admin''"
      by (auto simp: invariant_def inv_tenant_admin_def)
    show "\<exists>u \<in> set (users (database sys)).
             u_tenantId (?f u) = Some (t_id t) \<and> u_role (?f u) = Some ''admin''"
    proof (cases "user_in_tenant target ?tid u")
      case False
      with u show ?thesis by auto
    next
      case True
      then have hit: "u_id u = target" "?tid = Some (t_id t)"
        using user_in_tenant_Some [OF True] u by auto
      from spare show ?thesis
      proof
        assume "target \<noteq> me"
        from admin_is_member [OF inv me adm hit(2)] obtain a where
          a: "a \<in> set (users (database sys))" "u_id a = me" "u_role a = Some ''admin''"
             "u_tenantId a = Some (t_id t)" by blast
        with \<open>target \<noteq> me\<close> have "\<not> user_in_tenant target ?tid a"
          by (auto simp: user_in_tenant_def)
        with a show ?thesis by auto
      next
        assume "\<forall>u. u_role u = Some ''admin'' \<longrightarrow>
                   u_role (g u) = Some ''admin'' \<and> u_tenantId (g u) = u_tenantId u"
        with u have "u_role (g u) = Some ''admin'' \<and> u_tenantId (g u) = Some (t_id t)"
          by auto
        with u(1) True show ?thesis
          by (intro bexI [of _ u]) auto
      qed
    qed
  qed
qed

lemma invariant_set_role:
  assumes inv: "invariant sys"
  shows "invariant (sys\<lparr>database :=
            snd (put_admin_users_role (sessions sys sid) target b (database sys))\<rparr>)"
proof -
  let ?s = "sessions sys sid" and ?d = "database sys"
  from put_admin_users_role_cases [of ?s target b ?d] show ?thesis
  proof
    assume "snd (put_admin_users_role ?s target b ?d) = ?d"
    with inv show ?thesis by simp
  next
    assume "\<exists>me role. authenticated ?s = Some me \<and> isAdmin me ?d
         \<and> (role = ''admin'' \<or> role = ''user'') \<and> \<not> (target = me \<and> role = ''user'')
         \<and> snd (put_admin_users_role ?s target b ?d) = snd (updateUserRole target (tenantId ?s) role ?d)"
    then obtain me role where me: "authenticated ?s = Some me" and adm: "isAdmin me ?d"
      and role: "role = ''admin'' \<or> role = ''user''"
      and ok: "\<not> (target = me \<and> role = ''user'')"
      and eq: "snd (put_admin_users_role ?s target b ?d) = snd (updateUserRole target (tenantId ?s) role ?d)"
      by blast
    have "invariant (sys\<lparr>database := snd (updateUserRole target (tenantId ?s) role ?d)\<rparr>)"
    proof (rule invariant_admin_rewrite [OF inv me adm, where g = "\<lambda>u. u\<lparr>u_role := Some role\<rparr>"
          and target = target])
      show "users (snd (updateUserRole target (tenantId ?s) role ?d))
          = map (\<lambda>u. if user_in_tenant target (tenantId ?s) u then u\<lparr>u_role := Some role\<rparr> else u)
              (users ?d)"
        by (simp add: updateUserRole_def Let_def)
      show "tenants (snd (updateUserRole target (tenantId ?s) role ?d)) = tenants ?d"
        by (simp add: updateUserRole_def Let_def)
      show "target \<noteq> me \<or> (\<forall>u. u_role u = Some ''admin'' \<longrightarrow>
               u_role (u\<lparr>u_role := Some role\<rparr>) = Some ''admin''
               \<and> u_tenantId (u\<lparr>u_role := Some role\<rparr>) = u_tenantId u)"
        using role ok by auto
    qed auto
    with eq show ?thesis by simp
  qed
qed

lemma invariant_remove_user:
  assumes inv: "invariant sys"
  shows "invariant (sys\<lparr>database := snd (delete_admin_users (sessions sys sid) target (database sys))\<rparr>)"
proof -
  let ?s = "sessions sys sid" and ?d = "database sys"
  from delete_admin_users_cases [of ?s target ?d] show ?thesis
  proof
    assume "snd (delete_admin_users ?s target ?d) = ?d"
    with inv show ?thesis by simp
  next
    assume "\<exists>me. authenticated ?s = Some me \<and> isAdmin me ?d \<and> target \<noteq> me
         \<and> snd (delete_admin_users ?s target ?d) = removeUserFromTenant target (tenantId ?s) ?d"
    then obtain me where me: "authenticated ?s = Some me" and adm: "isAdmin me ?d"
      and ok: "target \<noteq> me"
      and eq: "snd (delete_admin_users ?s target ?d) = removeUserFromTenant target (tenantId ?s) ?d"
      by blast
    have "invariant (sys\<lparr>database := removeUserFromTenant target (tenantId ?s) ?d\<rparr>)"
    proof (rule invariant_admin_rewrite [OF inv me adm,
          where g = "\<lambda>u. u\<lparr>u_tenantId := None, u_role := Some ''user''\<rparr>" and target = target])
      show "users (removeUserFromTenant target (tenantId ?s) ?d)
          = map (\<lambda>u. if user_in_tenant target (tenantId ?s) u
                       then u\<lparr>u_tenantId := None, u_role := Some ''user''\<rparr> else u) (users ?d)"
        by (simp add: removeUserFromTenant_def)
      show "tenants (removeUserFromTenant target (tenantId ?s) ?d) = tenants ?d"
        by (simp add: removeUserFromTenant_def)
      show "target \<noteq> me \<or> (\<forall>u. u_role u = Some ''admin'' \<longrightarrow>
               u_role (u\<lparr>u_tenantId := None, u_role := Some ''user''\<rparr>) = Some ''admin''
               \<and> u_tenantId (u\<lparr>u_tenantId := None, u_role := Some ''user''\<rparr>) = u_tenantId u)"
        using ok by simp
    qed auto
    with eq show ?thesis by simp
  qed
qed

lemma parse_register_Inr:
  "parse_register rt b = Inr input \<Longrightarrow> b ''domain'' = Some (JStr (ri_domain input))"
  by (auto simp: parse_register_def split: option.splits json.splits if_splits)

lemma register_in_tenant_success:
  assumes fresh: "re_user_uuid env \<notin> set (map u_id (users d))"
    and email: "getUserByEmail (ri_email input) d = None"
  shows "\<exists>u d'. register_in_tenant env input t s d
            = (Response 201 (AuthUser (auth_user_of u)),
               s\<lparr>userId := Some (u_id u), tenantId := u_tenantId u\<rparr>, d')
          \<and> users d' = users d @ [u] \<and> tenants d' = tenants d
          \<and> u_id u = re_user_uuid env \<and> u_tenantId u = Some (t_id t)
          \<and> u_role u = Some (if getUsersByTenant (Some (t_id t)) d = [] then ''admin'' else ''user'')"
proof -
  let ?c = "\<lparr>cu_email = ri_email input, cu_passwordHash = re_passwordHash env,
                 cu_firstName = ri_firstName input, cu_lastName = ri_lastName input,
                 cu_tenantId = Some (t_id t),
                 cu_role = Some (if length (getUsersByTenant (Some (t_id t)) d) = 0
                                 then ''admin'' else ''user'')\<rparr>"
  from createUser_succeeds [of "re_user_uuid env" d ?c "re_user_now env"] fresh email
  obtain u d' where c: "createUser (re_user_uuid env) (re_user_now env) ?c d = Inr (u, d')"
    by auto
  from createUser_Inr [OF c] have
    "u_id u = re_user_uuid env" "u_tenantId u = Some (t_id t)"
    "u_role u = Some (if getUsersByTenant (Some (t_id t)) d = [] then ''admin'' else ''user'')"
    "users d' = users d @ [u]" "tenants d' = tenants d"
    by (auto simp: truthy_def)
  with c show ?thesis
    by (simp add: register_in_tenant_def Let_def)
qed

text \<open>What a registration does, when the generated user id is unused.\<close>

lemma post_auth_register_outcome:
  assumes fresh: "re_user_uuid env \<notin> set (map u_id (users d))"
  shows "(\<not> created (fst (post_auth_register rt env s b d))
            \<and> post_auth_register rt env s b d = (fst (post_auth_register rt env s b d), s, d))
       \<or> (\<exists>input t u dT d'.
             parse_register rt b = Inr input
           \<and> post_auth_register rt env s b d
               = (Response 201 (AuthUser (auth_user_of u)),
                  s\<lparr>userId := Some (u_id u), tenantId := u_tenantId u\<rparr>, d')
           \<and> (getTenantByDomain (ri_domain input) d = Some t \<and> dT = d
                \<or> getTenantByDomain (ri_domain input) d = None
                  \<and> createTenant (re_tenant_uuid env) (re_tenant_now env)
                       \<lparr>it_name = ri_domain input, it_domain = Some (ri_domain input),
                        it_subdomain = Some (ri_domain input)\<rparr> d = Inr (t, dT))
           \<and> users d' = users dT @ [u] \<and> tenants d' = tenants dT
           \<and> u_id u = re_user_uuid env \<and> u_tenantId u = Some (t_id t)
           \<and> u_role u = Some (if getUsersByTenant (Some (t_id t)) dT = [] then ''admin'' else ''user''))"
proof (cases "parse_register rt b")
  case (Inl key)
  then show ?thesis
    by (simp add: post_auth_register_def created_def)
next
  case (Inr input)
  show ?thesis
  proof (cases "getUserByEmail (ri_email input) d = None")
    case False
    with Inr show ?thesis
      by (simp add: post_auth_register_def created_def)
  next
    case email: True
    show ?thesis
    proof (cases "getTenantByDomain (ri_domain input) d")
      case (Some t)
      from register_in_tenant_success [OF fresh email, of t s] obtain u d' where
        "register_in_tenant env input t s d
            = (Response 201 (AuthUser (auth_user_of u)),
               s\<lparr>userId := Some (u_id u), tenantId := u_tenantId u\<rparr>, d')"
        "users d' = users d @ [u]" "tenants d' = tenants d"
        "u_id u = re_user_uuid env" "u_tenantId u = Some (t_id t)"
        "u_role u = Some (if getUsersByTenant (Some (t_id t)) d = [] then ''admin'' else ''user'')"
        by blast
      with Inr email Some show ?thesis
        by (intro disjI2 exI [of _ input] exI [of _ t] exI [of _ u] exI [of _ d] exI [of _ d'])
           (simp add: post_auth_register_def)
    next
      case None
      let ?it = "\<lparr>it_name = ri_domain input, it_domain = Some (ri_domain input),
                        it_subdomain = Some (ri_domain input)\<rparr>"
      show ?thesis
      proof (cases "createTenant (re_tenant_uuid env) (re_tenant_now env) ?it d")
        case (Inl err)
        with Inr email None show ?thesis
          by (simp add: post_auth_register_def created_def registration_failed_def)
      next
        case (Inr p)
        obtain t dT where p: "p = (t, dT)" by (cases p)
        from createTenant_Inr [OF Inr [unfolded p]] have dT: "users dT = users d" by simp
        have fresh': "re_user_uuid env \<notin> set (map u_id (users dT))"
          using fresh dT by simp
        have email': "getUserByEmail (ri_email input) dT = None"
          using email dT by (simp add: getUserByEmail_def)
        from register_in_tenant_success [OF fresh' email', of t s] obtain u d' where
          "register_in_tenant env input t s dT
            = (Response 201 (AuthUser (auth_user_of u)),
               s\<lparr>userId := Some (u_id u), tenantId := u_tenantId u\<rparr>, d')"
          "users d' = users dT @ [u]" "tenants d' = tenants dT"
          "u_id u = re_user_uuid env" "u_tenantId u = Some (t_id t)"
          "u_role u = Some (if getUsersByTenant (Some (t_id t)) dT = [] then ''admin'' else ''user'')"
          by blast
        with \<open>parse_register rt b = Inr input\<close> email None Inr p show ?thesis
          by (intro disjI2 exI [of _ input] exI [of _ t] exI [of _ u] exI [of _ dT] exI [of _ d'])
             (simp add: post_auth_register_def)
      qed
    qed
  qed
qed

lemma no_members_of_new_tenant:
  assumes "inv_user_tenant d" and "ident \<notin> set (map t_id (tenants d))"
  shows "getUsersByTenant (Some ident) d = []"
  using assms
  by (auto simp: getUsersByTenant_def inv_user_tenant_def sql_eq_def filter_empty_conv
      split: option.splits)

lemma members_of_old_tenant:
  assumes "inv_tenant_admin d" and "t \<in> set (tenants d)"
  shows "getUsersByTenant (Some (t_id t)) d \<noteq> []"
  using assms
  by (fastforce simp: getUsersByTenant_def inv_tenant_admin_def sql_eq_def filter_empty_conv)

text \<open>A successful registration: its role, the invariant and the tenant directory.\<close>

lemma register_step:
  assumes inv: "invariant sys"
    and fresh: "re_user_uuid env \<notin> set (map u_id (users (database sys)))"
    and ok: "created (fst (post_auth_register rt env (sessions sys sid) b (database sys)))"
  shows "\<exists>input u s' d'.
           parse_register rt b = Inr input
         \<and> post_auth_register rt env (sessions sys sid) b (database sys)
             = (Response 201 (AuthUser (auth_user_of u)), s', d')
         \<and> u_role u = Some (if getTenantByDomain (ri_domain input) (database sys) = None
                             then ''admin'' else ''user'')
         \<and> invariant \<lparr>database = d', sessions = (sessions sys)(sid := s')\<rparr>
         \<and> set (map t_domain (tenants d'))
             = insert (Some (ri_domain input)) (set (map t_domain (tenants (database sys))))
         \<and> u \<in> set (users d')"
proof -
  let ?d = "database sys" and ?s = "sessions sys sid"
  from post_auth_register_outcome [OF fresh, of rt ?s b] ok
  obtain input t u dT d' where
    parse: "parse_register rt b = Inr input"
    and eq: "post_auth_register rt env ?s b ?d
               = (Response 201 (AuthUser (auth_user_of u)),
                  ?s\<lparr>userId := Some (u_id u), tenantId := u_tenantId u\<rparr>, d')"
    and tenant: "getTenantByDomain (ri_domain input) ?d = Some t \<and> dT = ?d
                \<or> getTenantByDomain (ri_domain input) ?d = None
                  \<and> createTenant (re_tenant_uuid env) (re_tenant_now env)
                       \<lparr>it_name = ri_domain input, it_domain = Some (ri_domain input),
                        it_subdomain = Some (ri_domain input)\<rparr> ?d = Inr (t, dT)"
    and us: "users d' = users dT @ [u]" and ts: "tenants d' = tenants dT"
    and uid: "u_id u = re_user_uuid env" and ut: "u_tenantId u = Some (t_id t)"
    and role: "u_role u = Some (if getUsersByTenant (Some (t_id t)) dT = [] then ''admin'' else ''user'')"
    by blast
  from inv have i1: "distinct (map u_id (users ?d))" and i2: "inv_admin_tenant ?d"
    and i3: "inv_tenant_admin ?d" and i4: "inv_user_tenant ?d" and i5: "inv_sessions sys"
    by (simp_all add: invariant_def inv_ids_def)
  let ?s' = "?s\<lparr>userId := Some (u_id u), tenantId := u_tenantId u\<rparr>"
  let ?sys' = "\<lparr>database = d', sessions = (sessions sys)(sid := ?s')\<rparr>"
  txt \<open>The two cases agree on everything but the tenant list and the role.\<close>
  have facts: "users dT = users ?d \<and> t \<in> set (tenants dT) \<and> t_domain t = Some (ri_domain input)
      \<and> set (tenants ?d) \<subseteq> set (tenants dT)
      \<and> set (map t_domain (tenants dT))
          = insert (Some (ri_domain input)) (set (map t_domain (tenants ?d)))
      \<and> u_role u = Some (if getTenantByDomain (ri_domain input) ?d = None
                             then ''admin'' else ''user'')
      \<and> (tenants dT = tenants ?d \<and> t \<in> set (tenants ?d)
           \<or> u_role u = Some ''admin'' \<and> tenants dT = tenants ?d @ [t])"
    using tenant
  proof
    assume old: "getTenantByDomain (ri_domain input) ?d = Some t \<and> dT = ?d"
    then have t: "t \<in> set (tenants ?d)" "t_domain t = Some (ri_domain input)"
      using find_SomeD [of "\<lambda>t. t_domain t = Some (ri_domain input)" "tenants ?d" t]
      by (auto simp: getTenantByDomain_def)
    from members_of_old_tenant [OF i3 t(1)] role old
    have "u_role u = Some ''user''" by simp
    moreover have "Some (ri_domain input) \<in> t_domain ` set (tenants ?d)"
      using t by (metis imageI)
    ultimately show ?thesis using old t by auto
  next
    assume new: "getTenantByDomain (ri_domain input) ?d = None
                  \<and> createTenant (re_tenant_uuid env) (re_tenant_now env)
                       \<lparr>it_name = ri_domain input, it_domain = Some (ri_domain input),
                        it_subdomain = Some (ri_domain input)\<rparr> ?d = Inr (t, dT)"
    from createTenant_Inr [of "re_tenant_uuid env" "re_tenant_now env" _ ?d t dT] new
    have c: "t_id t = re_tenant_uuid env" "t_domain t = Some (ri_domain input)"
      "users dT = users ?d" "tenants dT = tenants ?d @ [t]"
      "re_tenant_uuid env \<notin> set (map t_id (tenants ?d))"
      by auto
    have "getUsersByTenant (Some (t_id t)) dT = getUsersByTenant (Some (t_id t)) ?d"
      by (simp add: getUsersByTenant_def c)
    also have "\<dots> = []"
      using no_members_of_new_tenant [OF i4, of "t_id t"] c by simp
    finally have "u_role u = Some ''admin''"
      using role by simp
    with new c show ?thesis by auto
  qed
  have j1: "inv_ids d'"
    using i1 fresh uid facts by (simp add: inv_ids_def us)
  have j2: "inv_admin_tenant d'"
    using i2 ut facts by (auto simp: inv_admin_tenant_def us)
  have j3: "inv_tenant_admin d'"
    unfolding inv_tenant_admin_def
  proof
    fix t0
    assume "t0 \<in> set (tenants d')"
    then have "t0 \<in> set (tenants ?d) \<or> (t0 = t \<and> u_role u = Some ''admin'')"
      using facts ts by auto
    then show "\<exists>u \<in> set (users d'). u_tenantId u = Some (t_id t0) \<and> u_role u = Some ''admin''"
    proof
      assume "t0 \<in> set (tenants ?d)"
      with i3 obtain u0 where "u0 \<in> set (users ?d)" "u_tenantId u0 = Some (t_id t0)"
          "u_role u0 = Some ''admin''"
        by (auto simp: inv_tenant_admin_def)
      with facts us show ?thesis by auto
    next
      assume "t0 = t \<and> u_role u = Some ''admin''"
      with ut us show ?thesis by auto
    qed
  qed
  have j4: "inv_user_tenant d'"
    unfolding inv_user_tenant_def
  proof (intro ballI allI impI)
    fix u0 tid
    assume u0: "u0 \<in> set (users d')" and tid: "u_tenantId u0 = Some tid"
    from u0 us facts have "u0 \<in> set (users ?d) \<or> u0 = u" by auto
    then show "tid \<in> set (map t_id (tenants d'))"
    proof
      assume "u0 \<in> set (users ?d)"
      with i4 tid have "tid \<in> set (map t_id (tenants ?d))"
        by (auto simp: inv_user_tenant_def)
      with facts ts show ?thesis by auto
    next
      assume "u0 = u"
      with tid ut facts ts show ?thesis by auto
    qed
  qed
  have j5: "inv_sessions ?sys'"
    unfolding inv_sessions_def
  proof (intro allI impI)
    fix sid' uid'
    assume a: "userId (sessions ?sys' sid') = Some uid'"
    show "\<exists>u \<in> set (users (database ?sys')). u_id u = uid'
            \<and> (\<forall>t. tenantId (sessions ?sys' sid') = Some t \<longrightarrow>
                  u_tenantId u = Some t \<or> u_tenantId u = None)"
    proof (cases "sid' = sid")
      case True
      with a have "uid' = u_id u" by simp
      with True us show ?thesis by (intro bexI [of _ u]) auto
    next
      case False
      with a have "userId (sessions sys sid') = Some uid'" by simp
      with i5 obtain u0 where "u0 \<in> set (users ?d)" "u_id u0 = uid'"
        "\<forall>t. tenantId (sessions sys sid') = Some t \<longrightarrow> u_tenantId u0 = Some t \<or> u_tenantId u0 = None"
        unfolding inv_sessions_def by blast
      with False us facts show ?thesis by (intro bexI [of _ u0]) auto
    qed
  qed
  have "invariant ?sys'"
    using j1 j2 j3 j4 j5 by (simp add: invariant_def)
  moreover have "set (map t_domain (tenants d'))
             = insert (Some (ri_domain input)) (set (map t_domain (tenants ?d)))"
    using facts ts by simp
  moreover have "u \<in> set (users d')"
    using us by simp
  ultimately show ?thesis
    using parse eq facts by blast
qed

lemma invariant_sessions_update:
  assumes inv: "invariant sys"
    and s': "s' = sessions sys sid \<or> userId s' = None
        \<or> (\<exists>u \<in> set (users (database sys)). userId s' = Some (u_id u)
              \<and> (\<forall>t. tenantId s' = Some t \<longrightarrow> u_tenantId u = Some t \<or> u_tenantId u = None))"
  shows "invariant (sys\<lparr>sessions := (sessions sys)(sid := s')\<rparr>)"
proof -
  from inv have old: "inv_sessions sys" by (simp add: invariant_def)
  have "inv_sessions (sys\<lparr>sessions := (sessions sys)(sid := s')\<rparr>)"
    unfolding inv_sessions_def
  proof (intro allI impI)
    fix sid' uid
    let ?sys' = "sys\<lparr>sessions := (sessions sys)(sid := s')\<rparr>"
    assume a: "userId (sessions ?sys' sid') = Some uid"
    show "\<exists>u \<in> set (users (database ?sys')). u_id u = uid
            \<and> (\<forall>t. tenantId (sessions ?sys' sid') = Some t \<longrightarrow>
                  u_tenantId u = Some t \<or> u_tenantId u = None)"
    proof (cases "sid' = sid")
      case False
      with a old show ?thesis
        unfolding inv_sessions_def by simp
    next
      case True
      from s' show ?thesis
      proof (elim disjE)
        assume "s' = sessions sys sid"
        with a True old show ?thesis
          unfolding inv_sessions_def by simp
      next
        assume "userId s' = None"
        with a True show ?thesis by simp
      next
        assume "\<exists>u \<in> set (users (database sys)). userId s' = Some (u_id u)
              \<and> (\<forall>t. tenantId s' = Some t \<longrightarrow> u_tenantId u = Some t \<or> u_tenantId u = None)"
        then obtain u where "u \<in> set (users (database sys))" "userId s' = Some (u_id u)"
          "\<forall>t. tenantId s' = Some t \<longrightarrow> u_tenantId u = Some t \<or> u_tenantId u = None"
          by blast
        with a True show ?thesis by (intro bexI [of _ u]) auto
      qed
    qed
  qed
  with inv show ?thesis
    by (simp add: invariant_def)
qed

lemma post_auth_login_session:
  "snd (post_auth_login rt s b d) = s
   \<or> (\<exists>u \<in> set (users d). snd (post_auth_login rt s b d)
         = s\<lparr>userId := Some (u_id u),
             tenantId := (if truthy (u_tenantId u) then u_tenantId u else None)\<rparr>)"
proof (cases "\<exists>email password. b ''email'' = Some (JStr email) \<and> b ''password'' = Some (JStr password)")
  case False
  then have "snd (post_auth_login rt s b d) = s"
    by (auto simp: post_auth_login_def split: option.splits json.splits)
  then show ?thesis by simp
next
  case True
  then obtain email password where b: "b ''email'' = Some (JStr email)"
      "b ''password'' = Some (JStr password)" by blast
  show ?thesis
  proof (cases "getUserByEmail email d")
    case None
    with b show ?thesis by (simp add: post_auth_login_def)
  next
    case (Some u)
    then have "u \<in> set (users d)"
      using find_SomeD [of "\<lambda>u. u_email u = email" "users d" u]
      by (simp add: getUserByEmail_def)
    with b Some show ?thesis
      by (auto simp: post_auth_login_def)
  qed
qed

lemma handle_step:
  assumes inv: "invariant sys" and adm: "admissible sys r"
  shows "invariant (snd (handle rt sys r))
       \<and> set (map t_domain (tenants (database (snd (handle rt sys r)))))
          = set (map t_domain (tenants (database sys)))
            \<union> Some ` set (if created (fst (handle rt sys r)) then domain_of r else [])"
proof (cases r)
  case (Register sid b env)
  let ?res = "post_auth_register rt env (sessions sys sid) b (database sys)"
  from adm Register have fresh: "re_user_uuid env \<notin> set (map u_id (users (database sys)))"
    by simp
  show ?thesis
  proof (cases "created (fst ?res)")
    case True
    from register_step [OF inv fresh True] obtain input u s' d' where
      p: "parse_register rt b = Inr input"
      and eq: "?res = (Response 201 (AuthUser (auth_user_of u)), s', d')"
      and i: "invariant \<lparr>database = d', sessions = (sessions sys)(sid := s')\<rparr>"
      and t: "set (map t_domain (tenants d'))
             = insert (Some (ri_domain input)) (set (map t_domain (tenants (database sys))))"
      by blast
    from parse_register_Inr [OF p] have "domain_of r = [ri_domain input]"
      by (simp add: domain_of_def Register)
    with eq i t True show ?thesis
      by (simp add: Register created_def)
  next
    case False
    with post_auth_register_outcome [OF fresh, of rt "sessions sys sid" b]
    have "?res = (fst ?res, sessions sys sid, database sys)"
      by (auto simp: created_def)
    then have "fst (snd ?res) = sessions sys sid \<and> snd (snd ?res) = database sys"
      by (metis fst_conv snd_conv)
    then have "snd (handle rt sys r) = sys"
      by (simp add: Register split_beta)
    with inv False show ?thesis
      by (simp add: Register split_beta)
  qed
next
  case (Login sid b)
  from post_auth_login_session [of rt "sessions sys sid" b "database sys"]
  have "invariant (sys\<lparr>sessions := (sessions sys)
            (sid := snd (post_auth_login rt (sessions sys sid) b (database sys)))\<rparr>)"
  proof
    assume "snd (post_auth_login rt (sessions sys sid) b (database sys)) = sessions sys sid"
    with inv show ?thesis by simp
  next
    assume "\<exists>u \<in> set (users (database sys)).
        snd (post_auth_login rt (sessions sys sid) b (database sys))
         = (sessions sys sid)\<lparr>userId := Some (u_id u),
             tenantId := (if truthy (u_tenantId u) then u_tenantId u else None)\<rparr>"
    then obtain u where u: "u \<in> set (users (database sys))"
      "snd (post_auth_login rt (sessions sys sid) b (database sys))
         = (sessions sys sid)\<lparr>userId := Some (u_id u),
             tenantId := (if truthy (u_tenantId u) then u_tenantId u else None)\<rparr>"
      by blast
    show ?thesis
      by (rule invariant_sessions_update [OF inv]) (use u in \<open>auto split: if_splits\<close>)
  qed
  then show ?thesis
    by (simp add: Login split_beta domain_of_def)
next
  case (Logout sid)
  have "invariant (sys\<lparr>sessions := (sessions sys)(sid := no_session)\<rparr>)"
    by (rule invariant_sessions_update [OF inv]) (simp add: no_session_def)
  then show ?thesis
    by (simp add: Logout post_auth_logout_def domain_of_def)
next
  case (ChangePassword sid b newHash now)
  with invariant_change_password [OF inv] show ?thesis
    by (simp add: split_beta domain_of_def)
       (auto simp: post_auth_change_password_def updateUserPassword_def Let_def
          split: option.splits json.splits)
next
  case (CreatePolicy sid b now)
  with policy_routes_keep_users(1) [of "input_functions rt" now "sessions sys sid" b "database sys"] inv show ?thesis
    by (auto simp: split_beta domain_of_def intro: invariant_cong)
next
  case (UpdatePolicy sid ident b)
  with policy_routes_keep_users(2) [of "input_functions rt" "sessions sys sid" ident b "database sys"] inv show ?thesis
    by (auto simp: split_beta domain_of_def intro: invariant_cong)
next
  case (DeletePolicy sid ident)
  with policy_routes_keep_users(3) [of "sessions sys sid" ident "database sys"] inv show ?thesis
    by (auto simp: split_beta domain_of_def intro: invariant_cong)
next
  case (CreateInvestment sid b now)
  with investment_routes_keep_users(1) [of "input_functions rt" now "sessions sys sid" b "database sys"] inv show ?thesis
    by (auto simp: split_beta domain_of_def intro: invariant_cong)
next
  case (UpdateInvestment sid ident b now)
  with investment_routes_keep_users(2) [of "input_functions rt" now "sessions sys sid" ident b "database sys"] inv
  show ?thesis
    by (auto simp: split_beta domain_of_def intro: invariant_cong)
next
  case (DeleteInvestment sid ident)
  with investment_routes_keep_users(3) [of "sessions sys sid" ident "database sys"] inv show ?thesis
    by (auto simp: split_beta domain_of_def intro: invariant_cong)
next
  case (SetRole sid target b)
  have "tenants (snd (put_admin_users_role (sessions sys sid) target b (database sys)))
      = tenants (database sys)"
    using put_admin_users_role_cases [of "sessions sys sid" target b "database sys"]
    by (auto simp: updateUserRole_def Let_def)
  with invariant_set_role [OF inv, of sid target b] show ?thesis
    by (simp add: SetRole split_beta domain_of_def)
next
  case (RemoveUser sid target)
  have "tenants (snd (delete_admin_users (sessions sys sid) target (database sys)))
      = tenants (database sys)"
    using delete_admin_users_cases [of "sessions sys sid" target "database sys"]
    by (auto simp: removeUserFromTenant_def)
  with invariant_remove_user [OF inv, of sid target] show ?thesis
    by (simp add: RemoveUser split_beta domain_of_def)
next
  case (ResetPassword sid target b newHash now)
  with invariant_reset_password [OF inv] show ?thesis
    by (simp add: split_beta domain_of_def)
       (auto simp: put_admin_users_reset_password_def updateUserPassword_def Let_def
          split: option.splits json.splits)
qed

lemma invariant_initial: "invariant initial"
  by (simp add: invariant_def initial_def empty_db_def inv_ids_def inv_admin_tenant_def
      inv_tenant_admin_def inv_user_tenant_def inv_sessions_def no_session_def)

lemma run_invariant:
  "invariant sys \<Longrightarrow> admissible_run rt sys rs \<Longrightarrow>
     invariant (run rt sys rs)
     \<and> set (map t_domain (tenants (database (run rt sys rs))))
        = set (map t_domain (tenants (database sys))) \<union> Some ` set (registered_domains rt sys rs)"
proof (induction rs arbitrary: sys)
  case Nil
  then show ?case by simp
next
  case (Cons r rs)
  from Cons.prems have adm: "admissible sys r"
    and rest: "admissible_run rt (snd (handle rt sys r)) rs" by simp_all
  from handle_step [OF Cons.prems(1) adm, of rt]
  have inv': "invariant (snd (handle rt sys r))"
    and dom: "set (map t_domain (tenants (database (snd (handle rt sys r)))))
          = set (map t_domain (tenants (database sys)))
            \<union> Some ` set (if created (fst (handle rt sys r)) then domain_of r else [])"
    by simp_all
  from Cons.IH [OF inv' rest] dom show ?case
    by (auto simp: image_Un)
qed

text \<open>
  When no two requests overlap, the first account of a domain is its admin and
  every later one a user. Take any run of the session-backed server from the
  empty database in which every request is handled to its end before the next
  begins and every generated user id was unused, and a registration at its end
  that is answered 201. The role of the account it created, in the answer and in the stored
  row, is \<^verbatim>\<open>admin\<close> when no earlier registration of the run under the same domain
  was answered 201, and \<^verbatim>\<open>user\<close> otherwise. The runs range over every writing
  route of \<^verbatim>\<open>server/routes.ts\<close>, role changes and removals of members included:
  they never leave a tenant without an administrator among its members.
\<close>

theorem registrations_one_at_a_time:
  assumes run: "admissible_run rt initial reqs"
    and adm: "admissible (run rt initial reqs) (Register sid b env)"
    and ok: "fst (handle rt (run rt initial reqs) (Register sid b env)) = Response 201 (AuthUser au)"
    and dname: "b ''domain'' = Some (JStr dname)"
  shows "au_role au = Some (if dname \<in> set (registered_domains rt initial reqs)
                            then ''user'' else ''admin'')
       \<and> (\<exists>u \<in> set (users (database (snd (handle rt (run rt initial reqs) (Register sid b env))))).
             auth_user_of u = au)"
proof -
  let ?sys = "run rt initial reqs"
  let ?res = "post_auth_register rt env (sessions ?sys sid) b (database ?sys)"
  from run_invariant [OF invariant_initial run]
  have inv: "invariant ?sys"
    and doms: "set (map t_domain (tenants (database ?sys)))
                 = Some ` set (registered_domains rt initial reqs)"
    by (simp_all add: initial_def empty_db_def)
  from adm have fresh: "re_user_uuid env \<notin> set (map u_id (users (database ?sys)))"
    by simp
  from ok have res: "fst ?res = Response 201 (AuthUser au)"
    by (simp add: split_beta)
  then have "created (fst ?res)"
    by (simp add: created_def)
  from register_step [OF inv fresh this] obtain input u s' d' where
    p: "parse_register rt b = Inr input"
    and eq: "?res = (Response 201 (AuthUser (auth_user_of u)), s', d')"
    and role: "u_role u = Some (if getTenantByDomain (ri_domain input) (database ?sys) = None
                             then ''admin'' else ''user'')"
    and u: "u \<in> set (users d')"
    by blast
  from eq res have au: "au = auth_user_of u" by simp
  from parse_register_Inr [OF p] dname have d: "ri_domain input = dname" by simp
  have "(getTenantByDomain dname (database ?sys) = None)
      = (dname \<notin> set (registered_domains rt initial reqs))"
  proof -
    have "(getTenantByDomain dname (database ?sys) = None)
        = (Some dname \<notin> set (map t_domain (tenants (database ?sys))))"
      by (simp add: getTenantByDomain_def find_None_iff_all image_iff) (auto simp: eq_commute)
    also have "\<dots> = (Some dname \<notin> Some ` set (registered_domains rt initial reqs))"
      by (simp only: doms)
    also have "\<dots> = (dname \<notin> set (registered_domains rt initial reqs))"
      by auto
    finally show ?thesis .
  qed
  with role d au have "au_role au = Some (if dname \<in> set (registered_domains rt initial reqs)
                            then ''user'' else ''admin'')"
    by (simp add: auth_user_of_def)
  moreover have "\<exists>u \<in> set (users (database (snd (handle rt ?sys (Register sid b env))))).
             auth_user_of u = au"
    using eq u au by (auto simp: split_beta)
  ultimately show ?thesis by simp
qed

lemmas eval_defs = rt0_def register_alice_def register_bob_def register_carol_def
  alice_form_def alice_env_def bob_form_def bob_env_def
  post_auth_register_def parse_register_def register_in_tenant_def createTenant_def createUser_def
  getUserByEmail_def getTenantByDomain_def getUsersByTenant_def getUser_def sql_eq_def truthy_def
  zvalid_def str_opt_def auth_user_of_def Let_def initial_def empty_db_def no_session_def
  registration_failed_def created_def domain_of_def user_row_def acme_tenant_def
  put_admin_users_role_def delete_admin_users_def authenticated_def isAdmin_def
  updateUserRole_def removeUserFromTenant_def user_in_tenant_def

lemma step1: "handle rt0 initial register_alice
    = (Response 201 (AuthUser \<lparr>au_id = ''u1'', au_email = ''alice@x.com'', au_firstName = None,
         au_lastName = None, au_role = Some ''admin'', au_tenantId = Some ''t1''\<rparr>), sys1)"
  by (simp add: eval_defs sys1_def)

lemma step2: "handle rt0 sys1 register_bob
    = (Response 201 (AuthUser \<lparr>au_id = ''u2'', au_email = ''bob@x.com'', au_firstName = None,
         au_lastName = None, au_role = Some ''user'', au_tenantId = Some ''t1''\<rparr>), sys2)"
  by (simp add: eval_defs sys1_def sys2_def)

lemma step3: "handle rt0 sys2 (SetRole ''c1'' ''u2'' [''role'' \<mapsto> JStr ''admin''])
    = (Response 200 (UserRow (user_row ''u2'' ''bob@x.com'' ''$secret2'' (Some ''t1'') ''admin'' 21)), sys3)"
  by (simp add: eval_defs sys2_def sys3_def)

lemma step4: "handle rt0 sys3 (RemoveUser ''c2'' ''u1'') = (Response 204 NoBody, sys4)"
  by (simp add: eval_defs sys2_def sys3_def sys4_def)

lemma step5: "fst (handle rt0 sys4 register_carol)
    = Response 201 (AuthUser \<lparr>au_id = ''u3'', au_email = ''carol@x.com'', au_firstName = None,
         au_lastName = None, au_role = Some ''user'', au_tenantId = Some ''t1''\<rparr>)"
  by (simp add: eval_defs sys2_def sys4_def)

lemma run_history: "run rt0 initial acme_history = sys4"
  by (simp only: acme_history_def run.simps step1 step2 step3 step4 snd_conv)

lemma history_admissible: "admissible_run rt0 initial acme_history"
proof -
  have "admissible initial register_alice" "admissible sys1 register_bob"
    by (simp_all add: eval_defs sys1_def)
  then show ?thesis
    by (simp only: acme_history_def admissible_run.simps admissible.simps
        step1 step2 step3 step4 snd_conv simp_thms)
qed

lemma history_domains: "registered_domains rt0 initial acme_history = [''acme'', ''acme'']"
proof -
  have "domain_of register_alice = [''acme'']" "domain_of register_bob = [''acme'']"
    "domain_of (SetRole ''c1'' ''u2'' [''role'' \<mapsto> JStr ''admin'']) = []"
    "domain_of (RemoveUser ''c2'' ''u1'') = []"
    by (simp_all add: domain_of_def register_alice_def register_bob_def alice_form_def
        bob_form_def)
  moreover have "created (Response 201 (AuthUser au))" for au
    by (simp add: created_def)
  ultimately show ?thesis
    by (simp only: acme_history_def registered_domains.simps step1 step2 step3 step4
        fst_conv snd_conv if_True append.simps)
       (simp add: created_def)
qed

text \<open>
  Alice is the first account of \<^verbatim>\<open>acme\<close> and becomes its admin. After Bob has
  registered, been promoted and removed Alice, Carol's registration under
  \<^verbatim>\<open>acme\<close> still yields a user.
\<close>

theorem registrations_one_at_a_time_witness:
  "admissible_run rt0 initial [] \<and> admissible (run rt0 initial []) register_alice
   \<and> fst (handle rt0 (run rt0 initial []) register_alice)
       = Response 201 (AuthUser \<lparr>au_id = ''u1'', au_email = ''alice@x.com'', au_firstName = None,
           au_lastName = None, au_role = Some ''admin'', au_tenantId = Some ''t1''\<rparr>)
   \<and> admissible_run rt0 initial acme_history
   \<and> admissible (run rt0 initial acme_history) register_carol
   \<and> registered_domains rt0 initial acme_history = [''acme'', ''acme'']
   \<and> fst (handle rt0 (run rt0 initial acme_history) register_carol)
       = Response 201 (AuthUser \<lparr>au_id = ''u3'', au_email = ''carol@x.com'', au_firstName = None,
           au_lastName = None, au_role = Some ''user'', au_tenantId = Some ''t1''\<rparr>)"
proof -
  have a0: "admissible_run rt0 initial []" by simp
  have a1: "admissible (run rt0 initial []) register_alice"
    by (simp add: register_alice_def alice_env_def initial_def empty_db_def)
  have r1: "fst (handle rt0 (run rt0 initial []) register_alice)
       = Response 201 (AuthUser \<lparr>au_id = ''u1'', au_email = ''alice@x.com'', au_firstName = None,
           au_lastName = None, au_role = Some ''admin'', au_tenantId = Some ''t1''\<rparr>)"
    by (simp add: step1)
  have d1: "alice_form ''domain'' = Some (JStr ''acme'')"
    by (simp add: alice_form_def)
  have a2: "admissible (run rt0 initial acme_history) register_carol"
    by (simp add: run_history) (simp add: register_carol_def sys4_def sys2_def user_row_def)
  have r2: "fst (handle rt0 (run rt0 initial acme_history) register_carol)
       = Response 201 (AuthUser \<lparr>au_id = ''u3'', au_email = ''carol@x.com'', au_firstName = None,
           au_lastName = None, au_role = Some ''user'', au_tenantId = Some ''t1''\<rparr>)"
    by (simp add: run_history step5)
  have d2: "[''email'' \<mapsto> JStr ''carol@x.com'', ''password'' \<mapsto> JStr ''secret3'',
      ''domain'' \<mapsto> JStr ''acme''] ''domain'' = Some (JStr ''acme'')"
    by simp
  note t1 = registrations_one_at_a_time
      [OF a0 a1 [unfolded register_alice_def] r1 [unfolded register_alice_def] d1]
  note t2 = registrations_one_at_a_time
      [OF history_admissible a2 [unfolded register_carol_def] r2 [unfolded register_carol_def] d2]
  from t1 t2 a0 a1 r1 history_admissible a2 history_domains r2 show ?thesis
    by blast
qed

end
